theory Spec2Isabelle
  imports Complex_Main "HOL-Library.Sublist"
begin

section \<open>Open Floor Protocol: a shallow embedding of the TypeScript sources\<close>

text \<open>
  The development follows the source files: the utilities (\<^verbatim>\<open>utils.ts\<close>), the
  dialog event model (\<^verbatim>\<open>dialog-event.ts\<close>), the envelope model (\<^verbatim>\<open>envelope.ts\<close>),
  the event classes (\<^verbatim>\<open>events.ts\<close>), the schema validator (\<^verbatim>\<open>validation.ts\<close>) and
  the agents (\<^verbatim>\<open>agents.ts\<close>).

  Conventions. A JavaScript exception is a value of type \<open>error\<close>; a function that may
  throw returns \<open>error + 'a\<close> with \<open>Inl\<close> for the exception. A JavaScript \<^verbatim>\<open>number\<close>
  is a rational (the finite doubles, idealised; integers are exact up to \<open>2^53\<close>), an
  optional property is an \<open>option\<close>, a plain object is an association list in
  enumeration order.
\<close>

datatype error =
    Error string          \<comment> \<open>\<^verbatim>\<open>new Error(message)\<close>\<close>
  | TypeError string      \<comment> \<open>raised by the engine: a property of null/undefined, a missing method\<close>
  | RangeError string     \<comment> \<open>raised by the engine: \<^verbatim>\<open>toISOString\<close> of an invalid Date\<close>
  | SyntaxError string    \<comment> \<open>raised by the engine: an invalid regular expression\<close>
  | IllTyped string       \<comment> \<open>no exception: a value outside the typed model, see below\<close>

section \<open>Utilities (\<^verbatim>\<open>utils.ts\<close>)\<close>

subsection \<open>Decimal digits\<close>

definition is_digit :: "char \<Rightarrow> bool" where
  \<comment> \<open>the regular expression class \<^verbatim>\<open>\d\<close>: the ASCII digits\<close>
  "is_digit c = (48 \<le> (of_char c :: nat) \<and> (of_char c :: nat) \<le> 57)"

definition digit_char :: "nat \<Rightarrow> char" where
  "digit_char d = char_of (48 + d)"

fun show_nat :: "nat \<Rightarrow> string" where
  "show_nat n = (if n < 10 then [digit_char n] else show_nat (n div 10) @ [digit_char (n mod 10)])"

declare show_nat.simps [simp del]

definition show_int :: "int \<Rightarrow> string" where
  \<comment> \<open>Number-to-string conversion of a template literal, for an integral number\<close>
  "show_int i = (if i < 0 then CHR ''-'' # show_nat (nat (- i)) else show_nat (nat i))"

definition digits_val :: "string \<Rightarrow> nat" where
  \<comment> \<open>\<^verbatim>\<open>parseInt(ds, 10)\<close> on a string of digits\<close>
  "digits_val ds = foldl (\<lambda>a c. 10 * a + ((of_char c :: nat) - 48)) 0 ds"

subsection \<open>\<^verbatim>\<open>parseIsoDuration\<close>\<close>

text \<open>
  The source matches the regular expression
  \<^verbatim>\<open>^P(?:(\d+)D)?(?:T(?:(\d+)H)?(?:(\d+)M)?(?:(\d+(?:\.\d+)?)S)?)?$\<close>.
  Every optional group is a run of digits closed by its own letter, so the match is
  deterministic: \<open>opt_group u\<close> is the group \<^verbatim>\<open>(?:(\d+)u)?\<close>, which captures the longest run
  of digits when that run is not empty and is followed by \<open>u\<close>, and otherwise matches
  the empty string and captures nothing.
\<close>

definition opt_group :: "char \<Rightarrow> string \<Rightarrow> string option \<times> string" where
  "opt_group u s =
     (let ds = takeWhile is_digit s; r = dropWhile is_digit s
      in if ds \<noteq> [] \<and> r \<noteq> [] \<and> hd r = u then (Some ds, tl r) else (None, s))"

definition opt_seconds :: "string \<Rightarrow> (string \<times> string option) option \<times> string" where
  \<comment> \<open>the group \<^verbatim>\<open>(?:(\d+(?:\.\d+)?)S)?\<close>: integer digits, optional fraction digits\<close>
  "opt_seconds s =
     (let ds = takeWhile is_digit s; r = dropWhile is_digit s
      in if ds = [] \<or> r = [] then (None, s)
         else if hd r = CHR ''S'' then (Some (ds, None), tl r)
         else if hd r = CHR ''.'' then
           (let fs = takeWhile is_digit (tl r); r' = dropWhile is_digit (tl r)
            in if fs \<noteq> [] \<and> r' \<noteq> [] \<and> hd r' = CHR ''S'' then (Some (ds, Some fs), tl r')
               else (None, s))
         else (None, s))"

definition group_int :: "string option \<Rightarrow> rat" where
  \<comment> \<open>\<^verbatim>\<open>parseInt(matches[i] || '0', 10)\<close>\<close>
  "group_int g = (case g of None \<Rightarrow> 0 | Some ds \<Rightarrow> of_nat (digits_val ds))"

definition group_float :: "(string \<times> string option) option \<Rightarrow> rat" where
  \<comment> \<open>\<^verbatim>\<open>parseFloat(matches[4] || '0')\<close>\<close>
  "group_float g =
     (case g of
        None \<Rightarrow> 0
      | Some (ds, None) \<Rightarrow> of_nat (digits_val ds)
      | Some (ds, Some fs) \<Rightarrow> of_nat (digits_val ds) + of_nat (digits_val fs) / 10 ^ length fs)"

definition parseIsoDuration :: "string \<Rightarrow> error + rat" where
  "parseIsoDuration duration =
     (let invalid = Inl (Error (''Invalid ISO 8601 duration: '' @ duration))
      in case duration of
           [] \<Rightarrow> invalid
         | c # s0 \<Rightarrow>
             if c \<noteq> CHR ''P'' then invalid
             else
               (let (d, s1) = opt_group (CHR ''D'') s0
                in if s1 = [] then Inr (((group_int d * 24 + 0) * 60 + 0) * 60000 + 0 * 1000)
                   else if hd s1 \<noteq> CHR ''T'' then invalid
                   else
                     (let (h, s2) = opt_group (CHR ''H'') (tl s1);
                          (m, s3) = opt_group (CHR ''M'') s2;
                          (sec, s4) = opt_seconds s3
                      in if s4 \<noteq> [] then invalid
                         else Inr (((group_int d * 24 + group_int h) * 60 + group_int m) * 60000
                                   + group_float sec * 1000))))"

subsection \<open>\<^verbatim>\<open>millisecondsToIsoDuration\<close>\<close>

text \<open>
  Limits of the model. The numbers of the source are IEEE doubles, those of the model are
  exact. In \<^verbatim>\<open>millisecondsToIsoDuration\<close> the two agree for an integral number of milliseconds
  below \<open>2^53\<close> in absolute value: a quotient by 1000, 3600 or 60 is then rounded by less than
  its distance to the next integer, so that its floor is the exact one, and the integers are
  written with all their digits. In \<^verbatim>\<open>parseIsoDuration\<close> they agree when the seconds have no
  fraction and every number stays below \<open>2^53\<close>. Outside these bounds the model does not give
  the value of the source: the product of a fraction of a second by 1000 is rounded
  (\<^verbatim>\<open>PT1.001S\<close> gives \<^verbatim>\<open>1000.9999999999999\<close>), a run of digits above \<open>2^53\<close> is rounded, and a
  number from \<open>10^21\<close> is written with an exponent, which \<^verbatim>\<open>parseIsoDuration\<close> rejects. The
  properties below are stated within the bounds.
\<close>

definition js_rem :: "int \<Rightarrow> int \<Rightarrow> int" where
  \<comment> \<open>the JavaScript operator \<^verbatim>\<open>%\<close> on integers: the sign follows the dividend\<close>
  "js_rem a b = sgn a * (\<bar>a\<bar> mod \<bar>b\<bar>)"

definition millisecondsToIsoDuration :: "rat \<Rightarrow> string" where
  "millisecondsToIsoDuration milliseconds =
     (let totalSeconds = \<lfloor>milliseconds / 1000\<rfloor>;
          hours = totalSeconds div 3600;
          minutes = (js_rem totalSeconds 3600) div 60;
          seconds = js_rem totalSeconds 60;
          parts0 = [];
          parts1 = (if hours > 0 then parts0 @ [show_int hours @ ''H''] else parts0);
          parts2 = (if minutes > 0 then parts1 @ [show_int minutes @ ''M''] else parts1);
          parts3 = (if seconds > 0 \<or> length parts2 = 0 then parts2 @ [show_int seconds @ ''S'']
                    else parts2)
      in ''PT'' @ concat parts3)"

section \<open>JavaScript values\<close>

text \<open>
  The values that JSON text decodes to, and \<^verbatim>\<open>undefined\<close>. An object is the list of its
  own enumerable properties in enumeration order, each key once. Properties inherited
  from \<^verbatim>\<open>Object.prototype\<close> are not modelled: property names are taken not to collide
  with them. Objects have no identity: two parts of the data never share an object.
\<close>

datatype json =
    JUndefined
  | JNull
  | JBool bool
  | JNum rat
  | JStr string
  | JArr "json list"
  | JObj "(string \<times> json) list"

definition typeof :: "json \<Rightarrow> string" where
  "typeof v = (case v of
       JUndefined \<Rightarrow> ''undefined'' | JNull \<Rightarrow> ''object'' | JBool _ \<Rightarrow> ''boolean''
     | JNum _ \<Rightarrow> ''number'' | JStr _ \<Rightarrow> ''string'' | JArr _ \<Rightarrow> ''object'' | JObj _ \<Rightarrow> ''object'')"

definition truthy :: "json \<Rightarrow> bool" where
  "truthy v = (case v of
       JUndefined \<Rightarrow> False | JNull \<Rightarrow> False | JBool b \<Rightarrow> b
     | JNum n \<Rightarrow> n \<noteq> 0 | JStr s \<Rightarrow> s \<noteq> [] | JArr _ \<Rightarrow> True | JObj _ \<Rightarrow> True)"

definition isArray :: "json \<Rightarrow> bool" where
  "isArray v = (case v of JArr _ \<Rightarrow> True | _ \<Rightarrow> False)"

definition elements :: "json \<Rightarrow> json list" where
  "elements v = (case v of JArr xs \<Rightarrow> xs | _ \<Rightarrow> [])"

definition indexed :: "'a list \<Rightarrow> (string \<times> 'a) list" where
  \<comment> \<open>the index keys \<^verbatim>\<open>"0"\<close>, \<^verbatim>\<open>"1"\<close>, ... of an array or a string\<close>
  "indexed xs = zip (map show_nat [0..<length xs]) xs"

definition entries :: "json \<Rightarrow> (string \<times> json) list" where
  \<comment> \<open>\<^verbatim>\<open>Object.entries(v)\<close>\<close>
  "entries v = (case v of
       JObj ps \<Rightarrow> ps
     | JArr xs \<Rightarrow> indexed xs
     | JStr s \<Rightarrow> indexed (map (\<lambda>c. JStr [c]) s)
     | _ \<Rightarrow> [])"

definition has_prop :: "string \<Rightarrow> json \<Rightarrow> bool" where
  \<comment> \<open>\<^verbatim>\<open>k in v\<close>, for an object or an array \<open>v\<close>\<close>
  "has_prop k v = (case v of
       JObj ps \<Rightarrow> map_of ps k \<noteq> None
     | JArr xs \<Rightarrow> map_of (indexed xs) k \<noteq> None \<or> k = ''length''
     | _ \<Rightarrow> False)"

definition get_prop :: "json \<Rightarrow> string \<Rightarrow> json" where
  \<comment> \<open>\<^verbatim>\<open>v[k]\<close>, for an object or an array \<open>v\<close>: \<^verbatim>\<open>undefined\<close> when there is no such property\<close>
  "get_prop v k = (case v of
       JObj ps \<Rightarrow> (case map_of ps k of Some x \<Rightarrow> x | None \<Rightarrow> JUndefined)
     | JArr xs \<Rightarrow> (case map_of (indexed xs) k of Some x \<Rightarrow> x
                   | None \<Rightarrow> if k = ''length'' then JNum (of_nat (length xs)) else JUndefined)
     | _ \<Rightarrow> JUndefined)"

definition join :: "string \<Rightarrow> string list \<Rightarrow> string" where
  "join sep xs = (case xs of [] \<Rightarrow> [] | y # ys \<Rightarrow> y @ concat (map (\<lambda>z. sep @ z) ys))"

text \<open>
  What the engine provides is taken as a parameter: the text of a number, the JSON text
  of a value, the compilation of a regular expression (a \<^verbatim>\<open>SyntaxError\<close>, or the \<^verbatim>\<open>test\<close>
  function of the compiled expression), the conversion of a string to a number (\<open>None\<close>
  for \<^verbatim>\<open>NaN\<close>), the ISO text of a valid date (a date is its time value, in milliseconds),
  the date that a text denotes (\<open>None\<close> for an invalid date), the reading of the
  clock by \<^verbatim>\<open>new Date()\<close>, and the exceptions the engine raises: reading a property of
  \<^verbatim>\<open>null\<close> or \<^verbatim>\<open>undefined\<close>, calling a method that the value does not have,
  \<^verbatim>\<open>toISOString\<close> of an invalid date, and \<^verbatim>\<open>Object.entries\<close> of \<^verbatim>\<open>null\<close> or \<^verbatim>\<open>undefined\<close>.
\<close>

record engine =
  numToString :: "rat \<Rightarrow> string"
  jsonStringify :: "json \<Rightarrow> string"
  regExp :: "string \<Rightarrow> error + (string \<Rightarrow> bool)"
  stringToNumber :: "string \<Rightarrow> rat option"
  dateToISOString :: "int \<Rightarrow> string"
  dateParse :: "string \<Rightarrow> int option"
  now :: int
  readError :: "json \<Rightarrow> string \<Rightarrow> error"
  notAFunction :: "string \<Rightarrow> error"
  invalidTime :: error
  notAnObject :: error

fun js_toString :: "engine \<Rightarrow> json \<Rightarrow> string" where
  \<comment> \<open>the conversion of a value to a string, as a template literal or \<^verbatim>\<open>join\<close> does\<close>
  "js_toString E JUndefined = ''undefined''"
| "js_toString E JNull = ''null''"
| "js_toString E (JBool b) = (if b then ''true'' else ''false'')"
| "js_toString E (JNum n) = numToString E n"
| "js_toString E (JStr s) = s"
| "js_toString E (JArr xs) =
     join '','' (map (\<lambda>x. if x = JNull \<or> x = JUndefined then [] else js_toString E x) xs)"
| "js_toString E (JObj ps) = ''[object Object]''"

definition array_join :: "engine \<Rightarrow> string \<Rightarrow> json list \<Rightarrow> string" where
  \<comment> \<open>\<^verbatim>\<open>xs.join(sep)\<close>\<close>
  "array_join E sep xs =
     join sep (map (\<lambda>x. if x = JNull \<or> x = JUndefined then [] else js_toString E x) xs)"

definition message :: "error \<Rightarrow> string" where
  "message e = (case e of Error m \<Rightarrow> m | TypeError m \<Rightarrow> m | RangeError m \<Rightarrow> m | SyntaxError m \<Rightarrow> m
                | IllTyped m \<Rightarrow> m)"

section \<open>The schema validator (\<^verbatim>\<open>validation.ts\<close>)\<close>

record ValidationResult =
  valid :: bool
  errors :: "string list"

definition path_or_root :: "string \<Rightarrow> string" where
  \<comment> \<open>\<^verbatim>\<open>path || 'root'\<close>\<close>
  "path_or_root path = (if path = [] then ''root'' else path)"

definition is_object_data :: "json \<Rightarrow> bool" where
  \<comment> \<open>\<^verbatim>\<open>data && typeof data === 'object'\<close>\<close>
  "is_object_data data = (truthy data \<and> typeof data = ''object'')"

definition typeError :: "engine \<Rightarrow> json \<Rightarrow> (string \<times> json) list \<Rightarrow> string \<Rightarrow> string option" where
  \<comment> \<open>the type validation: the error that ends the validation of this value, if any\<close>
  "typeError E data schema path =
     (let ty = get_prop (JObj schema) ''type''
      in if truthy ty then
           if ty = JStr ''array'' then
             if \<not> isArray data
             then Some (path_or_root path @ '': expected array, got '' @ typeof data)
             else None
           else if JStr (typeof data) \<noteq> ty then
             if \<not> (ty = JStr ''object'' \<and> truthy data \<and> typeof data = ''object'')
             then Some (path_or_root path @ '': expected '' @ js_toString E ty @ '', got '' @ typeof data)
             else None
           else None
         else None)"

definition requiredErrors :: "engine \<Rightarrow> json \<Rightarrow> (string \<times> json) list \<Rightarrow> string \<Rightarrow> string list" where
  "requiredErrors E data schema path =
     (let required = get_prop (JObj schema) ''required''
      in if truthy required \<and> isArray required \<and> is_object_data data then
           concat (map (\<lambda>requiredProp.
               if \<not> has_prop (js_toString E requiredProp) data
                  \<or> get_prop data (js_toString E requiredProp) = JUndefined
               then [path_or_root path @ '': missing required property '' @ [CHR 0x27]
                       @ js_toString E requiredProp @ [CHR 0x27]]
               else [])
             (elements required))
         else [])"

datatype job =
    Validate json json string   \<comment> \<open>a recursive call: data, schema, path\<close>
  | Throw error                 \<comment> \<open>an exception raised between two recursive calls\<close>

definition propertiesJobs :: "json \<Rightarrow> (string \<times> json) list \<Rightarrow> string \<Rightarrow> job list" where
  "propertiesJobs data schema path =
     (let properties = get_prop (JObj schema) ''properties''
      in if truthy properties \<and> is_object_data data then
           concat (map (\<lambda>(propName, propSchema).
               if has_prop propName data
               then [Validate (get_prop data propName) propSchema
                       (if path \<noteq> [] then path @ ''.'' @ propName else propName)]
               else [])
             (entries properties))
         else [])"

fun patternLoop :: "engine \<Rightarrow> json \<Rightarrow> string \<Rightarrow> (string \<times> json) list \<Rightarrow> job list" where
  \<comment> \<open>the loop over the entries of \<^verbatim>\<open>schema.patternProperties\<close>: it ends at the first
      pattern that does not compile\<close>
  "patternLoop E data path [] = []"
| "patternLoop E data path ((pattern, propSchema) # rest) =
     (case regExp E pattern of
        Inl e \<Rightarrow> [Throw e]
      | Inr test \<Rightarrow>
          concat (map (\<lambda>(propName, propValue).
              if test propName
              then [Validate propValue propSchema
                      (if path \<noteq> [] then path @ ''.'' @ propName else propName)]
              else [])
            (entries data))
          @ patternLoop E data path rest)"

definition patternJobs :: "engine \<Rightarrow> json \<Rightarrow> (string \<times> json) list \<Rightarrow> string \<Rightarrow> job list" where
  "patternJobs E data schema path =
     (let patternProperties = get_prop (JObj schema) ''patternProperties''
      in if truthy patternProperties \<and> is_object_data data
         then patternLoop E data path (entries patternProperties)
         else [])"

definition itemsJobs :: "json \<Rightarrow> (string \<times> json) list \<Rightarrow> string \<Rightarrow> job list" where
  "itemsJobs data schema path =
     (let items = get_prop (JObj schema) ''items''
      in if truthy items \<and> isArray data then
           map (\<lambda>(index, item). Validate item items (path @ ''['' @ index @ '']''))
             (indexed (elements data))
         else [])"

definition array_includes :: "json list \<Rightarrow> json \<Rightarrow> bool" where
  \<comment> \<open>\<^verbatim>\<open>xs.includes(v)\<close>: primitive values are compared by value, objects and arrays by
      identity\<close>
  "array_includes xs v = (case v of JArr _ \<Rightarrow> False | JObj _ \<Rightarrow> False | _ \<Rightarrow> v \<in> set xs)"

definition enumErrors :: "engine \<Rightarrow> json \<Rightarrow> (string \<times> json) list \<Rightarrow> string \<Rightarrow> string list" where
  "enumErrors E data schema path =
     (let enum = get_prop (JObj schema) ''enum''
      in if truthy enum \<and> isArray enum then
           if \<not> array_includes (elements enum) data
           then [path_or_root path @ '': value must be one of ['' @ array_join E '', '' (elements enum)
                   @ ''], got '' @ jsonStringify E data]
           else []
         else [])"

definition rangeErrors :: "engine \<Rightarrow> json \<Rightarrow> (string \<times> json) list \<Rightarrow> string \<Rightarrow> string list" where
  "rangeErrors E data schema path =
     (case data of
        JNum d \<Rightarrow>
          (case get_prop (JObj schema) ''minimum'' of
             JNum minimum \<Rightarrow>
               if d < minimum
               then [path_or_root path @ '': value '' @ numToString E d @ '' is below minimum ''
                       @ numToString E minimum]
               else []
           | _ \<Rightarrow> [])
          @
          (case get_prop (JObj schema) ''maximum'' of
             JNum maximum \<Rightarrow>
               if d > maximum
               then [path_or_root path @ '': value '' @ numToString E d @ '' is above maximum ''
                       @ numToString E maximum]
               else []
           | _ \<Rightarrow> [])
      | _ \<Rightarrow> [])"

definition patternErrors :: "engine \<Rightarrow> json \<Rightarrow> (string \<times> json) list \<Rightarrow> string \<Rightarrow> error + string list" where
  "patternErrors E data schema path =
     (case data of
        JStr d \<Rightarrow>
          (let pattern = get_prop (JObj schema) ''pattern''
           in if truthy pattern then
                (case regExp E (js_toString E pattern) of
                   Inl e \<Rightarrow> Inl e
                 | Inr test \<Rightarrow>
                     if \<not> test d
                     then Inr [path_or_root path @ '': string does not match pattern ''
                                 @ js_toString E pattern]
                     else Inr [])
              else Inr [])
      | _ \<Rightarrow> Inr [])"

fun jsize :: "json \<Rightarrow> nat" where
  "jsize (JArr xs) = Suc (sum_list (map jsize xs))"
| "jsize (JObj ps) = Suc (sum_list (map (\<lambda>p. jsize (snd p)) ps))"
| "jsize (JStr s) = max 1 (length s)"
| "jsize _ = 1"

fun job_size :: "job \<Rightarrow> nat" where
  "job_size (Validate d s p) = jsize s"
| "job_size (Throw e) = 0"

subsection \<open>The recursion and its termination\<close>

fun jobs_bound :: "job list \<Rightarrow> nat" where
  "jobs_bound [] = 0"
| "jobs_bound (j # js) = max (job_size j) (jobs_bound js)"

fun schemas_bound :: "json list \<Rightarrow> nat" where
  "schemas_bound [] = 0"
| "schemas_bound (s # ss) = max (jsize s) (schemas_bound ss)"

lemma jobs_bound_le: "(\<forall>j \<in> set js. job_size j \<le> n) \<Longrightarrow> jobs_bound js \<le> n"
  by (induction js) auto

lemma schemas_bound_le: "(\<forall>s \<in> set ss. jsize s \<le> n) \<Longrightarrow> schemas_bound ss \<le> n"
  by (induction ss) auto

lemma jsize_pos: "0 < jsize v"
  by (cases v) auto

lemma jsize_member: "(k, v) \<in> set ps \<Longrightarrow> jsize v < jsize (JObj ps)"
  by (induction ps) auto

lemma jsize_element: "x \<in> set xs \<Longrightarrow> jsize x < jsize (JArr xs)"
  by (induction xs) auto

lemma get_prop_JObj_size: "get_prop (JObj ps) k \<noteq> JUndefined \<Longrightarrow> jsize (get_prop (JObj ps) k) < jsize (JObj ps)"
  by (auto simp: get_prop_def split: option.splits dest!: map_of_SomeD jsize_member)

lemma indexed_snd: "(k, x) \<in> set (indexed xs) \<Longrightarrow> x \<in> set xs"
  by (auto simp: indexed_def dest: set_zip_rightD)

lemma entries_size: "(k, v) \<in> set (entries p) \<Longrightarrow> jsize v \<le> jsize p"
  by (cases p) (auto simp: entries_def dest!: indexed_snd dest: jsize_member jsize_element less_imp_le)

lemma elements_size: "x \<in> set (elements p) \<Longrightarrow> jsize x < jsize p"
  by (cases p) (auto simp: elements_def dest: jsize_element)

lemma truthy_not_undefined: "truthy v \<Longrightarrow> v \<noteq> JUndefined"
  by (auto simp: truthy_def)

lemma propertiesJobs_size:
  "j \<in> set (propertiesJobs data schema path) \<Longrightarrow> job_size j < jsize (JObj schema)"
  by (auto simp: propertiesJobs_def Let_def split: if_splits
      dest!: entries_size truthy_not_undefined get_prop_JObj_size[of schema "''properties''"])

lemma patternLoop_size:
  "j \<in> set (patternLoop E data path ps) \<Longrightarrow> \<forall>(k, v) \<in> set ps. jsize v \<le> n \<Longrightarrow> job_size j \<le> n"
  by (induction ps) (auto split: sum.splits if_splits)

lemma patternJobs_size:
  assumes "j \<in> set (patternJobs E data schema path)"
  shows "job_size j < jsize (JObj schema)"
proof -
  let ?p = "get_prop (JObj schema) ''patternProperties''"
  from assms have t: "truthy ?p" and j: "j \<in> set (patternLoop E data path (entries ?p))"
    by (auto simp: patternJobs_def Let_def split: if_splits)
  have "\<forall>(k, v) \<in> set (entries ?p). jsize v \<le> jsize ?p" by (auto dest: entries_size)
  from patternLoop_size[OF j this] have "job_size j \<le> jsize ?p" .
  also have "\<dots> < jsize (JObj schema)"
    using t by (intro get_prop_JObj_size truthy_not_undefined)
  finally show ?thesis .
qed

lemma itemsJobs_size:
  "j \<in> set (itemsJobs data schema path) \<Longrightarrow> job_size j < jsize (JObj schema)"
  by (auto simp: itemsJobs_def Let_def split: if_splits
      dest!: truthy_not_undefined get_prop_JObj_size[of schema "''items''"])

lemma anyOf_size:
  "s \<in> set (elements (get_prop (JObj schema) ''anyOf'')) \<Longrightarrow> jsize s < jsize (JObj schema)"
proof -
  assume a: "s \<in> set (elements (get_prop (JObj schema) ''anyOf''))"
  then have "get_prop (JObj schema) ''anyOf'' \<noteq> JUndefined" by (auto simp: elements_def)
  from get_prop_JObj_size[OF this] elements_size[OF a] show ?thesis by simp
qed

lemma jobs_bound_lt: "(\<forall>j \<in> set js. job_size j < n) \<Longrightarrow> 0 < n \<Longrightarrow> jobs_bound js < n"
proof -
  assume a: "\<forall>j \<in> set js. job_size j < n" and n: "0 < n"
  then have "\<forall>j \<in> set js. job_size j \<le> n - 1" by auto
  from jobs_bound_le[OF this] n show ?thesis by simp
qed

lemma schemas_bound_lt: "(\<forall>s \<in> set ss. jsize s < n) \<Longrightarrow> 0 < n \<Longrightarrow> schemas_bound ss < n"
proof -
  assume a: "\<forall>s \<in> set ss. jsize s < n" and n: "0 < n"
  then have "\<forall>s \<in> set ss. jsize s \<le> n - 1" by auto
  from schemas_bound_le[OF this] n show ?thesis by simp
qed

text \<open>
  \<^verbatim>\<open>_validateObject(data, schema, path, errors)\<close>. The result is the exception it raised, if
  any, and the error buffer as the call left it (the source appends to the caller's
  array, so what was appended before an exception stays). A schema that is \<^verbatim>\<open>null\<close> or
  \<^verbatim>\<open>undefined\<close> raises at the first read, \<^verbatim>\<open>schema.type\<close>. A schema that is a string, a
  number, a boolean or an array has none of the keywords, so every step is skipped.
\<close>

function validateObject :: "engine \<Rightarrow> json \<Rightarrow> json \<Rightarrow> string \<Rightarrow> string list \<Rightarrow> error option \<times> string list"
  and runJobs :: "engine \<Rightarrow> job list \<Rightarrow> string list \<Rightarrow> error option \<times> string list"
  and anyOfLoop :: "engine \<Rightarrow> json \<Rightarrow> json list \<Rightarrow> string \<Rightarrow> error option \<times> bool"
where
  "validateObject E data schema path errs =
     (case schema of
        JUndefined \<Rightarrow> (Some (readError E schema ''type''), errs)
      | JNull \<Rightarrow> (Some (readError E schema ''type''), errs)
      | JObj sch \<Rightarrow>
          (case typeError E data sch path of
             Some msg \<Rightarrow> (None, errs @ [msg])
           | None \<Rightarrow>
               (case runJobs E (propertiesJobs data sch path) (errs @ requiredErrors E data sch path) of
                  (Some e, errs2) \<Rightarrow> (Some e, errs2)
                | (None, errs2) \<Rightarrow>
               (case runJobs E (patternJobs E data sch path) errs2 of
                  (Some e, errs3) \<Rightarrow> (Some e, errs3)
                | (None, errs3) \<Rightarrow>
               (case runJobs E (itemsJobs data sch path) errs3 of
                  (Some e, errs4) \<Rightarrow> (Some e, errs4)
                | (None, errs4) \<Rightarrow>
               (case patternErrors E data sch path of
                  Inl e \<Rightarrow> (Some e, errs4 @ enumErrors E data sch path @ rangeErrors E data sch path)
                | Inr ms \<Rightarrow>
                    (let errs7 = errs4 @ enumErrors E data sch path @ rangeErrors E data sch path @ ms;
                         anyOf = get_prop (JObj sch) ''anyOf''
                     in if truthy anyOf \<and> isArray anyOf then
                          (case anyOfLoop E data (elements anyOf) path of
                             (Some e, v) \<Rightarrow> (Some e, errs7)
                           | (None, v) \<Rightarrow>
                               if \<not> v
                               then (None, errs7 @ [path_or_root path
                                       @ '': value does not match any of the allowed schemas''])
                               else (None, errs7))
                        else (None, errs7)))))))
      | _ \<Rightarrow> (None, errs))"
| "runJobs E [] errs = (None, errs)"
| "runJobs E (Throw e # js) errs = (Some e, errs)"
| "runJobs E (Validate d s p # js) errs =
     (case validateObject E d s p errs of
        (Some e, errs') \<Rightarrow> (Some e, errs')
      | (None, errs') \<Rightarrow> runJobs E js errs')"
| "anyOfLoop E data [] path = (None, False)"
| "anyOfLoop E data (subSchema # rest) path =
     (case validateObject E data subSchema path [] of
        (Some e, subErrors) \<Rightarrow> (Some e, False)
      | (None, subErrors) \<Rightarrow>
          if length subErrors = 0 then (None, True) else anyOfLoop E data rest path)"
  by pat_completeness auto
termination
proof (relation "inv_image (less_than <*lex*> less_than)
    (\<lambda>x. case x of
        Inl (E, data, schema, path, errs) \<Rightarrow> (2 * jsize schema, 0)
      | Inr (Inl (E, js, errs)) \<Rightarrow> (2 * jobs_bound js + 1, length js)
      | Inr (Inr (E, data, ss, path)) \<Rightarrow> (2 * schemas_bound ss + 1, length ss))", goal_cases)
  case 1
  show ?case by (intro wf_inv_image wf_lex_prod wf_less_than)
next
  case (2 E data schema path errs sch)
  have "jobs_bound (propertiesJobs data sch path) < jsize (JObj sch)"
    by (intro jobs_bound_lt jsize_pos) (auto dest: propertiesJobs_size)
  with 2 show ?case by simp
next
  case (3 E data schema path errs sch x y)
  have "jobs_bound (patternJobs E data sch path) < jsize (JObj sch)"
    by (intro jobs_bound_lt jsize_pos) (auto dest: patternJobs_size)
  with 3 show ?case by simp
next
  case (4 E data schema path errs sch x y x' y')
  have "jobs_bound (itemsJobs data sch path) < jsize (JObj sch)"
    by (intro jobs_bound_lt jsize_pos) (auto dest: itemsJobs_size)
  with 4 show ?case by simp
next
  case (5 E data schema path errs sch)
  have "schemas_bound (elements (get_prop (JObj sch) ''anyOf'')) < jsize (JObj sch)"
    by (intro schemas_bound_lt jsize_pos) (auto dest: anyOf_size)
  with 5 show ?case by simp
next
  case (6 E d s p js errs)
  show ?case by (auto simp: max_def)
next
  case (7 E d s p js errs x y)
  show ?case by (auto simp: max_def)
next
  case (8 E data subSchema rest path)
  show ?case by (auto simp: max_def)
next
  case (9 E data subSchema rest path x y)
  show ?case by (auto simp: max_def)
qed

definition validate :: "engine \<Rightarrow> json \<Rightarrow> json \<Rightarrow> ValidationResult" where
  \<comment> \<open>\<^verbatim>\<open>SimpleValidator.validate\<close>: an exception is caught and reported as one more error\<close>
  "validate E data schema =
     (let errors = (case validateObject E data schema [] [] of
                      (None, errs) \<Rightarrow> errs
                    | (Some error, errs) \<Rightarrow> errs @ [''Validation error: '' @ message error])
      in \<lparr> valid = (length errors = 0), errors = errors \<rparr>)"

section \<open>The paths of the validator\<close>

text \<open>
  The paths of the validator. \<open>locations path data\<close> lists the paths under which the
  validator can reach a part of \<open>data\<close>, starting at \<open>path\<close>: a property \<open>k\<close> of an object
  or of an array (an index, or \<^verbatim>\<open>length\<close>) is at \<^verbatim>\<open>path.k\<close> (at \<^verbatim>\<open>k\<close> when the path is
  empty), the item \<open>i\<close> of an array at \<^verbatim>\<open>path[i]\<close>. An error string is path-qualified for
  \<open>data\<close> when it starts with one of these paths (\<^verbatim>\<open>root\<close> for the empty one), a colon and
  a space.
\<close>

definition child_path :: "string \<Rightarrow> string \<Rightarrow> string" where
  "child_path path propName = (if path \<noteq> [] then path @ ''.'' @ propName else propName)"

function locations :: "string \<Rightarrow> json \<Rightarrow> string list" where
  "locations path (JObj ps) =
     path # concat (map (\<lambda>(k, v). locations (child_path path k) v) ps)"
| "locations path (JArr xs) =
     path # child_path path ''length''
       # concat (map (\<lambda>(k, x). locations (child_path path k) x @ locations (path @ ''['' @ k @ '']'') x)
                  (indexed xs))"
| "locations path JUndefined = [path]"
| "locations path JNull = [path]"
| "locations path (JBool b) = [path]"
| "locations path (JNum n) = [path]"
| "locations path (JStr s) = [path]"
  by pat_completeness auto
termination
  by (relation "measure (\<lambda>(p, d). jsize d)") (auto dest!: indexed_snd dest: jsize_element jsize_member)

definition path_qualified :: "json \<Rightarrow> string \<Rightarrow> bool" where
  "path_qualified data e = list_ex (\<lambda>q. prefix (path_or_root q @ '': '') e) (locations [] data)"

definition located :: "string \<Rightarrow> json \<Rightarrow> string \<Rightarrow> bool" where
  "located path data e = (\<exists>q \<in> set (locations path data). prefix (path_or_root q @ '': '') e)"

definition appended :: "string \<Rightarrow> json \<Rightarrow> string list \<Rightarrow> string list \<Rightarrow> bool" where
  "appended path data errs errs' = (\<exists>new. errs' = errs @ new \<and> (\<forall>e \<in> set new. located path data e))"

section \<open>Results and casts\<close>

definition ebind :: "error + 'a \<Rightarrow> ('a \<Rightarrow> error + 'b) \<Rightarrow> error + 'b" where
  \<comment> \<open>sequencing: an exception of the first step ends the computation\<close>
  "ebind m f = (case m of Inl e \<Rightarrow> Inl e | Inr x \<Rightarrow> f x)"

fun emap :: "('a \<Rightarrow> error + 'b) \<Rightarrow> 'a list \<Rightarrow> error + 'b list" where
  \<comment> \<open>\<^verbatim>\<open>xs.map(f)\<close> with a callback that may throw\<close>
  "emap f [] = Inr []"
| "emap f (x # xs) = ebind (f x) (\<lambda>y. ebind (emap f xs) (\<lambda>ys. Inr (y # ys)))"

text \<open>
  The TypeScript casts (\<^verbatim>\<open>data.version as string\<close>, \<^verbatim>\<open>... as TokenOptions\<close>) are not checked
  at run time. The model is typed: where a cast meets a value that does not have the
  JSON type of the cast, the model stops with \<open>IllTyped\<close>. This is not an exception of
  the program (which would go on with the ill-typed value), it marks the end of what
  the model describes: wire data whose fields have the types that the interfaces of
  \<^verbatim>\<open>types.ts\<close> declare.
\<close>

definition as_string_opt :: "string \<Rightarrow> json \<Rightarrow> error + string option" where
  "as_string_opt what v =
     (case v of JUndefined \<Rightarrow> Inr None | JStr s \<Rightarrow> Inr (Some s) | _ \<Rightarrow> Inl (IllTyped what))"

definition as_number_opt :: "string \<Rightarrow> json \<Rightarrow> error + rat option" where
  "as_number_opt what v =
     (case v of JUndefined \<Rightarrow> Inr None | JNum n \<Rightarrow> Inr (Some n) | _ \<Rightarrow> Inl (IllTyped what))"

definition as_string :: "string \<Rightarrow> json \<Rightarrow> error + string" where
  "as_string what v = (case v of JStr s \<Rightarrow> Inr s | _ \<Rightarrow> Inl (IllTyped what))"

definition as_strings_opt :: "string \<Rightarrow> json \<Rightarrow> error + string list option" where
  "as_strings_opt what v =
     (case v of
        JUndefined \<Rightarrow> Inr None
      | JArr xs \<Rightarrow> ebind (emap (as_string what) xs) (\<lambda>ss. Inr (Some ss))
      | _ \<Rightarrow> Inl (IllTyped what))"

section \<open>More utilities (\<^verbatim>\<open>utils.ts\<close>)\<close>

definition createValidationError :: "string \<Rightarrow> json \<Rightarrow> string \<Rightarrow> string" where
  "createValidationError fieldName v requirement =
     fieldName @ '': expected '' @ requirement @ '', got ''
       @ (case v of JStr s \<Rightarrow> [CHR 0x22] @ s @ [CHR 0x22] | _ \<Rightarrow> typeof v)"

definition hasRequiredProperties :: "json \<Rightarrow> string list \<Rightarrow> bool" where
  "hasRequiredProperties obj requiredProps =
     (if \<not> truthy obj \<or> typeof obj \<noteq> ''object'' then False
      else list_all (\<lambda>prop. has_prop prop obj \<and> get_prop obj prop \<noteq> JUndefined) requiredProps)"

definition is_alpha :: "char \<Rightarrow> bool" where
  "is_alpha c = (let k = (of_char c :: nat) in (65 \<le> k \<and> k \<le> 90) \<or> (97 \<le> k \<and> k \<le> 122))"

definition is_scheme_char :: "char \<Rightarrow> bool" where
  \<comment> \<open>the class \<^verbatim>\<open>[a-zA-Z0-9+.-]\<close>\<close>
  "is_scheme_char c = (is_alpha c \<or> is_digit c \<or> c = CHR ''+'' \<or> c = CHR ''.'' \<or> c = CHR ''-'')"

definition isValidUri :: "string \<Rightarrow> bool" where
  "isValidUri uri =
     (let scheme = takeWhile (\<lambda>c. c \<noteq> CHR '':'') uri;
          rest = dropWhile (\<lambda>c. c \<noteq> CHR '':'') uri
      in if rest = [] \<or> scheme = [] then False
         else if \<not> (is_alpha (hd scheme) \<and> list_all is_scheme_char (tl scheme)) then False
         else if tl rest = [] then False
         else True)"

definition isValidConfidence :: "rat \<Rightarrow> bool" where
  "isValidConfidence confidence = (confidence \<ge> 0 \<and> confidence \<le> 1)"

definition isValidEncoding :: "string \<Rightarrow> bool" where
  "isValidEncoding encoding = (encoding \<in> set [''ISO-8859-1'', ''iso-8859-1'', ''UTF-8'', ''utf-8''])"

section \<open>The dialog event model (\<^verbatim>\<open>dialog-event.ts\<close>)\<close>

subsection \<open>Span\<close>

text \<open>
  A \<^verbatim>\<open>Date\<close> is valid, with a time value, or invalid. The constructor of \<^verbatim>\<open>Span\<close> stores
  what it is given without a check, and the reconstruction of a token hands it the
  strings of \<^verbatim>\<open>Span.toObject\<close> (\<^verbatim>\<open>... as SpanOptions\<close>): a time field holds a \<^verbatim>\<open>Date\<close> or a
  string, an offset field a number or a string.
\<close>

datatype jsdate = ValidDate int | InvalidDate

datatype timeval = ADate jsdate | AString string

datatype offsetval = ANumber rat | AText string

record Span =
  startTime :: "timeval option"
  startOffset :: "offsetval option"
  endTime :: "timeval option"
  endOffset :: "offsetval option"

type_synonym SpanOptions = Span

definition truthy_time :: "timeval option \<Rightarrow> bool" where
  "truthy_time tv = (case tv of None \<Rightarrow> False | Some (ADate d) \<Rightarrow> True | Some (AString s) \<Rightarrow> s \<noteq> [])"

definition Span_ctor :: "engine \<Rightarrow> SpanOptions \<Rightarrow> error + Span" where
  "Span_ctor E options =
     (let this =
        (if \<not> truthy_time (Span.startTime options) \<and> Span.startOffset options = None
         then \<lparr> Span.startTime = Some (ADate (ValidDate (now E))), Span.startOffset = None,
                Span.endTime = Span.endTime options, Span.endOffset = Span.endOffset options \<rparr>
         else \<lparr> Span.startTime = Span.startTime options, Span.startOffset = Span.startOffset options,
                Span.endTime = Span.endTime options, Span.endOffset = Span.endOffset options \<rparr>)
      in if truthy_time (Span.startTime this) \<and> Span.startOffset this \<noteq> None then
           Inl (Error (createValidationError ''Span'' (JStr ''both startTime and startOffset'')
                  ''either startTime or startOffset, not both''))
         else if truthy_time (Span.endTime this) \<and> Span.endOffset this \<noteq> None then
           Inl (Error (createValidationError ''Span'' (JStr ''both endTime and endOffset'')
                  ''either endTime or endOffset, not both''))
         else if \<not> truthy_time (Span.startTime this) \<and> Span.startOffset this = None then
           Inl (Error (createValidationError ''Span'' (JStr ''neither startTime nor startOffset'')
                  ''either startTime or startOffset''))
         else Inr this)"

definition time_entry :: "engine \<Rightarrow> string \<Rightarrow> timeval option \<Rightarrow> error + (string \<times> json) list" where
  \<comment> \<open>\<^verbatim>\<open>if (this.k) result.k = this.k.toISOString()\<close>\<close>
  "time_entry E k tv =
     (case tv of
        None \<Rightarrow> Inr []
      | Some (ADate (ValidDate t)) \<Rightarrow> Inr [(k, JStr (dateToISOString E t))]
      | Some (ADate InvalidDate) \<Rightarrow> Inl (invalidTime E)
      | Some (AString s) \<Rightarrow> if s = [] then Inr [] else Inl (notAFunction E ''toISOString''))"

definition offset_entry :: "engine \<Rightarrow> string \<Rightarrow> offsetval option \<Rightarrow> (string \<times> json) list" where
  \<comment> \<open>\<^verbatim>\<open>if (this.k !== undefined) result.k = millisecondsToIsoDuration(this.k)\<close>; a string is
      converted to a number by the division, and \<^verbatim>\<open>NaN\<close> is rendered as \<^verbatim>\<open>PTNaNS\<close>\<close>
  "offset_entry E k ov =
     (case ov of
        None \<Rightarrow> []
      | Some (ANumber n) \<Rightarrow> [(k, JStr (millisecondsToIsoDuration n))]
      | Some (AText s) \<Rightarrow>
          [(k, JStr (case stringToNumber E s of
                       Some n \<Rightarrow> millisecondsToIsoDuration n
                     | None \<Rightarrow> ''PTNaNS''))])"

definition Span_toObject :: "engine \<Rightarrow> Span \<Rightarrow> error + json" where
  "Span_toObject E this =
     ebind (time_entry E ''startTime'' (Span.startTime this)) (\<lambda>st.
     ebind (time_entry E ''endTime'' (Span.endTime this)) (\<lambda>et.
       Inr (JObj (st @ offset_entry E ''startOffset'' (Span.startOffset this)
                  @ et @ offset_entry E ''endOffset'' (Span.endOffset this)))))"

definition time_of_data :: "engine \<Rightarrow> json \<Rightarrow> timeval option" where
  \<comment> \<open>\<^verbatim>\<open>if (typeof v === 'string') options.k = new Date(v)\<close>\<close>
  "time_of_data E v =
     (case v of
        JStr s \<Rightarrow> Some (ADate (case dateParse E s of Some t \<Rightarrow> ValidDate t | None \<Rightarrow> InvalidDate))
      | _ \<Rightarrow> None)"

definition offset_of_data :: "json \<Rightarrow> error + offsetval option" where
  \<comment> \<open>a string is parsed as a duration, a number is taken as it is\<close>
  "offset_of_data v =
     (case v of
        JStr s \<Rightarrow> ebind (parseIsoDuration s) (\<lambda>n. Inr (Some (ANumber n)))
      | JNum n \<Rightarrow> Inr (Some (ANumber n))
      | _ \<Rightarrow> Inr None)"

definition Span_fromObject :: "engine \<Rightarrow> json \<Rightarrow> error + Span" where
  "Span_fromObject E data =
     (if data = JNull \<or> data = JUndefined then Inl (readError E data ''startTime'')
      else
        ebind (offset_of_data (get_prop data ''startOffset'')) (\<lambda>so.
        ebind (offset_of_data (get_prop data ''endOffset'')) (\<lambda>eo.
          Span_ctor E \<lparr> Span.startTime = time_of_data E (get_prop data ''startTime''),
                        Span.startOffset = so,
                        Span.endTime = time_of_data E (get_prop data ''endTime''),
                        Span.endOffset = eo \<rparr>)))"

definition as_time_opt :: "string \<Rightarrow> json \<Rightarrow> error + timeval option" where
  "as_time_opt what v =
     (case v of JUndefined \<Rightarrow> Inr None | JStr s \<Rightarrow> Inr (Some (AString s)) | _ \<Rightarrow> Inl (IllTyped what))"

definition as_offset_opt :: "string \<Rightarrow> json \<Rightarrow> error + offsetval option" where
  "as_offset_opt what v =
     (case v of
        JUndefined \<Rightarrow> Inr None
      | JStr s \<Rightarrow> Inr (Some (AText s))
      | JNum n \<Rightarrow> Inr (Some (ANumber n))
      | _ \<Rightarrow> Inl (IllTyped what))"

definition as_SpanOptions :: "json \<Rightarrow> error + SpanOptions" where
  \<comment> \<open>the cast \<^verbatim>\<open>... as SpanOptions\<close> of a plain object\<close>
  "as_SpanOptions v =
     (case v of
        JObj ps \<Rightarrow>
          ebind (as_time_opt ''span.startTime'' (get_prop v ''startTime'')) (\<lambda>st.
          ebind (as_offset_opt ''span.startOffset'' (get_prop v ''startOffset'')) (\<lambda>so.
          ebind (as_time_opt ''span.endTime'' (get_prop v ''endTime'')) (\<lambda>et.
          ebind (as_offset_opt ''span.endOffset'' (get_prop v ''endOffset'')) (\<lambda>eo.
            Inr \<lparr> Span.startTime = st, Span.startOffset = so,
                  Span.endTime = et, Span.endOffset = eo \<rparr>))))
      | _ \<Rightarrow> Inl (IllTyped ''span''))"

subsection \<open>Token\<close>

record TokenOptions =
  "value" :: json                      \<comment> \<open>\<^verbatim>\<open>undefined\<close> when absent\<close>
  valueUrl :: "string option"
  span :: "SpanOptions option"
  confidence :: "rat option"
  links :: "string list option"

record Token =
  "value" :: json
  valueUrl :: "string option"
  span :: "Span option"
  confidence :: "rat option"
  links :: "string list"

definition truthy_string :: "string option \<Rightarrow> bool" where
  \<comment> \<open>the truth value of an optional string: absent and empty are false\<close>
  "truthy_string s = (case s of None \<Rightarrow> False | Some t \<Rightarrow> t \<noteq> [])"

definition opt_ctor :: "('a \<Rightarrow> error + 'b) \<Rightarrow> 'a option \<Rightarrow> error + 'b option" where
  \<comment> \<open>\<^verbatim>\<open>if (x !== undefined) this.x = new C(x)\<close>\<close>
  "opt_ctor f x = (case x of None \<Rightarrow> Inr None | Some y \<Rightarrow> ebind (f y) (\<lambda>z. Inr (Some z)))"

definition Token_ctor :: "engine \<Rightarrow> TokenOptions \<Rightarrow> error + Token" where
  "Token_ctor E options =
     ebind (opt_ctor (Span_ctor E) (TokenOptions.span options)) (\<lambda>sp.
       let this = \<lparr> Token.value = TokenOptions.value options,
                    Token.valueUrl = TokenOptions.valueUrl options,
                    Token.span = sp,
                    Token.confidence = TokenOptions.confidence options,
                    Token.links = (case TokenOptions.links options of None \<Rightarrow> [] | Some ls \<Rightarrow> ls) \<rparr>
       in if Token.value this = JUndefined \<and> \<not> truthy_string (Token.valueUrl this) then
            Inl (Error (createValidationError ''Token'' (JStr ''neither value nor valueUrl'')
                   ''either value or valueUrl''))
          else if Token.value this \<noteq> JUndefined \<and> truthy_string (Token.valueUrl this) then
            Inl (Error (createValidationError ''Token'' (JStr ''both value and valueUrl'')
                   ''either value or valueUrl, not both''))
          else if (case Token.confidence this of None \<Rightarrow> False | Some c \<Rightarrow> \<not> isValidConfidence c) then
            Inl (Error (createValidationError ''Token.confidence''
                   (case Token.confidence this of None \<Rightarrow> JUndefined | Some c \<Rightarrow> JNum c)
                   ''number between 0 and 1''))
          else Inr this)"

definition Token_toObject :: "engine \<Rightarrow> Token \<Rightarrow> error + json" where
  "Token_toObject E this =
     ebind (case Token.span this of
              None \<Rightarrow> Inr []
            | Some sp \<Rightarrow> ebind (Span_toObject E sp) (\<lambda>j. Inr [(''span'', j)])) (\<lambda>sp.
       Inr (JObj ((if Token.value this \<noteq> JUndefined then [(''value'', Token.value this)] else [])
                  @ (case Token.valueUrl this of
                       None \<Rightarrow> []
                     | Some u \<Rightarrow> if u \<noteq> [] then [(''valueUrl'', JStr u)] else [])
                  @ sp
                  @ (case Token.confidence this of None \<Rightarrow> [] | Some c \<Rightarrow> [(''confidence'', JNum c)])
                  @ (if length (Token.links this) > 0
                     then [(''links'', JArr (map JStr (Token.links this)))] else []))))"

definition as_TokenOptions :: "engine \<Rightarrow> json \<Rightarrow> error + TokenOptions" where
  \<comment> \<open>the cast \<^verbatim>\<open>... as TokenOptions\<close> of a plain object. A \<^verbatim>\<open>span\<close> that is a number, a
      string, a boolean or an array has none of the four fields; one that is \<^verbatim>\<open>null\<close> makes
      the constructor of \<^verbatim>\<open>Span\<close> raise when it takes the options apart.\<close>
  "as_TokenOptions E v =
     ebind (as_string_opt ''token.valueUrl'' (get_prop v ''valueUrl'')) (\<lambda>u.
     ebind (case get_prop v ''span'' of
              JUndefined \<Rightarrow> Inr None
            | JNull \<Rightarrow> Inl (readError E JNull ''startTime'')
            | JObj ps \<Rightarrow> ebind (as_SpanOptions (JObj ps)) (\<lambda>so. Inr (Some so))
            | _ \<Rightarrow> Inr (Some \<lparr> Span.startTime = None, Span.startOffset = None,
                                 Span.endTime = None, Span.endOffset = None \<rparr>)) (\<lambda>sp.
     ebind (as_number_opt ''token.confidence'' (get_prop v ''confidence'')) (\<lambda>c.
     ebind (as_strings_opt ''token.links'' (get_prop v ''links'')) (\<lambda>ls.
       Inr \<lparr> TokenOptions.value = get_prop v ''value'', TokenOptions.valueUrl = u,
             TokenOptions.span = sp, TokenOptions.confidence = c, TokenOptions.links = ls \<rparr>))))"

definition set_prop :: "string \<Rightarrow> json \<Rightarrow> json \<Rightarrow> json" where
  \<comment> \<open>\<^verbatim>\<open>options.k = v\<close> on a copy of a plain object\<close>
  "set_prop k v obj =
     (case obj of
        JObj ps \<Rightarrow> if map_of ps k = None then JObj (ps @ [(k, v)])
                   else JObj (map (\<lambda>(k', v'). if k' = k then (k', v) else (k', v')) ps)
      | _ \<Rightarrow> obj)"

definition Token_fromObject :: "engine \<Rightarrow> json \<Rightarrow> error + Token" where
  "Token_fromObject E data =
     (if data = JNull \<or> data = JUndefined then Inl (readError E data ''span'')
      else
        ebind (if truthy (get_prop data ''span'') \<and> typeof (get_prop data ''span'') = ''object''
               then ebind (Span_fromObject E (get_prop data ''span'')) (\<lambda>sp.
                    ebind (Span_toObject E sp) (\<lambda>j. Inr (set_prop ''span'' j (JObj (entries data)))))
               else Inr (JObj (entries data))) (\<lambda>options.
        ebind (as_TokenOptions E options) (Token_ctor E)))"

subsection \<open>Feature\<close>

record FeatureOptions =
  mimeType :: "string option"
  tokens :: "TokenOptions list option"
  alternates :: "TokenOptions list list option"
  lang :: "string option"
  encoding :: "string option"
  tokenSchema :: "string option"

record Feature =
  mimeType :: string
  tokens :: "Token list"
  alternates :: "Token list list"
  lang :: "string option"
  encoding :: "string option"
  tokenSchema :: "string option"

definition Feature_ctor :: "engine \<Rightarrow> FeatureOptions \<Rightarrow> error + Feature" where
  "Feature_ctor E options =
     (case FeatureOptions.mimeType options of
        None \<Rightarrow> Inl (Error ''Feature.mimeType is required'')
      | Some mt \<Rightarrow>
          if mt = [] then Inl (Error ''Feature.mimeType is required'')
          else case FeatureOptions.tokens options of
            None \<Rightarrow> Inl (Error ''Feature.tokens is required'')
          | Some toks \<Rightarrow>
              ebind (emap (Token_ctor E) toks) (\<lambda>ts.
              ebind (emap (emap (Token_ctor E))
                       (case FeatureOptions.alternates options of None \<Rightarrow> [] | Some alts \<Rightarrow> alts)) (\<lambda>as.
                if (case FeatureOptions.encoding options of
                      None \<Rightarrow> False | Some enc \<Rightarrow> enc \<noteq> [] \<and> \<not> isValidEncoding enc)
                then Inl (Error (createValidationError ''Feature.encoding''
                            (case FeatureOptions.encoding options of
                               None \<Rightarrow> JUndefined | Some enc \<Rightarrow> JStr enc)
                            ([CHR 0x22] @ ''ISO-8859-1'' @ [CHR 0x22] @ '', '' @ [CHR 0x22]
                              @ ''iso-8859-1'' @ [CHR 0x22] @ '', '' @ [CHR 0x22] @ ''UTF-8''
                              @ [CHR 0x22] @ '', or '' @ [CHR 0x22] @ ''utf-8'' @ [CHR 0x22])))
                else Inr \<lparr> Feature.mimeType = mt,
                           Feature.tokens = ts, Feature.alternates = as,
                           Feature.lang = FeatureOptions.lang options,
                           Feature.encoding = FeatureOptions.encoding options,
                           Feature.tokenSchema = FeatureOptions.tokenSchema options \<rparr>)))"

definition string_entry :: "string \<Rightarrow> string option \<Rightarrow> (string \<times> json) list" where
  \<comment> \<open>\<^verbatim>\<open>if (this.k) result.k = this.k\<close>, for an optional string\<close>
  "string_entry k s = (case s of None \<Rightarrow> [] | Some t \<Rightarrow> if t \<noteq> [] then [(k, JStr t)] else [])"

definition Feature_toObject :: "engine \<Rightarrow> Feature \<Rightarrow> error + json" where
  "Feature_toObject E this =
     ebind (emap (Token_toObject E) (Feature.tokens this)) (\<lambda>ts.
     ebind (if length (Feature.alternates this) > 0
            then ebind (emap (emap (Token_toObject E)) (Feature.alternates this))
                   (\<lambda>as. Inr [(''alternates'', JArr (map JArr as))])
            else Inr []) (\<lambda>as.
       Inr (JObj ([(''mimeType'', JStr (Feature.mimeType this)), (''tokens'', JArr ts)]
                  @ as
                  @ string_entry ''lang'' (Feature.lang this)
                  @ string_entry ''encoding'' (Feature.encoding this)
                  @ string_entry ''tokenSchema'' (Feature.tokenSchema this)))))"

definition reTokenOptions :: "engine \<Rightarrow> json \<Rightarrow> error + TokenOptions" where
  \<comment> \<open>\<^verbatim>\<open>Token.fromObject(t).toObject() as TokenOptions\<close>\<close>
  "reTokenOptions E t =
     ebind (Token_fromObject E t) (\<lambda>tok. ebind (Token_toObject E tok) (as_TokenOptions E))"

definition Feature_fromObject :: "engine \<Rightarrow> json \<Rightarrow> error + Feature" where
  "Feature_fromObject E data =
     (if data = JNull \<or> data = JUndefined then Inl (readError E data ''mimeType'')
      else
        ebind (as_string_opt ''feature.mimeType'' (get_prop data ''mimeType'')) (\<lambda>mt.
        ebind (if isArray (get_prop data ''tokens'')
               then emap (reTokenOptions E) (elements (get_prop data ''tokens''))
               else Inr []) (\<lambda>toks.
        ebind (case get_prop data ''alternates'' of
                 JUndefined \<Rightarrow> Inr None
               | JArr alts \<Rightarrow>
                   ebind (emap (\<lambda>alt. if isArray alt then emap (reTokenOptions E) (elements alt)
                                       else Inr []) alts) (\<lambda>as. Inr (Some as))
               | _ \<Rightarrow> Inl (IllTyped ''feature.alternates'')) (\<lambda>alts.
        ebind (as_string_opt ''feature.lang'' (get_prop data ''lang'')) (\<lambda>lg.
        ebind (as_string_opt ''feature.encoding'' (get_prop data ''encoding'')) (\<lambda>enc.
        ebind (as_string_opt ''feature.tokenSchema'' (get_prop data ''tokenSchema'')) (\<lambda>tsch.
          Feature_ctor E \<lparr> FeatureOptions.mimeType = mt, FeatureOptions.tokens = Some toks,
                            FeatureOptions.alternates = alts, FeatureOptions.lang = lg,
                            FeatureOptions.encoding = enc, FeatureOptions.tokenSchema = tsch \<rparr>)))))))"

definition as_FeatureOptions :: "engine \<Rightarrow> json \<Rightarrow> error + FeatureOptions" where
  \<comment> \<open>the cast \<^verbatim>\<open>... as FeatureOptions\<close> of a plain object\<close>
  "as_FeatureOptions E v =
     ebind (as_string_opt ''feature.mimeType'' (get_prop v ''mimeType'')) (\<lambda>mt.
     ebind (case get_prop v ''tokens'' of
              JUndefined \<Rightarrow> Inr None
            | JArr ts \<Rightarrow> ebind (emap (as_TokenOptions E) ts) (\<lambda>x. Inr (Some x))
            | _ \<Rightarrow> Inl (IllTyped ''feature.tokens'')) (\<lambda>toks.
     ebind (case get_prop v ''alternates'' of
              JUndefined \<Rightarrow> Inr None
            | JArr alts \<Rightarrow>
                ebind (emap (\<lambda>alt. case alt of JArr ts \<Rightarrow> emap (as_TokenOptions E) ts
                                    | _ \<Rightarrow> Inl (IllTyped ''feature.alternates'')) alts)
                  (\<lambda>x. Inr (Some x))
            | _ \<Rightarrow> Inl (IllTyped ''feature.alternates'')) (\<lambda>alts.
     ebind (as_string_opt ''feature.lang'' (get_prop v ''lang'')) (\<lambda>lg.
     ebind (as_string_opt ''feature.encoding'' (get_prop v ''encoding'')) (\<lambda>enc.
     ebind (as_string_opt ''feature.tokenSchema'' (get_prop v ''tokenSchema'')) (\<lambda>tsch.
       Inr \<lparr> FeatureOptions.mimeType = mt, FeatureOptions.tokens = toks,
             FeatureOptions.alternates = alts, FeatureOptions.lang = lg,
             FeatureOptions.encoding = enc, FeatureOptions.tokenSchema = tsch \<rparr>))))))"

subsection \<open>DialogEvent\<close>

record DialogEventOptions =
  speakerUri :: "string option"
  id :: "string option"
  span :: "SpanOptions option"
  features :: "(string \<times> FeatureOptions) list option"
  previousId :: "string option"
  "context" :: "string option"

record DialogEvent =
  id :: string
  speakerUri :: string
  span :: Span
  features :: "(string \<times> Feature) list"
  previousId :: "string option"
  "context" :: "string option"

definition emap_values :: "('a \<Rightarrow> error + 'b) \<Rightarrow> (string \<times> 'a) list \<Rightarrow> error + (string \<times> 'b) list" where
  \<comment> \<open>a map over the entries of an object that keeps the keys\<close>
  "emap_values f ps = emap (\<lambda>(k, v). ebind (f v) (\<lambda>w. Inr (k, w))) ps"

definition DialogEvent_ctor :: "engine \<Rightarrow> DialogEventOptions \<Rightarrow> error + DialogEvent" where
  "DialogEvent_ctor E options =
     (case DialogEventOptions.id options of
        None \<Rightarrow> Inl (Error ''DialogEvent.id is required'')
      | Some id' \<Rightarrow>
     if id' = [] then Inl (Error ''DialogEvent.id is required'')
     else case DialogEventOptions.speakerUri options of
        None \<Rightarrow> Inl (Error ''DialogEvent.speakerUri is required'')
      | Some speakerUri' \<Rightarrow>
     if speakerUri' = [] then Inl (Error ''DialogEvent.speakerUri is required'')
     else case DialogEventOptions.span options of
        None \<Rightarrow> Inl (Error ''DialogEvent.span is required'')
      | Some sp \<Rightarrow>
     (case DialogEventOptions.features options of
        None \<Rightarrow> Inl (Error ''DialogEvent.features is required'')
      | Some fs \<Rightarrow>
          ebind (Span_ctor E sp) (\<lambda>span'.
          ebind (emap_values (Feature_ctor E) fs) (\<lambda>features'.
            Inr \<lparr> DialogEvent.id = id',
                  DialogEvent.speakerUri = speakerUri',
                  DialogEvent.span = span',
                  DialogEvent.features = features',
                  DialogEvent.previousId = DialogEventOptions.previousId options,
                  DialogEvent.context = DialogEventOptions.context options \<rparr>))))"

definition DialogEvent_toObject :: "engine \<Rightarrow> DialogEvent \<Rightarrow> error + json" where
  "DialogEvent_toObject E this =
     ebind (Span_toObject E (DialogEvent.span this)) (\<lambda>sp.
     ebind (emap_values (Feature_toObject E) (DialogEvent.features this)) (\<lambda>fs.
       Inr (JObj ([(''id'', JStr (DialogEvent.id this)),
                   (''speakerUri'', JStr (DialogEvent.speakerUri this)),
                   (''span'', sp),
                   (''features'', JObj fs)]
                  @ string_entry ''previousId'' (DialogEvent.previousId this)
                  @ string_entry ''context'' (DialogEvent.context this)))))"

definition reFeatureOptions :: "engine \<Rightarrow> json \<Rightarrow> error + FeatureOptions" where
  \<comment> \<open>\<^verbatim>\<open>Feature.fromObject(v).toObject() as FeatureOptions\<close>\<close>
  "reFeatureOptions E v =
     ebind (Feature_fromObject E v) (\<lambda>f. ebind (Feature_toObject E f) (as_FeatureOptions E))"

definition is_feature_data :: "json \<Rightarrow> bool" where
  \<comment> \<open>the filter of \<^verbatim>\<open>DialogEvent.fromObject\<close>: an object whose \<^verbatim>\<open>mimeType\<close> is a string\<close>
  "is_feature_data v =
     (if \<not> truthy v \<or> typeof v \<noteq> ''object'' then False
      else typeof (get_prop v ''mimeType'') = ''string'')"

definition DialogEvent_fromObject :: "engine \<Rightarrow> json \<Rightarrow> error + DialogEvent" where
  "DialogEvent_fromObject E data =
     (if data = JNull \<or> data = JUndefined then Inl (readError E data ''speakerUri'')
      else
        ebind (as_string_opt ''dialogEvent.speakerUri'' (get_prop data ''speakerUri'')) (\<lambda>su.
        ebind (Span_fromObject E (get_prop data ''span'')) (\<lambda>sp.
        ebind (if get_prop data ''features'' = JNull \<or> get_prop data ''features'' = JUndefined
               then Inl (notAnObject E)
               else emap_values (reFeatureOptions E)
                      (filter (\<lambda>(k, v). is_feature_data v) (entries (get_prop data ''features'')))) (\<lambda>fs.
        ebind (as_string_opt ''dialogEvent.id'' (get_prop data ''id'')) (\<lambda>i.
        ebind (as_string_opt ''dialogEvent.previousId'' (get_prop data ''previousId'')) (\<lambda>p.
        ebind (as_string_opt ''dialogEvent.context'' (get_prop data ''context'')) (\<lambda>c.
          DialogEvent_ctor E
            \<lparr> DialogEventOptions.speakerUri = su, DialogEventOptions.id = i,
              DialogEventOptions.span = Some sp,
              DialogEventOptions.features = Some fs,
              DialogEventOptions.previousId = p, DialogEventOptions.context = c \<rparr>)))))))"

definition as_DialogEventOptions :: "engine \<Rightarrow> json \<Rightarrow> error + DialogEventOptions" where
  \<comment> \<open>the cast \<^verbatim>\<open>... as DialogEventOptions\<close> (\<^verbatim>\<open>as any\<close>) of a plain object\<close>
  "as_DialogEventOptions E v =
     ebind (as_string_opt ''dialogEvent.speakerUri'' (get_prop v ''speakerUri'')) (\<lambda>su.
     ebind (as_string_opt ''dialogEvent.id'' (get_prop v ''id'')) (\<lambda>i.
     ebind (case get_prop v ''span'' of
              JUndefined \<Rightarrow> Inr None
            | JObj ps \<Rightarrow> ebind (as_SpanOptions (JObj ps)) (\<lambda>so. Inr (Some so))
            | _ \<Rightarrow> Inl (IllTyped ''dialogEvent.span'')) (\<lambda>sp.
     ebind (case get_prop v ''features'' of
              JUndefined \<Rightarrow> Inr None
            | JObj fs \<Rightarrow> ebind (emap_values (as_FeatureOptions E) fs) (\<lambda>x. Inr (Some x))
            | _ \<Rightarrow> Inl (IllTyped ''dialogEvent.features'')) (\<lambda>fs.
     ebind (as_string_opt ''dialogEvent.previousId'' (get_prop v ''previousId'')) (\<lambda>p.
     ebind (as_string_opt ''dialogEvent.context'' (get_prop v ''context'')) (\<lambda>c.
       Inr \<lparr> DialogEventOptions.speakerUri = su, DialogEventOptions.id = i,
             DialogEventOptions.span = sp, DialogEventOptions.features = fs,
             DialogEventOptions.previousId = p, DialogEventOptions.context = c \<rparr>))))))"

section \<open>The envelope model (\<^verbatim>\<open>envelope.ts\<close>)\<close>

subsection \<open>Schema\<close>

record Schema =
  version :: string
  url :: "string option"

type_synonym SchemaOptions = Schema

definition Schema_ctor :: "SchemaOptions \<Rightarrow> Schema" where
  "Schema_ctor options = \<lparr> Schema.version = Schema.version options, Schema.url = Schema.url options \<rparr>"

definition Schema_toObject :: "Schema \<Rightarrow> json" where
  "Schema_toObject this =
     JObj ([(''version'', JStr (Schema.version this))] @ string_entry ''url'' (Schema.url this))"


subsection \<open>Identification\<close>

record IdentificationOptions =
  speakerUri :: "string option"
  serviceUrl :: "string option"
  organization :: "string option"
  conversationalName :: "string option"
  synopsis :: "string option"
  department :: "string option"
  role :: "string option"

record Identification =
  speakerUri :: string
  serviceUrl :: string
  organization :: string
  conversationalName :: string
  department :: "string option"
  role :: "string option"
  synopsis :: string

definition string_json :: "string option \<Rightarrow> json" where
  "string_json s = (case s of None \<Rightarrow> JUndefined | Some t \<Rightarrow> JStr t)"

definition required_string :: "string \<Rightarrow> string option \<Rightarrow> error + string" where
  \<comment> \<open>\<^verbatim>\<open>if (!x) throw new Error(createValidationError(name, x, 'non-empty string'))\<close>\<close>
  "required_string name x =
     (case x of
        Some s \<Rightarrow> if s \<noteq> [] then Inr s
                  else Inl (Error (createValidationError name (JStr s) ''non-empty string''))
      | None \<Rightarrow> Inl (Error (createValidationError name JUndefined ''non-empty string'')))"

definition truthy_only :: "string option \<Rightarrow> string option" where
  \<comment> \<open>\<^verbatim>\<open>if (x) this.x = x\<close>\<close>
  "truthy_only x = (if truthy_string x then x else None)"

definition Identification_ctor :: "IdentificationOptions \<Rightarrow> error + Identification" where
  "Identification_ctor options =
     ebind (required_string ''Identification.speakerUri'' (IdentificationOptions.speakerUri options)) (\<lambda>su.
     ebind (required_string ''Identification.serviceUrl'' (IdentificationOptions.serviceUrl options)) (\<lambda>sv.
     ebind (required_string ''Identification.organization'' (IdentificationOptions.organization options)) (\<lambda>org.
     ebind (required_string ''Identification.conversationalName''
              (IdentificationOptions.conversationalName options)) (\<lambda>cn.
     ebind (required_string ''Identification.synopsis'' (IdentificationOptions.synopsis options)) (\<lambda>syn.
       Inr \<lparr> Identification.speakerUri = su, Identification.serviceUrl = sv,
             Identification.organization = org, Identification.conversationalName = cn,
             Identification.department = truthy_only (IdentificationOptions.department options),
             Identification.role = truthy_only (IdentificationOptions.role options),
             Identification.synopsis = syn \<rparr>)))))"

definition Identification_toObject :: "Identification \<Rightarrow> json" where
  "Identification_toObject this =
     JObj ([(''speakerUri'', JStr (Identification.speakerUri this)),
            (''serviceUrl'', JStr (Identification.serviceUrl this))]
           @ string_entry ''organization'' (Some (Identification.organization this))
           @ string_entry ''conversationalName'' (Some (Identification.conversationalName this))
           @ string_entry ''department'' (Identification.department this)
           @ string_entry ''role'' (Identification.role this)
           @ string_entry ''synopsis'' (Some (Identification.synopsis this)))"

definition identification_fields :: "string list" where
  "identification_fields =
     [''speakerUri'', ''serviceUrl'', ''organization'', ''conversationalName'', ''synopsis'']"

definition as_IdentificationOptions :: "json \<Rightarrow> error + IdentificationOptions" where
  \<comment> \<open>the object literal \<^verbatim>\<open>{ speakerUri: idObj.speakerUri as string, ...,
      ...(idObj.department !== undefined ? { department: ... } : {}), ... }\<close>\<close>
  "as_IdentificationOptions idObj =
     ebind (as_string_opt ''identification.speakerUri'' (get_prop idObj ''speakerUri'')) (\<lambda>su.
     ebind (as_string_opt ''identification.serviceUrl'' (get_prop idObj ''serviceUrl'')) (\<lambda>sv.
     ebind (as_string_opt ''identification.organization'' (get_prop idObj ''organization'')) (\<lambda>org.
     ebind (as_string_opt ''identification.conversationalName''
              (get_prop idObj ''conversationalName'')) (\<lambda>cn.
     ebind (as_string_opt ''identification.synopsis'' (get_prop idObj ''synopsis'')) (\<lambda>syn.
     ebind (as_string_opt ''identification.department'' (get_prop idObj ''department'')) (\<lambda>dep.
     ebind (as_string_opt ''identification.role'' (get_prop idObj ''role'')) (\<lambda>rl.
       Inr \<lparr> IdentificationOptions.speakerUri = su, IdentificationOptions.serviceUrl = sv,
             IdentificationOptions.organization = org,
             IdentificationOptions.conversationalName = cn,
             IdentificationOptions.synopsis = syn,
             IdentificationOptions.department = dep, IdentificationOptions.role = rl \<rparr>)))))))"

definition Identification_fromObject :: "json \<Rightarrow> error + Identification" where
  "Identification_fromObject data =
     (if \<not> hasRequiredProperties data identification_fields then
        Inl (Error ''Identification requires speakerUri, serviceUrl, organization, conversationalName, and synopsis'')
      else ebind (as_IdentificationOptions data) Identification_ctor)"

subsection \<open>SupportedLayers\<close>

record SupportedLayersOptions =
  "input" :: "string list option"
  "output" :: "string list option"

record SupportedLayers =
  "input" :: "string list"
  "output" :: "string list"

definition SupportedLayers_ctor :: "SupportedLayersOptions \<Rightarrow> SupportedLayers" where
  \<comment> \<open>\<^verbatim>\<open>options.input || ['text']\<close>: an array, even an empty one, is kept\<close>
  "SupportedLayers_ctor options =
     \<lparr> SupportedLayers.input =
         (case SupportedLayersOptions.input options of None \<Rightarrow> [''text''] | Some xs \<Rightarrow> xs),
       SupportedLayers.output =
         (case SupportedLayersOptions.output options of None \<Rightarrow> [''text''] | Some xs \<Rightarrow> xs) \<rparr>"

definition SupportedLayers_toObject :: "SupportedLayers \<Rightarrow> json" where
  "SupportedLayers_toObject this =
     JObj [(''input'', JArr (map JStr (SupportedLayers.input this))),
           (''output'', JArr (map JStr (SupportedLayers.output this)))]"

definition as_layers :: "string \<Rightarrow> json \<Rightarrow> error + string list option" where
  \<comment> \<open>a value that the constructor reads with \<^verbatim>\<open>||\<close>: a false value is as an absent one\<close>
  "as_layers what v = (if \<not> truthy v then Inr None else as_strings_opt what v)"

definition as_SupportedLayersOptions :: "engine \<Rightarrow> json \<Rightarrow> error + SupportedLayersOptions" where
  "as_SupportedLayersOptions E data =
     (if data = JNull \<or> data = JUndefined then Inl (readError E data ''input'')
      else
        ebind (as_layers ''supportedLayers.input'' (get_prop data ''input'')) (\<lambda>i.
        ebind (as_layers ''supportedLayers.output'' (get_prop data ''output'')) (\<lambda>out.
          Inr \<lparr> SupportedLayersOptions.input = i, SupportedLayersOptions.output = out \<rparr>)))"

definition SupportedLayers_fromObject :: "engine \<Rightarrow> json \<Rightarrow> error + SupportedLayers" where
  "SupportedLayers_fromObject E data =
     ebind (as_SupportedLayersOptions E data) (\<lambda>options. Inr (SupportedLayers_ctor options))"

subsection \<open>Capability\<close>

record CapabilityOptions =
  keyphrases :: "string list option"
  descriptions :: "string list option"
  languages :: "string list option"
  supportedLayers :: "SupportedLayersOptions option"

record Capability =
  keyphrases :: "string list"
  descriptions :: "string list"
  languages :: "string list option"
  supportedLayers :: SupportedLayers

definition strings_json :: "string list option \<Rightarrow> json" where
  "strings_json xs = (case xs of None \<Rightarrow> JUndefined | Some ys \<Rightarrow> JArr (map JStr ys))"

definition required_strings :: "string \<Rightarrow> string list option \<Rightarrow> error + string list" where
  \<comment> \<open>\<^verbatim>\<open>if (!xs || xs.length === 0) throw ...\<close>\<close>
  "required_strings name xs =
     (case xs of
        Some ys \<Rightarrow> if length ys = 0
                   then Inl (Error (createValidationError name (strings_json xs) ''non-empty array of strings''))
                   else Inr ys
      | None \<Rightarrow> Inl (Error (createValidationError name JUndefined ''non-empty array of strings'')))"

definition Capability_ctor :: "CapabilityOptions \<Rightarrow> error + Capability" where
  "Capability_ctor options =
     ebind (required_strings ''Capability.keyphrases'' (CapabilityOptions.keyphrases options)) (\<lambda>ks.
     ebind (required_strings ''Capability.descriptions'' (CapabilityOptions.descriptions options)) (\<lambda>ds.
       Inr \<lparr> Capability.keyphrases = ks, Capability.descriptions = ds,
             Capability.languages = CapabilityOptions.languages options,
             Capability.supportedLayers =
               (case CapabilityOptions.supportedLayers options of
                  Some sl \<Rightarrow> SupportedLayers_ctor sl
                | None \<Rightarrow> SupportedLayers_ctor \<lparr> SupportedLayersOptions.input = None,
                                                   SupportedLayersOptions.output = None \<rparr>) \<rparr>))"

definition Capability_toObject :: "Capability \<Rightarrow> json" where
  "Capability_toObject this =
     JObj ([(''keyphrases'', JArr (map JStr (Capability.keyphrases this))),
            (''descriptions'', JArr (map JStr (Capability.descriptions this))),
            (''supportedLayers'', SupportedLayers_toObject (Capability.supportedLayers this))]
           @ (case Capability.languages this of
                None \<Rightarrow> []
              | Some ls \<Rightarrow> [(''languages'', JArr (map JStr ls))]))"

definition Capability_fromObject :: "engine \<Rightarrow> json \<Rightarrow> error + Capability" where
  "Capability_fromObject E data =
     (if \<not> hasRequiredProperties data [''keyphrases'', ''descriptions''] then
        Inl (Error ''Capability requires keyphrases and descriptions'')
      else
        ebind (as_strings_opt ''capability.keyphrases'' (get_prop data ''keyphrases'')) (\<lambda>ks.
        ebind (as_strings_opt ''capability.descriptions'' (get_prop data ''descriptions'')) (\<lambda>ds.
        ebind (as_strings_opt ''capability.languages'' (get_prop data ''languages'')) (\<lambda>ls.
        ebind (if get_prop data ''supportedLayers'' \<noteq> JUndefined
               then ebind (SupportedLayers_fromObject E (get_prop data ''supportedLayers'')) (\<lambda>sl.
                    ebind (as_SupportedLayersOptions E (SupportedLayers_toObject sl)) (\<lambda>opts. Inr (Some opts)))
               else Inr None) (\<lambda>sl.
          Capability_ctor \<lparr> CapabilityOptions.keyphrases = ks, CapabilityOptions.descriptions = ds,
                             CapabilityOptions.languages = ls,
                             CapabilityOptions.supportedLayers = sl \<rparr>)))))"

definition as_CapabilityOptions :: "engine \<Rightarrow> json \<Rightarrow> error + CapabilityOptions" where
  \<comment> \<open>the object literal of \<^verbatim>\<open>Manifest.fromObject\<close>, and the cast \<^verbatim>\<open>as CapabilityOptions\<close>\<close>
  "as_CapabilityOptions E capObj =
     ebind (as_strings_opt ''capability.keyphrases'' (get_prop capObj ''keyphrases'')) (\<lambda>ks.
     ebind (as_strings_opt ''capability.descriptions'' (get_prop capObj ''descriptions'')) (\<lambda>ds.
     ebind (as_strings_opt ''capability.languages'' (get_prop capObj ''languages'')) (\<lambda>ls.
     ebind (if get_prop capObj ''supportedLayers'' \<noteq> JUndefined
            then if truthy (get_prop capObj ''supportedLayers'')
                 then ebind (as_SupportedLayersOptions E (get_prop capObj ''supportedLayers''))
                        (\<lambda>opts. Inr (Some opts))
                 else Inr None
            else Inr None) (\<lambda>sl.
       Inr \<lparr> CapabilityOptions.keyphrases = ks, CapabilityOptions.descriptions = ds,
             CapabilityOptions.languages = ls, CapabilityOptions.supportedLayers = sl \<rparr>))))"

subsection \<open>Manifest\<close>

record ManifestOptions =
  identification :: "IdentificationOptions option"
  capabilities :: "CapabilityOptions list option"

record Manifest =
  identification :: Identification
  capabilities :: "Capability list"

definition Manifest_ctor :: "ManifestOptions \<Rightarrow> error + Manifest" where
  "Manifest_ctor options =
     (case ManifestOptions.identification options of
        None \<Rightarrow> Inl (Error (createValidationError ''Manifest.identification'' JUndefined
                               ''Identification object''))
      | Some ident \<Rightarrow>
          ebind (Identification_ctor ident) (\<lambda>i.
          ebind (emap Capability_ctor
                   (case ManifestOptions.capabilities options of None \<Rightarrow> [] | Some cs \<Rightarrow> cs)) (\<lambda>cs.
            Inr \<lparr> Manifest.identification = i, Manifest.capabilities = cs \<rparr>)))"

definition Manifest_toObject :: "Manifest \<Rightarrow> json" where
  "Manifest_toObject this =
     JObj [(''identification'', Identification_toObject (Manifest.identification this)),
           (''capabilities'', JArr (map Capability_toObject (Manifest.capabilities this)))]"


definition as_ManifestOptions :: "engine \<Rightarrow> json \<Rightarrow> error + ManifestOptions" where
  \<comment> \<open>the cast \<^verbatim>\<open>... as any\<close> of a plain object where a \<^verbatim>\<open>ManifestOptions\<close> is expected\<close>
  "as_ManifestOptions E v =
     (if v = JNull \<or> v = JUndefined then Inl (readError E v ''identification'')
      else
        ebind (if get_prop v ''identification'' = JUndefined then Inr None
               else if \<not> truthy (get_prop v ''identification'')
               then Inl (IllTyped ''manifest.identification'')
               else ebind (as_IdentificationOptions (get_prop v ''identification''))
                      (\<lambda>opts. Inr (Some opts))) (\<lambda>ident.
        ebind (case get_prop v ''capabilities'' of
                 JUndefined \<Rightarrow> Inr None
               | JArr cs \<Rightarrow> ebind (emap (as_CapabilityOptions E) cs) (\<lambda>x. Inr (Some x))
               | _ \<Rightarrow> Inl (IllTyped ''manifest.capabilities'')) (\<lambda>cs.
          Inr \<lparr> ManifestOptions.identification = ident, ManifestOptions.capabilities = cs \<rparr>)))"

subsection \<open>Conversant\<close>

record ConversantOptions =
  identification :: "IdentificationOptions option"
  persistentState :: "(string \<times> json) list option"

record Conversant =
  identification :: Identification
  persistentState :: "(string \<times> json) list"

definition Conversant_ctor :: "ConversantOptions \<Rightarrow> error + Conversant" where
  "Conversant_ctor options =
     (case ConversantOptions.identification options of
        None \<Rightarrow> Inl (Error (createValidationError ''Conversant.identification'' JUndefined
                               ''Identification object''))
      | Some ident \<Rightarrow>
          ebind (Identification_ctor ident) (\<lambda>i.
            Inr \<lparr> Conversant.identification = i,
                  Conversant.persistentState =
                    (case ConversantOptions.persistentState options of None \<Rightarrow> [] | Some ps \<Rightarrow> ps) \<rparr>))"

definition Conversant_toObject :: "Conversant \<Rightarrow> json" where
  "Conversant_toObject this =
     JObj ([(''identification'', Identification_toObject (Conversant.identification this))]
           @ (if length (Conversant.persistentState this) > 0
              then [(''persistentState'', JObj (Conversant.persistentState this))] else []))"

definition as_record_opt :: "json \<Rightarrow> (string \<times> json) list option" where
  \<comment> \<open>\<^verbatim>\<open>...(v !== undefined ? { k: v as Record<string, unknown> } : {})\<close>, for a value that
      is only copied (\<^verbatim>\<open>{ ...v }\<close>) or tested for truth: the copy of a value has the own
      enumerable properties of the value, none for \<^verbatim>\<open>null\<close>, a number or a boolean\<close>
  "as_record_opt v = (if v = JUndefined then None else Some (if truthy v then entries v else []))"

definition conversantOptions_of_data :: "json \<Rightarrow> error + ConversantOptions" where
  \<comment> \<open>the checks and the object literal of \<^verbatim>\<open>Conversant.fromObject\<close>, which
      \<^verbatim>\<open>Conversation.fromObject\<close> repeats\<close>
  "conversantOptions_of_data convObj =
     (if \<not> hasRequiredProperties convObj [''identification''] then
        Inl (Error ''Conversant requires identification'')
      else if \<not> hasRequiredProperties (get_prop convObj ''identification'') identification_fields then
        Inl (Error ''Identification requires all required fields'')
      else
        ebind (as_IdentificationOptions (get_prop convObj ''identification'')) (\<lambda>ident.
          Inr \<lparr> ConversantOptions.identification = Some ident,
                ConversantOptions.persistentState = as_record_opt (get_prop convObj ''persistentState'') \<rparr>))"

definition Conversant_fromObject :: "json \<Rightarrow> error + Conversant" where
  "Conversant_fromObject data = ebind (conversantOptions_of_data data) Conversant_ctor"

definition conversantOptions_of :: "Conversant \<Rightarrow> error + ConversantOptions" where
  \<comment> \<open>the callback \<^verbatim>\<open>c => { const obj = c.toObject(); ... }\<close> of \<^verbatim>\<open>Envelope.fromObject\<close>,
      \<^verbatim>\<open>Envelope.toPayload\<close>, \<^verbatim>\<open>Payload.fromObject\<close> and \<^verbatim>\<open>OpenFloorAgent.processEnvelope\<close>\<close>
  "conversantOptions_of c =
     (let obj = Conversant_toObject c
      in if \<not> truthy (get_prop obj ''identification'')
            \<or> typeof (get_prop obj ''identification'') \<noteq> ''object''
            \<or> \<not> hasRequiredProperties (get_prop obj ''identification'') identification_fields
         then Inl (Error ''Conversant.identification is missing required fields'')
         else
           ebind (as_IdentificationOptions (get_prop obj ''identification'')) (\<lambda>ident.
             Inr \<lparr> ConversantOptions.identification = Some ident,
                   ConversantOptions.persistentState = as_record_opt (get_prop obj ''persistentState'') \<rparr>))"

subsection \<open>Conversation\<close>

record ConversationOptions =
  id :: "string option"
  conversants :: "ConversantOptions list option"

record Conversation =
  id :: string
  conversants :: "Conversant list"

definition Conversation_ctor :: "ConversationOptions \<Rightarrow> error + Conversation" where
  "Conversation_ctor options =
     (case ConversationOptions.id options of
        None \<Rightarrow> Inl (Error ''Conversation.id is required'')
      | Some id' \<Rightarrow>
          if id' = [] then Inl (Error ''Conversation.id is required'')
          else
            ebind (emap Conversant_ctor
                     (case ConversationOptions.conversants options of None \<Rightarrow> [] | Some cs \<Rightarrow> cs)) (\<lambda>cs.
              Inr \<lparr> Conversation.id = id', Conversation.conversants = cs \<rparr>))"

definition Conversation_toObject :: "Conversation \<Rightarrow> json" where
  "Conversation_toObject this =
     JObj ([(''id'', JStr (Conversation.id this))]
           @ (if length (Conversation.conversants this) > 0
              then [(''conversants'', JArr (map Conversant_toObject (Conversation.conversants this)))]
              else []))"


definition conversationOptions_of :: "Conversation \<Rightarrow> error + ConversationOptions" where
  \<comment> \<open>the object literal \<^verbatim>\<open>{ id: c.id, ...(c.conversants && c.conversants.length > 0
      ? { conversants: c.conversants.map(...) } : {}) }\<close>\<close>
  "conversationOptions_of c =
     (if length (Conversation.conversants c) > 0
      then ebind (emap conversantOptions_of (Conversation.conversants c)) (\<lambda>cs.
             Inr \<lparr> ConversationOptions.id = Some (Conversation.id c),
                   ConversationOptions.conversants = Some cs \<rparr>)
      else Inr \<lparr> ConversationOptions.id = Some (Conversation.id c),
                 ConversationOptions.conversants = None \<rparr>)"

subsection \<open>Sender\<close>

record SenderOptions =
  speakerUri :: "string option"
  serviceUrl :: "string option"

record Sender =
  speakerUri :: string
  serviceUrl :: "string option"

definition Sender_ctor :: "SenderOptions \<Rightarrow> error + Sender" where
  "Sender_ctor options =
     ebind (required_string ''Sender.speakerUri'' (SenderOptions.speakerUri options)) (\<lambda>su.
       if \<not> isValidUri su
       then Inl (Error (createValidationError ''Sender.speakerUri'' (JStr su) ''valid URI format''))
       else Inr \<lparr> Sender.speakerUri = su, Sender.serviceUrl = SenderOptions.serviceUrl options \<rparr>)"

definition Sender_toObject :: "Sender \<Rightarrow> json" where
  "Sender_toObject this =
     JObj ([(''speakerUri'', JStr (Sender.speakerUri this))]
           @ string_entry ''serviceUrl'' (Sender.serviceUrl this))"


subsection \<open>To\<close>

record ToOptions =
  speakerUri :: "string option"
  serviceUrl :: "string option"
  isPrivate :: "bool option"    \<comment> \<open>the property \<^verbatim>\<open>private\<close>\<close>

record To =
  speakerUri :: "string option"
  serviceUrl :: "string option"
  isPrivate :: bool             \<comment> \<open>the property \<^verbatim>\<open>private\<close>\<close>

definition To_ctor :: "ToOptions \<Rightarrow> error + To" where
  "To_ctor options =
     (if \<not> truthy_string (ToOptions.speakerUri options) \<and> \<not> truthy_string (ToOptions.serviceUrl options)
      then Inl (Error ''To requires at least speakerUri or serviceUrl'')
      else Inr \<lparr> To.speakerUri = ToOptions.speakerUri options,
                 To.serviceUrl = ToOptions.serviceUrl options,
                 To.isPrivate = (case ToOptions.isPrivate options of None \<Rightarrow> False | Some b \<Rightarrow> b) \<rparr>)"

definition To_toObject :: "To \<Rightarrow> json" where
  "To_toObject this =
     JObj (string_entry ''speakerUri'' (To.speakerUri this)
           @ string_entry ''serviceUrl'' (To.serviceUrl this)
           @ (if To.isPrivate this then [(''private'', JBool (To.isPrivate this))] else []))"

definition as_ToOptions :: "json \<Rightarrow> error + ToOptions" where
  \<comment> \<open>the object literal of \<^verbatim>\<open>To.fromObject\<close>, and the cast \<^verbatim>\<open>as ToOptions\<close>; the constructor
      reads \<^verbatim>\<open>private\<close> for its truth value only (\<^verbatim>\<open>!!isPrivate\<close>)\<close>
  "as_ToOptions data =
     ebind (as_string_opt ''to.speakerUri'' (get_prop data ''speakerUri'')) (\<lambda>su.
     ebind (as_string_opt ''to.serviceUrl'' (get_prop data ''serviceUrl'')) (\<lambda>sv.
       Inr \<lparr> ToOptions.speakerUri = su, ToOptions.serviceUrl = sv,
             ToOptions.isPrivate =
               (if get_prop data ''private'' = JUndefined then None
                else Some (truthy (get_prop data ''private''))) \<rparr>))"

definition To_fromObject :: "engine \<Rightarrow> json \<Rightarrow> error + To" where
  "To_fromObject E data =
     (if data = JNull \<or> data = JUndefined then Inl (readError E data ''speakerUri'')
      else if \<not> truthy (get_prop data ''speakerUri'') \<and> \<not> truthy (get_prop data ''serviceUrl'')
      then Inl (Error ''To requires at least speakerUri or serviceUrl'')
      else ebind (as_ToOptions data) To_ctor)"

definition reToOptions :: "engine \<Rightarrow> json \<Rightarrow> error + ToOptions" where
  \<comment> \<open>\<^verbatim>\<open>To.fromObject(data.to).toObject() as ToOptions\<close>\<close>
  "reToOptions E v = ebind (To_fromObject E v) (\<lambda>t. as_ToOptions (To_toObject t))"

subsection \<open>Event\<close>

record BaseEventOptions =
  eventType :: "string option"
  to :: "ToOptions option"
  reason :: "string option"
  parameters :: "(string \<times> json) list option"

record Event =
  eventType :: string
  to :: "To option"
  reason :: "string option"
  parameters :: "(string \<times> json) list"

definition allowedEventTypes :: "string list" where
  "allowedEventTypes =
     [''utterance'', ''context'', ''invite'', ''uninvite'', ''declineInvite'', ''bye'',
      ''getManifests'', ''publishManifests'', ''requestFloor'', ''grantFloor'', ''revokeFloor'',
      ''yieldFloor'']"

definition Event_ctor :: "BaseEventOptions \<Rightarrow> error + Event" where
  "Event_ctor options =
     (case BaseEventOptions.eventType options of
        None \<Rightarrow> Inl (Error (''Invalid eventType: '' @ ''undefined''))
      | Some et \<Rightarrow>
          if et = [] \<or> et \<notin> set allowedEventTypes then Inl (Error (''Invalid eventType: '' @ et))
          else
            ebind (opt_ctor To_ctor (BaseEventOptions.to options)) (\<lambda>to'.
              Inr \<lparr> Event.eventType = et, Event.to = to',
                    Event.reason = BaseEventOptions.reason options,
                    Event.parameters =
                      (case BaseEventOptions.parameters options of None \<Rightarrow> [] | Some ps \<Rightarrow> ps) \<rparr>))"


definition to_of_data :: "engine \<Rightarrow> json \<Rightarrow> error + ToOptions option" where
  \<comment> \<open>\<^verbatim>\<open>data.to && typeof data.to === 'object'
      ? To.fromObject(data.to).toObject() as ToOptions : undefined\<close>\<close>
  "to_of_data E data =
     (if truthy (get_prop data ''to'') \<and> typeof (get_prop data ''to'') = ''object''
      then ebind (reToOptions E (get_prop data ''to'')) (\<lambda>t. Inr (Some t))
      else Inr None)"



subsection \<open>Envelope\<close>

record EnvelopeOptions =
  schema :: "SchemaOptions option"
  conversation :: "ConversationOptions option"
  sender :: "SenderOptions option"
  events :: "BaseEventOptions list option"

record Envelope =
  schema :: Schema
  conversation :: Conversation
  sender :: Sender
  events :: "Event list"

definition Envelope_ctor :: "EnvelopeOptions \<Rightarrow> error + Envelope" where
  "Envelope_ctor options =
     (case EnvelopeOptions.schema options of
        None \<Rightarrow> Inl (Error ''Envelope.schema is required'')
      | Some schema' \<Rightarrow>
     (case EnvelopeOptions.conversation options of
        None \<Rightarrow> Inl (Error ''Envelope.conversation is required'')
      | Some conversation' \<Rightarrow>
     (case EnvelopeOptions.sender options of
        None \<Rightarrow> Inl (Error ''Envelope.sender is required'')
      | Some sender' \<Rightarrow>
     (case EnvelopeOptions.events options of
        None \<Rightarrow> Inl (Error ''Envelope.events is required'')
      | Some events' \<Rightarrow>
          ebind (Conversation_ctor conversation') (\<lambda>c.
          ebind (Sender_ctor sender') (\<lambda>s.
          ebind (emap Event_ctor events') (\<lambda>es.
            Inr \<lparr> Envelope.schema = Schema_ctor schema', Envelope.conversation = c,
                  Envelope.sender = s, Envelope.events = es \<rparr>)))))))"


definition schemaOptions_of :: "Schema \<Rightarrow> SchemaOptions" where
  \<comment> \<open>\<^verbatim>\<open>{ version: s.version, ...(s.url ? { url: s.url } : {}) }\<close>\<close>
  "schemaOptions_of s = \<lparr> Schema.version = Schema.version s, Schema.url = truthy_only (Schema.url s) \<rparr>"



section \<open>The event classes (\<^verbatim>\<open>events.ts\<close>)\<close>

text \<open>
  A class that extends \<^verbatim>\<open>Event\<close> is a record that extends the record \<open>Event\<close>. The eight
  classes without a field of their own (\<^verbatim>\<open>InviteEvent\<close>, \<^verbatim>\<open>UninviteEvent\<close>,
  \<^verbatim>\<open>DeclineInviteEvent\<close>, \<^verbatim>\<open>ByeEvent\<close>, \<^verbatim>\<open>RequestFloorEvent\<close>, \<^verbatim>\<open>GrantFloorEvent\<close>,
  \<^verbatim>\<open>RevokeFloorEvent\<close>, \<^verbatim>\<open>YieldFloorEvent\<close>) have the same constructor and the same
  \<^verbatim>\<open>fromObject\<close> but for the event type.
\<close>

record BareEventOptions =
  to :: "ToOptions option"
  reason :: "string option"

definition bareEvent_ctor :: "string \<Rightarrow> BareEventOptions \<Rightarrow> error + Event" where
  "bareEvent_ctor et options =
     Event_ctor \<lparr> BaseEventOptions.eventType = Some et,
                  BaseEventOptions.to = BareEventOptions.to options,
                  BaseEventOptions.reason = BareEventOptions.reason options,
                  BaseEventOptions.parameters = Some [] \<rparr>"

definition reason_of_data :: "json \<Rightarrow> string option" where
  \<comment> \<open>\<^verbatim>\<open>if (typeof data.reason === 'string') options.reason = data.reason\<close>\<close>
  "reason_of_data data = (case get_prop data ''reason'' of JStr r \<Rightarrow> Some r | _ \<Rightarrow> None)"

definition bareEvent_fromObject :: "string \<Rightarrow> engine \<Rightarrow> json \<Rightarrow> error + Event" where
  "bareEvent_fromObject et E data =
     (if data = JNull \<or> data = JUndefined then Inl (readError E data ''to'')
      else
        ebind (to_of_data E data) (\<lambda>to'.
          bareEvent_ctor et \<lparr> BareEventOptions.to = to', BareEventOptions.reason = reason_of_data data \<rparr>))"

definition InviteEvent_ctor :: "BareEventOptions \<Rightarrow> error + Event" where
  "InviteEvent_ctor = bareEvent_ctor ''invite''"

definition UninviteEvent_ctor :: "BareEventOptions \<Rightarrow> error + Event" where
  "UninviteEvent_ctor = bareEvent_ctor ''uninvite''"

definition DeclineInviteEvent_ctor :: "BareEventOptions \<Rightarrow> error + Event" where
  "DeclineInviteEvent_ctor = bareEvent_ctor ''declineInvite''"

definition ByeEvent_ctor :: "BareEventOptions \<Rightarrow> error + Event" where
  "ByeEvent_ctor = bareEvent_ctor ''bye''"

definition RequestFloorEvent_ctor :: "BareEventOptions \<Rightarrow> error + Event" where
  "RequestFloorEvent_ctor = bareEvent_ctor ''requestFloor''"

definition GrantFloorEvent_ctor :: "BareEventOptions \<Rightarrow> error + Event" where
  "GrantFloorEvent_ctor = bareEvent_ctor ''grantFloor''"

definition RevokeFloorEvent_ctor :: "BareEventOptions \<Rightarrow> error + Event" where
  "RevokeFloorEvent_ctor = bareEvent_ctor ''revokeFloor''"

definition YieldFloorEvent_ctor :: "BareEventOptions \<Rightarrow> error + Event" where
  "YieldFloorEvent_ctor = bareEvent_ctor ''yieldFloor''"

subsection \<open>UtteranceEvent\<close>

record UtteranceEventOptions =
  dialogEvent :: "DialogEventOptions option"
  to :: "ToOptions option"
  reason :: "string option"

record UtteranceEvent = Event +
  dialogEvent :: DialogEvent

definition UtteranceEvent_ctor :: "engine \<Rightarrow> UtteranceEventOptions \<Rightarrow> error + UtteranceEvent" where
  "UtteranceEvent_ctor E options =
     (case UtteranceEventOptions.dialogEvent options of
        None \<Rightarrow> Inl (Error (createValidationError ''UtteranceEvent.dialogEvent'' JUndefined
                               ''DialogEvent object''))
      | Some de \<Rightarrow>
          ebind (DialogEvent_ctor E de) (\<lambda>dialogEventInstance.
          ebind (DialogEvent_toObject E dialogEventInstance) (\<lambda>j.
          ebind (Event_ctor \<lparr> BaseEventOptions.eventType = Some ''utterance'',
                               BaseEventOptions.to = UtteranceEventOptions.to options,
                               BaseEventOptions.reason = UtteranceEventOptions.reason options,
                               BaseEventOptions.parameters = Some [(''dialogEvent'', j)] \<rparr>) (\<lambda>base.
            Inr (Event.extend base \<lparr> UtteranceEvent.dialogEvent = dialogEventInstance \<rparr>)))))"

definition UtteranceEvent_fromObject :: "engine \<Rightarrow> json \<Rightarrow> error + UtteranceEvent" where
  "UtteranceEvent_fromObject E data =
     (if data = JNull \<or> data = JUndefined then Inl (readError E data ''parameters'')
      else if \<not> truthy (get_prop data ''parameters'') \<or> typeof (get_prop data ''parameters'') \<noteq> ''object''
      then Inl (Error ''UtteranceEvent requires parameters with dialogEvent'')
      else if \<not> truthy (get_prop (get_prop data ''parameters'') ''dialogEvent'')
              \<or> typeof (get_prop (get_prop data ''parameters'') ''dialogEvent'') \<noteq> ''object''
      then Inl (Error ''UtteranceEvent requires dialogEvent parameter'')
      else
        ebind (DialogEvent_fromObject E (get_prop (get_prop data ''parameters'') ''dialogEvent'')) (\<lambda>d.
        ebind (DialogEvent_toObject E d) (\<lambda>j.
        ebind (as_DialogEventOptions E j) (\<lambda>de.
        ebind (as_string_opt ''event.reason'' (get_prop data ''reason'')) (\<lambda>r.
        ebind (to_of_data E data) (\<lambda>to'.
          UtteranceEvent_ctor E \<lparr> UtteranceEventOptions.dialogEvent = Some de,
                                   UtteranceEventOptions.to = to',
                                   UtteranceEventOptions.reason = r \<rparr>))))))"

subsection \<open>ContextEvent\<close>

record ContextEventOptions =
  dialogHistory :: "DialogEventOptions list option"
  to :: "ToOptions option"
  reason :: "string option"
  additionalParams :: "(string \<times> json) list"   \<comment> \<open>the other properties of the options\<close>

record ContextEvent = Event +
  dialogHistory :: "DialogEvent list"

definition ContextEvent_ctor :: "engine \<Rightarrow> ContextEventOptions \<Rightarrow> error + ContextEvent" where
  "ContextEvent_ctor E options =
     ebind (emap (DialogEvent_ctor E)
              (case ContextEventOptions.dialogHistory options of None \<Rightarrow> [] | Some h \<Rightarrow> h)) (\<lambda>dialogHistoryInstance.
     ebind (emap (DialogEvent_toObject E) dialogHistoryInstance) (\<lambda>js.
     ebind (Event_ctor \<lparr> BaseEventOptions.eventType = Some ''context'',
                          BaseEventOptions.to = ContextEventOptions.to options,
                          BaseEventOptions.reason = ContextEventOptions.reason options,
                          BaseEventOptions.parameters =
                            Some ((''dialogHistory'', JArr js) # ContextEventOptions.additionalParams options) \<rparr>) (\<lambda>base.
       Inr (Event.extend base \<lparr> ContextEvent.dialogHistory = dialogHistoryInstance \<rparr>))))"

definition ContextEvent_fromObject :: "engine \<Rightarrow> json \<Rightarrow> error + ContextEvent" where
  \<comment> \<open>the options are \<^verbatim>\<open>{ dialogHistory: (params.dialogHistory || []).map(...), ...params }\<close>:
      the properties of the parameters come last, so that their \<^verbatim>\<open>dialogHistory\<close>, \<^verbatim>\<open>to\<close> and
      \<^verbatim>\<open>reason\<close> are those of the options\<close>
  "ContextEvent_fromObject E data =
     (if data = JNull \<or> data = JUndefined then Inl (readError E data ''parameters'')
      else
        let params = (if truthy (get_prop data ''parameters'') then get_prop data ''parameters'' else JObj []);
            hist = (if truthy (get_prop params ''dialogHistory'') then get_prop params ''dialogHistory'' else JArr [])
        in case hist of
             JArr hs \<Rightarrow>
               ebind (emap (\<lambda>eventData. ebind (DialogEvent_fromObject E eventData) (DialogEvent_toObject E)) hs) (\<lambda>mapped.
               ebind (if has_prop ''dialogHistory'' (JObj (entries params))
                      then (case get_prop params ''dialogHistory'' of
                              JUndefined \<Rightarrow> Inr None
                            | JArr raw \<Rightarrow> ebind (emap (as_DialogEventOptions E) raw) (\<lambda>x. Inr (Some x))
                            | _ \<Rightarrow> Inl (IllTyped ''context.dialogHistory''))
                      else ebind (emap (as_DialogEventOptions E) mapped) (\<lambda>x. Inr (Some x))) (\<lambda>history.
               ebind (case reason_of_data data of
                        Some r \<Rightarrow> Inr (Some r)
                      | None \<Rightarrow> as_string_opt ''context.reason'' (get_prop (JObj (entries params)) ''reason'')) (\<lambda>r.
               ebind (if truthy (get_prop data ''to'') \<and> typeof (get_prop data ''to'') = ''object''
                      then to_of_data E data
                      else (case get_prop (JObj (entries params)) ''to'' of
                              JUndefined \<Rightarrow> Inr None
                            | JObj t \<Rightarrow> ebind (as_ToOptions (JObj t)) (\<lambda>x. Inr (Some x))
                            | _ \<Rightarrow> Inl (IllTyped ''context.to''))) (\<lambda>to'.
                 ContextEvent_ctor E
                   \<lparr> ContextEventOptions.dialogHistory = history,
                     ContextEventOptions.to = to',
                     ContextEventOptions.reason = r,
                     ContextEventOptions.additionalParams =
                       filter (\<lambda>(k, v). k \<notin> {''dialogHistory'', ''to'', ''reason''}) (entries params) \<rparr>))))
           | _ \<Rightarrow> Inl (IllTyped ''context.dialogHistory''))"

subsection \<open>GetManifestsEvent\<close>

record GetManifestsEventOptions =
  recommendScope :: "string option"
  to :: "ToOptions option"
  reason :: "string option"

record GetManifestsEvent = Event +
  recommendScope :: string

definition GetManifestsEvent_ctor :: "GetManifestsEventOptions \<Rightarrow> error + GetManifestsEvent" where
  "GetManifestsEvent_ctor options =
     (let recommendScope' =
            (case GetManifestsEventOptions.recommendScope options of None \<Rightarrow> ''internal'' | Some s \<Rightarrow> s)
      in ebind (Event_ctor \<lparr> BaseEventOptions.eventType = Some ''getManifests'',
                              BaseEventOptions.to = GetManifestsEventOptions.to options,
                              BaseEventOptions.reason = GetManifestsEventOptions.reason options,
                              BaseEventOptions.parameters =
                                Some [(''recommendScope'', JStr recommendScope')] \<rparr>) (\<lambda>base.
           Inr (Event.extend base \<lparr> GetManifestsEvent.recommendScope = recommendScope' \<rparr>)))"

definition GetManifestsEvent_fromObject :: "engine \<Rightarrow> json \<Rightarrow> error + GetManifestsEvent" where
  \<comment> \<open>\<^verbatim>\<open>(data.parameters as any)?.recommendScope ?? 'internal'\<close>\<close>
  "GetManifestsEvent_fromObject E data =
     (if data = JNull \<or> data = JUndefined then Inl (readError E data ''parameters'')
      else
        let scope = (if get_prop data ''parameters'' = JNull \<or> get_prop data ''parameters'' = JUndefined
                     then JUndefined else get_prop (get_prop data ''parameters'') ''recommendScope'')
        in ebind (if scope = JNull \<or> scope = JUndefined then Inr (Some ''internal'')
                  else as_string_opt ''getManifests.recommendScope'' scope) (\<lambda>rs.
           ebind (to_of_data E data) (\<lambda>to'.
             GetManifestsEvent_ctor \<lparr> GetManifestsEventOptions.recommendScope = rs,
                                       GetManifestsEventOptions.to = to',
                                       GetManifestsEventOptions.reason = reason_of_data data \<rparr>)))"

subsection \<open>PublishManifestsEvent\<close>

record PublishManifestsEventOptions =
  servicingManifests :: "ManifestOptions list option"
  discoveryManifests :: "ManifestOptions list option"
  to :: "ToOptions option"
  reason :: "string option"

record PublishManifestsEvent = Event +
  servicingManifests :: "Manifest list"
  discoveryManifests :: "Manifest list"

definition PublishManifestsEvent_ctor :: "PublishManifestsEventOptions \<Rightarrow> error + PublishManifestsEvent" where
  "PublishManifestsEvent_ctor options =
     ebind (emap Manifest_ctor
              (case PublishManifestsEventOptions.servicingManifests options of None \<Rightarrow> [] | Some ms \<Rightarrow> ms)) (\<lambda>servicingInstances.
     ebind (emap Manifest_ctor
              (case PublishManifestsEventOptions.discoveryManifests options of None \<Rightarrow> [] | Some ms \<Rightarrow> ms)) (\<lambda>discoveryInstances.
     ebind (Event_ctor \<lparr> BaseEventOptions.eventType = Some ''publishManifests'',
                          BaseEventOptions.to = PublishManifestsEventOptions.to options,
                          BaseEventOptions.reason = PublishManifestsEventOptions.reason options,
                          BaseEventOptions.parameters =
                            Some [(''servicingManifests'', JArr (map Manifest_toObject servicingInstances)),
                                  (''discoveryManifests'', JArr (map Manifest_toObject discoveryInstances))] \<rparr>) (\<lambda>base.
       Inr (Event.extend base \<lparr> PublishManifestsEvent.servicingManifests = servicingInstances,
                                 PublishManifestsEvent.discoveryManifests = discoveryInstances \<rparr>))))"

definition PublishManifestsEvent_fromObject :: "engine \<Rightarrow> json \<Rightarrow> error + PublishManifestsEvent" where
  "PublishManifestsEvent_fromObject E data =
     (if data = JNull \<or> data = JUndefined then Inl (readError E data ''parameters'')
      else
        let params = (if truthy (get_prop data ''parameters'') then get_prop data ''parameters'' else JObj [])
        in ebind (emap (as_ManifestOptions E) (elements (get_prop params ''servicingManifests''))) (\<lambda>sm.
           ebind (emap (as_ManifestOptions E) (elements (get_prop params ''discoveryManifests''))) (\<lambda>dm.
           ebind (to_of_data E data) (\<lambda>to'.
             PublishManifestsEvent_ctor
               \<lparr> PublishManifestsEventOptions.servicingManifests = Some sm,
                 PublishManifestsEventOptions.discoveryManifests = Some dm,
                 PublishManifestsEventOptions.to = to',
                 PublishManifestsEventOptions.reason = reason_of_data data \<rparr>))))"

subsection \<open>The factory\<close>

definition upcast :: "error + 'a Event_scheme \<Rightarrow> error + Event" where
  \<comment> \<open>an instance of a class that extends \<^verbatim>\<open>Event\<close>, seen as an \<^verbatim>\<open>Event\<close>\<close>
  "upcast r = (case r of Inl e \<Rightarrow> Inl e | Inr x \<Rightarrow> Inr (Event.truncate x))"

definition createEvent :: "engine \<Rightarrow> json \<Rightarrow> error + Event" where
  "createEvent E data =
     (if data = JNull \<or> data = JUndefined then Inl (readError E data ''eventType'')
      else
        let eventType = get_prop data ''eventType''
        in if eventType = JStr ''utterance'' then upcast (UtteranceEvent_fromObject E data)
           else if eventType = JStr ''context'' then upcast (ContextEvent_fromObject E data)
           else if eventType = JStr ''invite'' then bareEvent_fromObject ''invite'' E data
           else if eventType = JStr ''uninvite'' then bareEvent_fromObject ''uninvite'' E data
           else if eventType = JStr ''declineInvite'' then bareEvent_fromObject ''declineInvite'' E data
           else if eventType = JStr ''bye'' then bareEvent_fromObject ''bye'' E data
           else if eventType = JStr ''getManifests'' then upcast (GetManifestsEvent_fromObject E data)
           else if eventType = JStr ''publishManifests'' then upcast (PublishManifestsEvent_fromObject E data)
           else if eventType = JStr ''requestFloor'' then bareEvent_fromObject ''requestFloor'' E data
           else if eventType = JStr ''grantFloor'' then bareEvent_fromObject ''grantFloor'' E data
           else if eventType = JStr ''revokeFloor'' then bareEvent_fromObject ''revokeFloor'' E data
           else if eventType = JStr ''yieldFloor'' then bareEvent_fromObject ''yieldFloor'' E data
           else Inl (Error (''Unknown event type: '' @ js_toString E eventType)))"

section \<open>The agents (\<^verbatim>\<open>agents.ts\<close>)\<close>

text \<open>
  An agent is a record of its private fields, and a method takes the agent and returns it
  updated. The outbound envelope is an object shared by \<^verbatim>\<open>processEnvelope\<close> and the handlers,
  which mutate it: it travels with the agent, in a record \<open>world\<close>. The handlers assign to a
  property \<^verbatim>\<open>_events\<close> of the outbound envelope, through a cast to \<^verbatim>\<open>any\<close>. The class
  \<^verbatim>\<open>Envelope\<close> declares no such property (its list is the field \<^verbatim>\<open>events\<close>, a frozen array that
  the constructor fills and that \<^verbatim>\<open>toObject\<close> reads), so that the assignment creates one:
  an outbound envelope is an \<open>Envelope\<close> extended by it.

  A handler is an \<^verbatim>\<open>async\<close> function: what it raises rejects its promise. Its outcome is the
  error, if any, paired with the world at this moment. The model runs a handler to its end, one
  event after the other: it gives the agent and the outbound envelope once the promise of the
  listener is settled. The list \<^verbatim>\<open>events\<close> of the outbound envelope is never assigned, so that
  it is the same at every earlier moment.
\<close>

record OutEnvelope = Envelope +
  underscore_events :: "Event list option"   \<comment> \<open>the property \<^verbatim>\<open>_events\<close>, absent at first\<close>

record 'a world =
  agent :: 'a
  outEnvelope :: OutEnvelope

type_synonym 'a outcome = "error option \<times> 'a world"

definition set_underscore_events :: "Event list \<Rightarrow> 'a world \<Rightarrow> 'a world" where
  \<comment> \<open>\<^verbatim>\<open>(outEnvelope as any)._events = v\<close>\<close>
  "set_underscore_events v w = w \<lparr> outEnvelope := (outEnvelope w) \<lparr> underscore_events := Some v \<rparr> \<rparr>"

subsection \<open>OpenFloorAgent\<close>

record OpenFloorAgent =
  manifest :: Manifest   \<comment> \<open>the field \<^verbatim>\<open>_manifest\<close>\<close>

record EventMetadata =
  addressedToMe :: bool

definition OpenFloorAgent_ctor :: "ManifestOptions option \<Rightarrow> error + OpenFloorAgent" where
  "OpenFloorAgent_ctor manifest' =
     (case manifest' of
        None \<Rightarrow> Inl (Error (createValidationError ''OpenFloorAgent.manifest'' JUndefined
                               ''valid ManifestOptions object''))
      | Some m \<Rightarrow> ebind (Manifest_ctor m) (\<lambda>x. Inr \<lparr> OpenFloorAgent.manifest = x \<rparr>))"

definition speakerUri :: "'a OpenFloorAgent_scheme \<Rightarrow> string" where
  "speakerUri this = Identification.speakerUri (Manifest.identification (OpenFloorAgent.manifest this))"

definition serviceUrl :: "'a OpenFloorAgent_scheme \<Rightarrow> string" where
  "serviceUrl this = Identification.serviceUrl (Manifest.identification (OpenFloorAgent.manifest this))"

definition newOutEnvelope :: "'a OpenFloorAgent_scheme \<Rightarrow> Envelope \<Rightarrow> error + OutEnvelope" where
  \<comment> \<open>the first statement of \<^verbatim>\<open>processEnvelope\<close>\<close>
  "newOutEnvelope this inEnvelope =
     ebind (conversationOptions_of (Envelope.conversation inEnvelope)) (\<lambda>conversation'.
     ebind (Envelope_ctor
              \<lparr> EnvelopeOptions.schema = Some (schemaOptions_of (Envelope.schema inEnvelope)),
                EnvelopeOptions.conversation = Some conversation',
                EnvelopeOptions.sender =
                  Some \<lparr> SenderOptions.speakerUri = Some (speakerUri this),
                         SenderOptions.serviceUrl = Some (serviceUrl this) \<rparr>,
                EnvelopeOptions.events = Some [] \<rparr>) (\<lambda>env.
       Inr (Envelope.extend env \<lparr> underscore_events = None \<rparr>)))"

definition addMetadata :: "'a OpenFloorAgent_scheme \<Rightarrow> Event list \<Rightarrow> (Event \<times> EventMetadata) list" where
  "addMetadata this events' =
     map (\<lambda>event.
            (event,
             \<lparr> addressedToMe =
                 (case Event.to event of
                    None \<Rightarrow> True
                  | Some t \<Rightarrow> To.speakerUri t = Some (speakerUri this)
                               \<or> To.serviceUrl t = Some (serviceUrl this)) \<rparr>)) events'"

text \<open>
  \<^verbatim>\<open>processEnvelope\<close> builds the outbound envelope, dispatches the event \<^verbatim>\<open>agent:onEnvelope\<close> to the
  listener that the constructor of the class registered, and returns the outbound envelope.
  \<^verbatim>\<open>dispatchEvent\<close> calls the listener and drops the promise that it returns: an error raised by
  the listener reaches no caller. What \<^verbatim>\<open>processEnvelope\<close> gives is the envelope that it returns,
  the agent, and the error that the listener raised, if any.
\<close>

record 'a processed =
  returned :: OutEnvelope
  after :: 'a
  unhandled :: "error option"

definition processEnvelope ::
  "('a OpenFloorAgent_scheme \<Rightarrow> Envelope \<Rightarrow> OutEnvelope \<Rightarrow> 'a OpenFloorAgent_scheme outcome)
   \<Rightarrow> 'a OpenFloorAgent_scheme \<Rightarrow> Envelope \<Rightarrow> error + 'a OpenFloorAgent_scheme processed" where
  "processEnvelope onEnvelope this inEnvelope =
     ebind (newOutEnvelope this inEnvelope) (\<lambda>out.
       case onEnvelope this inEnvelope out of
         (err, w) \<Rightarrow> Inr \<lparr> returned = outEnvelope w, after = agent w, unhandled = err \<rparr>)"

subsection \<open>The type guards\<close>

definition isUtteranceEvent :: "'a Event_scheme \<Rightarrow> bool" where
  "isUtteranceEvent event = (Event.eventType event = ''utterance'')"

definition isContextEvent :: "'a Event_scheme \<Rightarrow> bool" where
  "isContextEvent event = (Event.eventType event = ''context'')"

definition isInviteEvent :: "'a Event_scheme \<Rightarrow> bool" where
  "isInviteEvent event = (Event.eventType event = ''invite'')"

definition isUninviteEvent :: "'a Event_scheme \<Rightarrow> bool" where
  "isUninviteEvent event = (Event.eventType event = ''uninvite'')"

definition isDeclineInviteEvent :: "'a Event_scheme \<Rightarrow> bool" where
  "isDeclineInviteEvent event = (Event.eventType event = ''declineInvite'')"

definition isByeEvent :: "'a Event_scheme \<Rightarrow> bool" where
  "isByeEvent event = (Event.eventType event = ''bye'')"

definition isGetManifestsEvent :: "'a Event_scheme \<Rightarrow> bool" where
  "isGetManifestsEvent event = (Event.eventType event = ''getManifests'')"

definition isPublishManifestsEvent :: "'a Event_scheme \<Rightarrow> bool" where
  "isPublishManifestsEvent event = (Event.eventType event = ''publishManifests'')"

definition isRequestFloorEvent :: "'a Event_scheme \<Rightarrow> bool" where
  "isRequestFloorEvent event = (Event.eventType event = ''requestFloor'')"

definition isGrantFloorEvent :: "'a Event_scheme \<Rightarrow> bool" where
  "isGrantFloorEvent event = (Event.eventType event = ''grantFloor'')"

definition isRevokeFloorEvent :: "'a Event_scheme \<Rightarrow> bool" where
  "isRevokeFloorEvent event = (Event.eventType event = ''revokeFloor'')"

definition isYieldFloorEvent :: "'a Event_scheme \<Rightarrow> bool" where
  "isYieldFloorEvent event = (Event.eventType event = ''yieldFloor'')"

subsection \<open>BotAgent\<close>

text \<open>
  \<^verbatim>\<open>agents.ts\<close> imports the name \<^verbatim>\<open>PublishManifestEvent\<close> from \<^verbatim>\<open>events.ts\<close>, which exports a class
  \<^verbatim>\<open>PublishManifestsEvent\<close> and nothing under the imported name. What the name is bound to is
  an argument of the handlers: \<open>None\<close> when it is bound to nothing, as the source has it, and a
  constructor otherwise.
\<close>

type_synonym binding = "(PublishManifestsEventOptions \<Rightarrow> error + PublishManifestsEvent) option"

record BotAgent = OpenFloorAgent +
  currentContext :: "Event list"
  activeConversation :: "Conversation option"
  hasFloor :: bool

definition BotAgent_ctor :: "ManifestOptions option \<Rightarrow> error + BotAgent" where
  "BotAgent_ctor manifest' =
     ebind (OpenFloorAgent_ctor manifest') (\<lambda>base.
       Inr (OpenFloorAgent.extend base
              \<lparr> currentContext = [], activeConversation = None, hasFloor = False \<rparr>))"

definition handleGrantFloor :: "BotAgent world \<Rightarrow> BotAgent outcome" where
  "handleGrantFloor w = (None, w \<lparr> agent := (agent w) \<lparr> hasFloor := True \<rparr> \<rparr>)"

definition handleRevokeFloor :: "BotAgent world \<Rightarrow> BotAgent outcome" where
  "handleRevokeFloor w = (None, w \<lparr> agent := (agent w) \<lparr> hasFloor := False \<rparr> \<rparr>)"

definition handleInvite :: "Envelope \<Rightarrow> BotAgent world \<Rightarrow> BotAgent outcome" where
  "handleInvite inEnvelope w =
     (case Conversation_ctor
             \<lparr> ConversationOptions.id = Some (Conversation.id (Envelope.conversation inEnvelope)),
               ConversationOptions.conversants = None \<rparr> of
        Inl e \<Rightarrow> (Some e, w)
      | Inr c \<Rightarrow>
          let w' = w \<lparr> agent := (agent w) \<lparr> activeConversation := Some c \<rparr> \<rparr>
          in case GrantFloorEvent_ctor
                    \<lparr> BareEventOptions.to = None,
                      BareEventOptions.reason =
                        Some ''Automatic floor grant as a result of invitation'' \<rparr> of
               Inl e \<Rightarrow> (Some e, w')
             | Inr _ \<Rightarrow> handleGrantFloor w')"

definition cannedResponse :: "string \<Rightarrow> UtteranceEventOptions" where
  \<comment> \<open>the argument of \<^verbatim>\<open>new UtteranceEvent\<close> in \<^verbatim>\<open>_handleUtterance\<close>\<close>
  "cannedResponse su =
     \<lparr> UtteranceEventOptions.dialogEvent =
         Some \<lparr> DialogEventOptions.speakerUri = Some su,
                DialogEventOptions.id = None,
                DialogEventOptions.span = None,
                DialogEventOptions.features =
                  Some [(''text'',
                         \<lparr> FeatureOptions.mimeType = Some ''text/plain'',
                           FeatureOptions.tokens =
                             Some [\<lparr> TokenOptions.value =
                                       JStr ''Sorry! I'm a simple bot that has not been programmed to do anything yet.'',
                                     TokenOptions.valueUrl = None,
                                     TokenOptions.span = None,
                                     TokenOptions.confidence = None,
                                     TokenOptions.links = None \<rparr>],
                           FeatureOptions.alternates = None,
                           FeatureOptions.lang = None,
                           FeatureOptions.encoding = None,
                           FeatureOptions.tokenSchema = None \<rparr>)],
                DialogEventOptions.previousId = None,
                DialogEventOptions.context = None \<rparr>,
       UtteranceEventOptions.to = None,
       UtteranceEventOptions.reason = None \<rparr>"

definition handleUtterance :: "engine \<Rightarrow> BotAgent world \<Rightarrow> BotAgent outcome" where
  "handleUtterance E w =
     (case UtteranceEvent_ctor E (cannedResponse (speakerUri (agent w))) of
        Inl e \<Rightarrow> (Some e, w)
      | Inr responseEvent \<Rightarrow>
          (None, set_underscore_events
                   (Envelope.events (outEnvelope w) @ [Event.truncate responseEvent]) w))"

definition handleContext :: "Event \<Rightarrow> BotAgent world \<Rightarrow> BotAgent outcome" where
  "handleContext event w =
     (None, w \<lparr> agent := (agent w) \<lparr> currentContext := currentContext (agent w) @ [event] \<rparr> \<rparr>)"

definition handleUninvite :: "BotAgent world \<Rightarrow> BotAgent outcome" where
  "handleUninvite w =
     (None, w \<lparr> agent := (agent w) \<lparr> activeConversation := None, hasFloor := False \<rparr> \<rparr>)"

definition handleGetManifests :: "engine \<Rightarrow> binding \<Rightarrow> BotAgent world \<Rightarrow> BotAgent outcome" where
  "handleGetManifests E PublishManifestEvent w =
     (case PublishManifestEvent of
        None \<Rightarrow> (Some (notAFunction E ''PublishManifestEvent''), w)
      | Some ctor \<Rightarrow>
          (case ebind (as_ManifestOptions E (Manifest_toObject (OpenFloorAgent.manifest (agent w)))) (\<lambda>m.
                  ctor \<lparr> PublishManifestsEventOptions.servicingManifests = Some [m],
                         PublishManifestsEventOptions.discoveryManifests = Some [],
                         PublishManifestsEventOptions.to = None,
                         PublishManifestsEventOptions.reason = None \<rparr>) of
             Inl e \<Rightarrow> (Some e, w)
           | Inr responseEvent \<Rightarrow>
               (None, set_underscore_events
                        (Envelope.events (outEnvelope w) @ [Event.truncate responseEvent]) w)))"

definition handleEvent ::
  "engine \<Rightarrow> binding \<Rightarrow> Event \<Rightarrow> Envelope \<Rightarrow> BotAgent world \<Rightarrow> BotAgent outcome" where
  "handleEvent E PublishManifestEvent event inEnvelope w =
     (if isInviteEvent event then handleInvite inEnvelope w
      else if isUtteranceEvent event then handleUtterance E w
      else if isContextEvent event then handleContext event w
      else if isUninviteEvent event then handleUninvite w
      else if isGrantFloorEvent event then handleGrantFloor w
      else if isRevokeFloorEvent event then handleRevokeFloor w
      else if isGetManifestsEvent event then handleGetManifests E PublishManifestEvent w
      else (None, w))"

fun handleEvents ::
  "engine \<Rightarrow> binding \<Rightarrow> Envelope \<Rightarrow> Event list \<Rightarrow> BotAgent world \<Rightarrow> BotAgent outcome" where
  \<comment> \<open>the loop of \<^verbatim>\<open>_handleEnvelope\<close>, which an error leaves\<close>
  "handleEvents E PublishManifestEvent inEnvelope [] w = (None, w)"
| "handleEvents E PublishManifestEvent inEnvelope (eventObj # rest) w =
     (case handleEvent E PublishManifestEvent eventObj inEnvelope w of
        (Some e, w') \<Rightarrow> (Some e, w')
      | (None, w') \<Rightarrow> handleEvents E PublishManifestEvent inEnvelope rest w')"

definition myEvents :: "'a OpenFloorAgent_scheme \<Rightarrow> Envelope \<Rightarrow> Event list" where
  \<comment> \<open>the events that the loop of \<^verbatim>\<open>_handleEnvelope\<close> takes from \<^verbatim>\<open>myEvents\<close>\<close>
  "myEvents this inEnvelope =
     map fst (filter (\<lambda>(event, metadata). addressedToMe metadata)
                (addMetadata this (Envelope.events inEnvelope)))"

definition BotAgent_handleEnvelope ::
  "engine \<Rightarrow> binding \<Rightarrow> BotAgent \<Rightarrow> Envelope \<Rightarrow> OutEnvelope \<Rightarrow> BotAgent outcome" where
  "BotAgent_handleEnvelope E PublishManifestEvent this inEnvelope out =
     (let this' = this \<lparr> currentContext := [] \<rparr>;
          w = \<lparr> agent = this', outEnvelope = out \<rparr>
      in if (case activeConversation this' of
               None \<Rightarrow> False
             | Some c \<Rightarrow> Conversation.id c \<noteq> Conversation.id (Envelope.conversation inEnvelope))
         then (Some (Error ''Bot is already in a different conversation''), w)
         else handleEvents E PublishManifestEvent inEnvelope (myEvents this' inEnvelope) w)"

definition BotAgent_processEnvelope ::
  "engine \<Rightarrow> binding \<Rightarrow> BotAgent \<Rightarrow> Envelope \<Rightarrow> error + BotAgent processed" where
  "BotAgent_processEnvelope E PublishManifestEvent =
     processEnvelope (BotAgent_handleEnvelope E PublishManifestEvent)"

subsection \<open>FloorManager\<close>

record FloorManager = OpenFloorAgent +
  activeConversants :: "(string \<times> Manifest) list"   \<comment> \<open>a \<^verbatim>\<open>Map\<close>, in the order of insertion\<close>
  currentSpeaker :: "string option"

definition FloorManager_ctor :: "ManifestOptions option \<Rightarrow> error + FloorManager" where
  "FloorManager_ctor manifest' =
     ebind (OpenFloorAgent_ctor manifest') (\<lambda>base.
       Inr (OpenFloorAgent.extend base \<lparr> activeConversants = [], currentSpeaker = None \<rparr>))"

definition map_delete :: "string \<Rightarrow> (string \<times> 'v) list \<Rightarrow> (string \<times> 'v) list" where
  "map_delete k m = filter (\<lambda>(k', v). k' \<noteq> k) m"

definition map_set :: "string \<Rightarrow> 'v \<Rightarrow> (string \<times> 'v) list \<Rightarrow> (string \<times> 'v) list" where
  \<comment> \<open>\<^verbatim>\<open>Map.set\<close>: a key that is present keeps its place\<close>
  "map_set k v m =
     (if k \<in> set (map fst m) then map (\<lambda>(k', v'). if k' = k then (k', v) else (k', v')) m
      else m @ [(k, v)])"

definition forwardEvent :: "Event \<Rightarrow> Envelope \<Rightarrow> FloorManager world \<Rightarrow> FloorManager outcome" where
  "forwardEvent event inEnvelope w =
     (let senderUri = Sender.speakerUri (Envelope.sender inEnvelope);
          forward = (\<lambda>w'. (None, set_underscore_events (Envelope.events (outEnvelope w') @ [event]) w'))
      in if isByeEvent event then
           forward (w \<lparr> agent := (agent w)
                      \<lparr> activeConversants := map_delete senderUri (activeConversants (agent w)),
                        currentSpeaker := (if currentSpeaker (agent w) = Some senderUri then None
                                           else currentSpeaker (agent w)) \<rparr> \<rparr>)
         else if isRequestFloorEvent event then
           (case GrantFloorEvent_ctor
                   \<lparr> BareEventOptions.to =
                       Some \<lparr> ToOptions.speakerUri = Some senderUri, ToOptions.serviceUrl = None,
                              ToOptions.isPrivate = None \<rparr>,
                     BareEventOptions.reason = None \<rparr> of
              Inl e \<Rightarrow> (Some e, w)
            | Inr grantEvent \<Rightarrow>
                let w1 = set_underscore_events (Envelope.events (outEnvelope w) @ [grantEvent]) w
                in forward (w1 \<lparr> agent := (agent w1) \<lparr> currentSpeaker := Some senderUri \<rparr> \<rparr>))
         else forward w)"

fun forwardEvents :: "Envelope \<Rightarrow> Event list \<Rightarrow> FloorManager world \<Rightarrow> FloorManager outcome" where
  "forwardEvents inEnvelope [] w = (None, w)"
| "forwardEvents inEnvelope (eventObj # rest) w =
     (case forwardEvent eventObj inEnvelope w of
        (Some e, w') \<Rightarrow> (Some e, w')
      | (None, w') \<Rightarrow> forwardEvents inEnvelope rest w')"

definition FloorManager_handleEnvelope ::
  "FloorManager \<Rightarrow> Envelope \<Rightarrow> OutEnvelope \<Rightarrow> FloorManager outcome" where
  "FloorManager_handleEnvelope this inEnvelope out =
     forwardEvents inEnvelope (Envelope.events inEnvelope) \<lparr> agent = this, outEnvelope = out \<rparr>"

definition FloorManager_processEnvelope :: "FloorManager \<Rightarrow> Envelope \<Rightarrow> error + FloorManager processed" where
  "FloorManager_processEnvelope = processEnvelope FloorManager_handleEnvelope"

definition addConversant :: "Manifest \<Rightarrow> FloorManager \<Rightarrow> FloorManager" where
  "addConversant manifest' this =
     this \<lparr> activeConversants :=
              map_set (Identification.speakerUri (Manifest.identification manifest')) manifest'
                (activeConversants this) \<rparr>"

definition removeConversant :: "string \<Rightarrow> FloorManager \<Rightarrow> FloorManager" where
  "removeConversant su this =
     this \<lparr> activeConversants := map_delete su (activeConversants this),
            currentSpeaker := (if currentSpeaker this = Some su then None else currentSpeaker this) \<rparr>"

subsection \<open>ConvenerAgent\<close>

definition targeted :: "string \<Rightarrow> string option \<Rightarrow> BareEventOptions" where
  \<comment> \<open>\<^verbatim>\<open>const options = { to: { speakerUri } }; if (reason !== undefined) options.reason = reason\<close>\<close>
  "targeted su reason' =
     \<lparr> BareEventOptions.to =
         Some \<lparr> ToOptions.speakerUri = Some su, ToOptions.serviceUrl = None, ToOptions.isPrivate = None \<rparr>,
       BareEventOptions.reason = reason' \<rparr>"

definition grantFloor :: "string \<Rightarrow> string option \<Rightarrow> error + Event" where
  "grantFloor su reason' = GrantFloorEvent_ctor (targeted su reason')"

definition revokeFloor :: "string \<Rightarrow> string option \<Rightarrow> error + Event" where
  "revokeFloor su reason' = RevokeFloorEvent_ctor (targeted su reason')"

definition uninviteAgent :: "string \<Rightarrow> string option \<Rightarrow> error + Event" where
  "uninviteAgent su reason' = UninviteEvent_ctor (targeted su reason')"

definition inviteAgent :: "string \<Rightarrow> string option \<Rightarrow> string option \<Rightarrow> error + Event" where
  "inviteAgent sv su reason' =
     InviteEvent_ctor
       \<lparr> BareEventOptions.to =
           Some \<lparr> ToOptions.speakerUri = su, ToOptions.serviceUrl = Some sv, ToOptions.isPrivate = None \<rparr>,
         BareEventOptions.reason = reason' \<rparr>"

subsection \<open>Addressing\<close>

text \<open>
  The predicate of the specification for the events that a conversational agent takes: the
  event has no addressee, or the addressee has the speaker URI of the agent, or it has the
  service URL of the agent.
\<close>

definition spec_addressedToMe :: "'a OpenFloorAgent_scheme \<Rightarrow> Event \<Rightarrow> bool" where
  "spec_addressedToMe self event =
     (Event.to event = None
      \<or> (\<exists>t. Event.to event = Some t \<and> To.speakerUri t = Some (speakerUri self))
      \<or> (\<exists>t. Event.to event = Some t \<and> To.serviceUrl t = Some (serviceUrl self)))"


section \<open>Reconstruction\<close>

subsection \<open>Plain spans and tokens without a span\<close>





subsection \<open>Constructible values, normal forms and canonical objects\<close>

text \<open>
  For each class, \<open>_ok\<close> is what the constructor guarantees of an instance, \<open>_norm\<close> is the
  instance that the reconstruction returns (a false optional string is absent, an offset is a
  whole number of seconds), and \<open>_json\<close> is the object that \<^verbatim>\<open>toObject\<close> renders when it does
  not raise.
\<close>

definition To_ok :: "To \<Rightarrow> bool" where
  "To_ok t = (truthy_string (To.speakerUri t) \<or> truthy_string (To.serviceUrl t))"

definition To_norm :: "To \<Rightarrow> To" where
  "To_norm t = \<lparr> To.speakerUri = truthy_only (To.speakerUri t),
                 To.serviceUrl = truthy_only (To.serviceUrl t),
                 To.isPrivate = To.isPrivate t \<rparr>"

definition Event_ok :: "'a Event_scheme \<Rightarrow> bool" where
  "Event_ok e = (Event.eventType e \<in> set allowedEventTypes
                 \<and> (case Event.to e of None \<Rightarrow> True | Some t \<Rightarrow> To_ok t))"

definition Event_norm :: "'a Event_scheme \<Rightarrow> Event" where
  "Event_norm e = \<lparr> Event.eventType = Event.eventType e,
                    Event.to = map_option To_norm (Event.to e),
                    Event.reason = truthy_only (Event.reason e),
                    Event.parameters = Event.parameters e \<rparr>"

definition Schema_norm :: "Schema \<Rightarrow> Schema" where
  "Schema_norm s = \<lparr> Schema.version = Schema.version s, Schema.url = truthy_only (Schema.url s) \<rparr>"


definition Sender_norm :: "Sender \<Rightarrow> Sender" where
  "Sender_norm s = \<lparr> Sender.speakerUri = Sender.speakerUri s,
                     Sender.serviceUrl = truthy_only (Sender.serviceUrl s) \<rparr>"

definition Identification_ok :: "Identification \<Rightarrow> bool" where
  "Identification_ok i =
     (Identification.speakerUri i \<noteq> [] \<and> Identification.serviceUrl i \<noteq> []
      \<and> Identification.organization i \<noteq> [] \<and> Identification.conversationalName i \<noteq> []
      \<and> Identification.synopsis i \<noteq> [])"

definition Identification_norm :: "Identification \<Rightarrow> Identification" where
  "Identification_norm i =
     i \<lparr> Identification.department := truthy_only (Identification.department i),
         Identification.role := truthy_only (Identification.role i) \<rparr>"

definition Conversant_ok :: "Conversant \<Rightarrow> bool" where
  "Conversant_ok c = Identification_ok (Conversant.identification c)"

definition Conversant_norm :: "Conversant \<Rightarrow> Conversant" where
  "Conversant_norm c =
     c \<lparr> Conversant.identification := Identification_norm (Conversant.identification c) \<rparr>"

definition Conversation_ok :: "Conversation \<Rightarrow> bool" where
  "Conversation_ok c = (Conversation.id c \<noteq> [] \<and> list_all Conversant_ok (Conversation.conversants c))"

definition Conversation_norm :: "Conversation \<Rightarrow> Conversation" where
  "Conversation_norm c =
     c \<lparr> Conversation.conversants := map Conversant_norm (Conversation.conversants c) \<rparr>"





definition Manifest_norm :: "Manifest \<Rightarrow> Manifest" where
  "Manifest_norm m =
     m \<lparr> Manifest.identification := Identification_norm (Manifest.identification m) \<rparr>"

definition seconds_of :: "rat \<Rightarrow> rat" where
  "seconds_of n = of_nat (nat \<lfloor>n / 1000\<rfloor> * 1000)"


definition offset_norm :: "offsetval option \<Rightarrow> offsetval option" where
  "offset_norm ov =
     (case ov of None \<Rightarrow> None | Some (ANumber n) \<Rightarrow> Some (ANumber (seconds_of n))
      | Some (AText s) \<Rightarrow> Some (AText s))"


definition time_json :: "engine \<Rightarrow> string \<Rightarrow> timeval option \<Rightarrow> (string \<times> json) list" where
  "time_json E k tv =
     (case tv of Some (ADate (ValidDate t)) \<Rightarrow> [(k, JStr (dateToISOString E t))] | _ \<Rightarrow> [])"


definition Token_ok :: "Token \<Rightarrow> bool" where
  "Token_ok tok =
     (Token.span tok = None
      \<and> (Token.value tok \<noteq> JUndefined) \<noteq> truthy_string (Token.valueUrl tok)
      \<and> (case Token.confidence tok of None \<Rightarrow> True | Some c \<Rightarrow> isValidConfidence c))"

definition Token_norm :: "Token \<Rightarrow> Token" where
  "Token_norm tok = tok \<lparr> Token.valueUrl := truthy_only (Token.valueUrl tok) \<rparr>"

definition confidence_json :: "rat option \<Rightarrow> (string \<times> json) list" where
  "confidence_json c = (case c of None \<Rightarrow> [] | Some x \<Rightarrow> [(''confidence'', JNum x)])"

definition Token_json :: "Token \<Rightarrow> json" where
  "Token_json tok =
     JObj ((if Token.value tok \<noteq> JUndefined then [(''value'', Token.value tok)] else [])
           @ string_entry ''valueUrl'' (Token.valueUrl tok)
           @ confidence_json (Token.confidence tok)
           @ (if length (Token.links tok) > 0
              then [(''links'', JArr (map JStr (Token.links tok)))] else []))"

definition Feature_ok :: "Feature \<Rightarrow> bool" where
  "Feature_ok f =
     (Feature.mimeType f \<noteq> []
      \<and> list_all Token_ok (Feature.tokens f)
      \<and> list_all (list_all Token_ok) (Feature.alternates f)
      \<and> (case Feature.encoding f of None \<Rightarrow> True | Some enc \<Rightarrow> enc = [] \<or> isValidEncoding enc))"

definition Feature_norm :: "Feature \<Rightarrow> Feature" where
  "Feature_norm f =
     \<lparr> Feature.mimeType = Feature.mimeType f,
       Feature.tokens = map Token_norm (Feature.tokens f),
       Feature.alternates = map (map Token_norm) (Feature.alternates f),
       Feature.lang = truthy_only (Feature.lang f),
       Feature.encoding = truthy_only (Feature.encoding f),
       Feature.tokenSchema = truthy_only (Feature.tokenSchema f) \<rparr>"

definition Feature_json :: "Feature \<Rightarrow> json" where
  "Feature_json f =
     JObj ([(''mimeType'', JStr (Feature.mimeType f)),
            (''tokens'', JArr (map Token_json (Feature.tokens f)))]
           @ (if length (Feature.alternates f) > 0
              then [(''alternates'', JArr (map JArr (map (map Token_json) (Feature.alternates f))))]
              else [])
           @ string_entry ''lang'' (Feature.lang f)
           @ string_entry ''encoding'' (Feature.encoding f)
           @ string_entry ''tokenSchema'' (Feature.tokenSchema f))"




section \<open>Values for the examples\<close>

text \<open>An engine for the examples: dates are written as their time value.\<close>

definition example_engine :: engine where
  "example_engine =
     \<lparr> numToString = (\<lambda>r. show_int \<lfloor>r\<rfloor>),
       jsonStringify = (\<lambda>v. ''null''),
       regExp = (\<lambda>p. Inr (\<lambda>s. True)),
       stringToNumber = (\<lambda>s. if s \<noteq> [] \<and> list_all is_digit s then Some (of_nat (digits_val s)) else None),
       dateToISOString = (\<lambda>t. show_int t),
       dateParse = (\<lambda>s. if s \<noteq> [] \<and> list_all is_digit s then Some (int (digits_val s)) else None),
       now = 0,
       readError = (\<lambda>v k. TypeError (''Cannot read properties of ''
           @ (if v = JNull then ''null'' else ''undefined'')
           @ '' (reading '' @ [CHR 0x27] @ k @ [CHR 0x27] @ '')'')),
       notAFunction = (\<lambda>m. TypeError (m @ '' is not a function'')),
       invalidTime = RangeError ''Invalid time value'',
       notAnObject = TypeError ''Cannot convert undefined or null to object'' \<rparr>"

text \<open>
  An agent, envelopes and events for the examples. \<open>example_bound_bot\<close> is the agent after
  an invitation and a context event of the conversation \<^verbatim>\<open>conv-1\<close>.
\<close>

definition example_manifestOptions :: ManifestOptions where
  "example_manifestOptions =
     \<lparr> ManifestOptions.identification =
         Some \<lparr> IdentificationOptions.speakerUri = Some ''tag:example.com,2025:bot1'',
                IdentificationOptions.serviceUrl = Some ''https://example.com/bot'',
                IdentificationOptions.organization = Some ''Example Corp'',
                IdentificationOptions.conversationalName = Some ''Assistant'',
                IdentificationOptions.synopsis = Some ''An example bot'',
                IdentificationOptions.department = None,
                IdentificationOptions.role = None \<rparr>,
       ManifestOptions.capabilities = Some [] \<rparr>"

definition example_manifest :: Manifest where
  "example_manifest =
     \<lparr> Manifest.identification =
         \<lparr> Identification.speakerUri = ''tag:example.com,2025:bot1'',
           Identification.serviceUrl = ''https://example.com/bot'',
           Identification.organization = ''Example Corp'',
           Identification.conversationalName = ''Assistant'',
           Identification.department = None,
           Identification.role = None,
           Identification.synopsis = ''An example bot'' \<rparr>,
       Manifest.capabilities = [] \<rparr>"

definition example_bot :: BotAgent where
  "example_bot =
     \<lparr> OpenFloorAgent.manifest = example_manifest,
       currentContext = [], activeConversation = None, hasFloor = False \<rparr>"

definition example_floorManager :: FloorManager where
  "example_floorManager =
     \<lparr> OpenFloorAgent.manifest = example_manifest,
       activeConversants = [], currentSpeaker = None \<rparr>"

definition example_event :: "string \<Rightarrow> To option \<Rightarrow> Event" where
  "example_event et t =
     \<lparr> Event.eventType = et, Event.to = t, Event.reason = None, Event.parameters = [] \<rparr>"

definition example_envelope :: "string \<Rightarrow> Event list \<Rightarrow> Envelope" where
  "example_envelope conversationId es =
     \<lparr> Envelope.schema = \<lparr> Schema.version = ''1.0.0'', Schema.url = None \<rparr>,
       Envelope.conversation = \<lparr> Conversation.id = conversationId, Conversation.conversants = [] \<rparr>,
       Envelope.sender = \<lparr> Sender.speakerUri = ''tag:example.com,2025:user1'', Sender.serviceUrl = None \<rparr>,
       Envelope.events = es \<rparr>"

definition example_out :: OutEnvelope where
  "example_out =
     \<lparr> Envelope.schema = \<lparr> Schema.version = ''1.0.0'', Schema.url = None \<rparr>,
       Envelope.conversation = \<lparr> Conversation.id = ''conv-1'', Conversation.conversants = [] \<rparr>,
       Envelope.sender = \<lparr> Sender.speakerUri = ''tag:example.com,2025:bot1'',
                           Sender.serviceUrl = Some ''https://example.com/bot'' \<rparr>,
       Envelope.events = [],
       underscore_events = None \<rparr>"

definition example_bound_bot :: BotAgent where
  "example_bound_bot =
     \<lparr> OpenFloorAgent.manifest = example_manifest,
       currentContext = [example_event ''context'' None],
       activeConversation = Some \<lparr> Conversation.id = ''conv-1'', Conversation.conversants = [] \<rparr>,
       hasFloor = True \<rparr>"








definition example_validation_data :: json where
  "example_validation_data = JObj [(''a'', JNum 1), (''b'', JNum 2)]"

definition example_validation_schema :: json where
  "example_validation_schema =
     JObj [(''properties'', JObj [(''a'', JObj [(''type'', JStr ''string'')]), (''b'', JNull)])]"

section \<open>Properties of the duration utilities\<close>


























section \<open>Properties of the schema validator\<close>

declare validateObject.simps [simp del]

lemma appended_refl: "appended path data errs errs"
  by (simp add: appended_def)

lemma appended_trans:
  "appended path data a b \<Longrightarrow> appended path data b c \<Longrightarrow> appended path data a c"
  by (fastforce simp: appended_def)

lemma locations_self: "path \<in> set (locations path data)"
  by (cases data) auto

lemma located_here: "prefix (path_or_root path @ '': '') e \<Longrightarrow> located path data e"
  using locations_self by (auto simp: located_def)

lemma appended_here:
  "\<forall>e \<in> set new. prefix (path_or_root path @ '': '') e \<Longrightarrow> appended path data errs (errs @ new)"
  by (auto simp: appended_def intro: located_here)

lemma located_mono:
  "set (locations p d) \<subseteq> set (locations path data) \<Longrightarrow> located p d e \<Longrightarrow> located path data e"
  by (auto simp: located_def)

lemma appended_mono:
  "set (locations p d) \<subseteq> set (locations path data) \<Longrightarrow> appended p d a b \<Longrightarrow> appended path data a b"
  by (auto simp: appended_def intro: located_mono)

lemma typeError_prefix:
  "typeError E data sch path = Some msg \<Longrightarrow> prefix (path_or_root path @ '': '') msg"
  by (auto simp: typeError_def Let_def split: if_splits)

lemma requiredErrors_prefix:
  "e \<in> set (requiredErrors E data sch path) \<Longrightarrow> prefix (path_or_root path @ '': '') e"
  by (auto simp: requiredErrors_def Let_def split: if_splits)

lemma enumErrors_prefix:
  "e \<in> set (enumErrors E data sch path) \<Longrightarrow> prefix (path_or_root path @ '': '') e"
  by (auto simp: enumErrors_def Let_def split: if_splits)

lemma rangeErrors_prefix:
  "e \<in> set (rangeErrors E data sch path) \<Longrightarrow> prefix (path_or_root path @ '': '') e"
  by (auto simp: rangeErrors_def split: json.splits if_splits)

lemma patternErrors_prefix:
  "patternErrors E data sch path = Inr ms \<Longrightarrow> e \<in> set ms \<Longrightarrow> prefix (path_or_root path @ '': '') e"
  by (auto simp: patternErrors_def Let_def split: json.splits if_splits sum.splits)

lemma locations_member:
  "(k, v) \<in> set ps \<Longrightarrow> set (locations (child_path path k) v) \<subseteq> set (locations path (JObj ps))"
  by auto

lemma locations_index:
  "(k, x) \<in> set (indexed xs) \<Longrightarrow> set (locations (child_path path k) x) \<subseteq> set (locations path (JArr xs))"
  by auto

lemma locations_item:
  "(k, x) \<in> set (indexed xs) \<Longrightarrow> set (locations (path @ ''['' @ k @ '']'') x) \<subseteq> set (locations path (JArr xs))"
  by auto

lemma locations_entry:
  assumes "is_object_data data" "(k, v) \<in> set (entries data)"
  shows "set (locations (child_path path k) v) \<subseteq> set (locations path data)"
proof (cases data)
  case (JObj ps)
  with assms show ?thesis by (auto simp: entries_def)
next
  case (JArr xs)
  with assms(2) have "(k, v) \<in> set (indexed xs)" by (simp add: entries_def)
  with JArr show ?thesis using locations_index by blast
qed (use assms in \<open>auto simp: is_object_data_def typeof_def truthy_def entries_def\<close>)

lemma locations_get_prop:
  assumes "is_object_data data" "has_prop k data"
  shows "set (locations (child_path path k) (get_prop data k)) \<subseteq> set (locations path data)"
proof (cases data)
  case (JObj ps)
  with assms(2) obtain v where "map_of ps k = Some v" by (auto simp: has_prop_def)
  then have "(k, v) \<in> set ps" "get_prop data k = v" using JObj by (auto simp: get_prop_def dest: map_of_SomeD)
  then show ?thesis using JObj by auto
next
  case (JArr xs)
  show ?thesis
  proof (cases "map_of (indexed xs) k")
    case None
    with assms(2) JArr have "k = ''length''" by (auto simp: has_prop_def)
    with None JArr show ?thesis by (auto simp: get_prop_def)
  next
    case (Some v)
    then have "(k, v) \<in> set (indexed xs)" "get_prop data k = v"
      using JArr by (auto simp: get_prop_def dest: map_of_SomeD)
    then show ?thesis using JArr locations_index by blast
  qed
qed (use assms in \<open>auto simp: has_prop_def\<close>)

lemma propertiesJobs_located:
  assumes "Validate d s p \<in> set (propertiesJobs data sch path)"
  shows "set (locations p d) \<subseteq> set (locations path data)"
proof -
  from assms obtain k where "is_object_data data" "has_prop k data"
    "d = get_prop data k" "p = child_path path k"
    by (auto simp: propertiesJobs_def Let_def child_path_def split: if_splits)
  then show ?thesis using locations_get_prop by simp
qed

lemma patternLoop_located:
  assumes "Validate d s p \<in> set (patternLoop E data path ps)" "is_object_data data"
  shows "set (locations p d) \<subseteq> set (locations path data)"
  using assms(1)
proof (induction ps)
  case Nil
  then show ?case by simp
next
  case (Cons a ps)
  obtain pattern propSchema where a: "a = (pattern, propSchema)" by (cases a)
  show ?case
  proof (cases "Validate d s p \<in> set (patternLoop E data path ps)")
    case True
    then show ?thesis by (rule Cons.IH)
  next
    case False
    with Cons.prems obtain k where "(k, d) \<in> set (entries data)" "p = child_path path k"
      by (auto simp: a child_path_def split: sum.splits if_splits)
    then show ?thesis using locations_entry[OF assms(2)] by simp
  qed
qed

lemma patternJobs_located:
  "Validate d s p \<in> set (patternJobs E data sch path) \<Longrightarrow>
     set (locations p d) \<subseteq> set (locations path data)"
  by (auto simp: patternJobs_def Let_def split: if_splits dest: patternLoop_located)

lemma itemsJobs_located:
  "Validate d s p \<in> set (itemsJobs data sch path) \<Longrightarrow>
     set (locations p d) \<subseteq> set (locations path data)"
  using locations_item
  by (cases data) (auto simp: itemsJobs_def Let_def isArray_def elements_def split: if_splits)

lemma runJobs_appended:
  assumes "\<And>d s p errs. Validate d s p \<in> set js \<Longrightarrow>
             appended p d errs (snd (validateObject E d s p errs))"
    and "\<And>d s p. Validate d s p \<in> set js \<Longrightarrow> set (locations p d) \<subseteq> set (locations path data)"
  shows "appended path data errs (snd (runJobs E js errs))"
  using assms
proof (induction js arbitrary: errs)
  case Nil
  show ?case by (simp add: appended_refl)
next
  case (Cons j js)
  show ?case
  proof (cases j)
    case (Throw e)
    then show ?thesis by (simp add: appended_refl)
  next
    case (Validate d s p)
    have 1: "appended path data errs (snd (validateObject E d s p errs))"
      using Cons.prems(1)[of d s p errs] Cons.prems(2)[of d s p] Validate
      by (auto intro: appended_mono)
    have 2: "appended path data errs' (snd (runJobs E js errs'))" for errs'
    proof (rule Cons.IH)
      show "appended p' d' es (snd (validateObject E d' s' p' es))"
        if "Validate d' s' p' \<in> set js" for d' s' p' es
        using Cons.prems(1)[of d' s' p' es] that by simp
      show "set (locations p' d') \<subseteq> set (locations path data)"
        if "Validate d' s' p' \<in> set js" for d' s' p'
        using Cons.prems(2)[of d' s' p'] that by simp
    qed
    show ?thesis
      using 1 2 Validate
      by (auto split: prod.splits option.splits intro: appended_trans)
  qed
qed

lemma validateObject_appended:
  fixes schema :: json
  shows "appended path data errs (snd (validateObject E data schema path errs))"
proof (induction "jsize schema" arbitrary: data schema path errs rule: less_induct)
  case less
  show ?case
  proof (cases schema)
    case (JObj sch)
    have IH: "appended p d es (snd (validateObject E d s p es))" if "jsize s < jsize (JObj sch)" for d s p es
      using less[where schema = s and data = d and path = p and errs = es] that JObj by simp
    have J1: "appended path data es (snd (runJobs E (propertiesJobs data sch path) es))" for es
      by (rule runJobs_appended) (auto intro!: IH dest: propertiesJobs_size propertiesJobs_located)
    have J2: "appended path data es (snd (runJobs E (patternJobs E data sch path) es))" for es
      by (rule runJobs_appended) (auto intro!: IH dest: patternJobs_size patternJobs_located)
    have J3: "appended path data es (snd (runJobs E (itemsJobs data sch path) es))" for es
      by (rule runJobs_appended) (auto intro!: IH dest: itemsJobs_size itemsJobs_located)
    have H: "appended path data es (es @ new)" if "\<forall>e \<in> set new. prefix (path_or_root path @ '': '') e" for es new
      using that by (rule appended_here)
    show ?thesis
    proof (cases "typeError E data sch path")
      case (Some msg)
      then show ?thesis
        using JObj H[of "[msg]" errs] by (simp add: typeError_prefix validateObject.simps)
    next
      case None
      define e1 where "e1 = errs @ requiredErrors E data sch path"
      define r1 where "r1 = runJobs E (propertiesJobs data sch path) e1"
      define r2 where "r2 = runJobs E (patternJobs E data sch path) (snd r1)"
      define r3 where "r3 = runJobs E (itemsJobs data sch path) (snd r2)"
      define e5 where "e5 = snd r3 @ enumErrors E data sch path @ rangeErrors E data sch path"
      have a1: "appended path data errs e1" unfolding e1_def by (rule H) (auto dest: requiredErrors_prefix)
      have a2: "appended path data errs (snd r1)" using a1 J1[of e1] by (auto simp: r1_def intro: appended_trans)
      have a3: "appended path data errs (snd r2)" using a2 J2[of "snd r1"] by (auto simp: r2_def intro: appended_trans)
      have a4: "appended path data errs (snd r3)" using a3 J3[of "snd r2"] by (auto simp: r3_def intro: appended_trans)
      have a5: "appended path data errs e5"
        using a4 H[of "enumErrors E data sch path @ rangeErrors E data sch path" "snd r3"]
        by (auto simp: e5_def dest: enumErrors_prefix rangeErrors_prefix intro: appended_trans)
      have a6: "appended path data errs (e5 @ ms)" if "patternErrors E data sch path = Inr ms" for ms
        using a5 H[of ms e5] that by (auto dest: patternErrors_prefix intro: appended_trans)
      have a7: "appended path data errs (e5 @ ms @ [path_or_root path @ '': value does not match any of the allowed schemas''])"
        if "patternErrors E data sch path = Inr ms" for ms
        using a6[OF that] H[of "[path_or_root path @ '': value does not match any of the allowed schemas'']" "e5 @ ms"]
        by (auto intro: appended_trans)
      show ?thesis
        using JObj None a2 a3 a4 a5 a6 a7
        by (auto simp: validateObject.simps e1_def r1_def r2_def r3_def e5_def Let_def
            split: prod.splits option.splits sum.splits)
    qed
  qed (simp_all add: appended_refl validateObject.simps)
qed

lemma path_qualified_located: "path_qualified data e = located [] data e"
  by (simp add: path_qualified_def located_def list_ex_iff)

lemma example_validation:
  "validate example_engine example_validation_data example_validation_schema
   = \<lparr> valid = False,
       errors = [''a: expected string, got number'',
                 ''Validation error: '' @ message (readError example_engine JNull ''type'')] \<rparr>"
  by code_simp

lemma example_error_qualified: "path_qualified example_validation_data ''a: expected string, got number''"
  by code_simp

text \<open>
  Claim C7, as amended. \<open>validate\<close> never throws: it is a total function, the exceptions
  of \<open>validateObject\<close> are caught in it. It returns a result whose \<open>valid\<close> is true
  exactly when \<open>errors\<close> is empty. Every error is path-qualified for the data, except
  that an exception raised during the validation (a sub-schema that is \<^verbatim>\<open>null\<close>, a
  pattern that does not compile) ends it and is reported as one last entry
  \<^verbatim>\<open>Validation error: <message>\<close>.
\<close>

theorem validate_result:
  fixes schema :: json
  shows "valid (validate E data schema) = (errors (validate E data schema) = [])
   \<and> (\<exists>qs. (\<forall>e \<in> set qs. path_qualified data e)
          \<and> (errors (validate E data schema) = qs
              \<or> (\<exists>msg. errors (validate E data schema) = qs @ [''Validation error: '' @ msg])))"
proof -
  obtain ex errs where r: "validateObject E data schema [] [] = (ex, errs)"
    by (cases "validateObject E data schema [] []")
  from validateObject_appended[of "[]" data "[]" E schema] r
  have q: "\<forall>e \<in> set errs. path_qualified data e"
    by (auto simp: appended_def path_qualified_located)
  show ?thesis
  proof (cases ex)
    case None
    with r q show ?thesis by (auto simp: validate_def)
  next
    case (Some e)
    with r q show ?thesis by (auto simp: validate_def)
  qed
qed

theorem validate_result_witness:
  "validate example_engine example_validation_data example_validation_schema
   = \<lparr> valid = False,
       errors = [''a: expected string, got number'',
                 ''Validation error: '' @ message (readError example_engine JNull ''type'')] \<rparr>
   \<and> path_qualified example_validation_data ''a: expected string, got number''
   \<and> (\<exists>qs. (\<forall>e \<in> set qs. path_qualified example_validation_data e)
          \<and> (errors (validate example_engine example_validation_data example_validation_schema) = qs
              \<or> (\<exists>msg. errors (validate example_engine example_validation_data example_validation_schema)
                    = qs @ [''Validation error: '' @ msg])))"
  using validate_result[of example_engine example_validation_data example_validation_schema]
    example_validation example_error_qualified
  by simp

lemma null_schema_errors:
  "errors (validate example_engine (JObj [(''a'', JNum 1)]) (JObj [(''properties'', JObj [(''a'', JNull)])]))
   = [''Validation error: Cannot read properties of null (reading '' @ [CHR 0x27] @ ''type'' @ [CHR 0x27] @ '')'']"
  by code_simp

lemma null_schema_error_not_qualified:
  "\<not> path_qualified (JObj [(''a'', JNum 1)])
       (''Validation error: Cannot read properties of null (reading '' @ [CHR 0x27] @ ''type'' @ [CHR 0x27] @ '')'')"
  by code_simp

text \<open>
  Claim C7 as stated fails in its last part. With the data \<^verbatim>\<open>{a: 1}\<close> and the schema
  \<^verbatim>\<open>{properties: {a: null}}\<close> the recursive call reads \<^verbatim>\<open>schema.type\<close> of \<^verbatim>\<open>null\<close>; the
  \<^verbatim>\<open>TypeError\<close> is caught and the only error reported is
  \<^verbatim>\<open>Validation error: <message>\<close>, which no path of the data qualifies.
\<close>

theorem validate_errors_counterexample:
  "\<not> (\<forall>E data schema. \<forall>e \<in> set (errors (validate E data schema)). path_qualified data e)"
proof
  assume "\<forall>E data schema. \<forall>e \<in> set (errors (validate E data schema)). path_qualified data e"
  then have "\<forall>e \<in> set (errors (validate example_engine (JObj [(''a'', JNum 1)])
      (JObj [(''properties'', JObj [(''a'', JNull)])]))). path_qualified (JObj [(''a'', JNum 1)]) e"
    by blast
  then show False using null_schema_error_not_qualified by (simp add: null_schema_errors)
qed

lemma null_steps:
  "requiredErrors E JNull sch path = []"
  "propertiesJobs JNull sch path = []"
  "patternJobs E JNull sch path = []"
  "itemsJobs JNull sch path = []"
  "rangeErrors E JNull sch path = []"
  "patternErrors E JNull sch path = Inr []"
  by (simp_all add: requiredErrors_def propertiesJobs_def patternJobs_def itemsJobs_def
      rangeErrors_def patternErrors_def is_object_data_def truthy_def isArray_def)

lemma null_typeError:
  "get_prop (JObj sch) ''type'' = JStr ''object'' \<Longrightarrow> typeError E JNull sch path = None"
  by (simp add: typeError_def truthy_def typeof_def)

lemma validateObject_null:
  assumes "get_prop (JObj sch) ''type'' = JStr ''object''"
  shows "validateObject E JNull (JObj sch) path errs =
     (let errs7 = errs @ enumErrors E JNull sch path; anyOf = get_prop (JObj sch) ''anyOf''
      in if truthy anyOf \<and> isArray anyOf then
           (case anyOfLoop E JNull (elements anyOf) path of
              (Some e, v) \<Rightarrow> (Some e, errs7)
            | (None, v) \<Rightarrow>
                if \<not> v
                then (None, errs7 @ [path_or_root path @ '': value does not match any of the allowed schemas''])
                else (None, errs7))
         else (None, errs7))"
  by (simp add: validateObject.simps null_typeError[OF assms] null_steps)

text \<open>
  Claim C10. For every schema whose \<^verbatim>\<open>type\<close> is \<^verbatim>\<open>'object'\<close>, validating \<^verbatim>\<open>null\<close> reports
  neither a type error (\<^verbatim>\<open>root: expected ...\<close>) nor a missing required property: \<^verbatim>\<open>null\<close>
  passes the type check (\<^verbatim>\<open>typeof null\<close> is \<^verbatim>\<open>'object'\<close>) and the \<^verbatim>\<open>required\<close>,
  \<^verbatim>\<open>properties\<close>, \<^verbatim>\<open>patternProperties\<close> and \<^verbatim>\<open>items\<close> steps are skipped on it. Only
  \<^verbatim>\<open>enum\<close> and \<^verbatim>\<open>anyOf\<close> still apply: without them the result is valid with no errors,
  as for the schema \<^verbatim>\<open>{type: 'object', required: ['speakerUri']}\<close>.
\<close>

theorem validate_null_object:
  assumes "get_prop (JObj sch) ''type'' = JStr ''object''"
  shows "(\<forall>e \<in> set (errors (validate E JNull (JObj sch))).
            \<not> prefix ''root: expected'' e \<and> \<not> prefix ''root: missing required property'' e)
       \<and> (\<not> truthy (get_prop (JObj sch) ''enum'') \<and> \<not> truthy (get_prop (JObj sch) ''anyOf'')
            \<longrightarrow> validate E JNull (JObj sch) = \<lparr> valid = True, errors = [] \<rparr>)"
proof -
  have e: "\<forall>e \<in> set (enumErrors E JNull sch []). \<not> prefix ''root: expected'' e \<and> \<not> prefix ''root: missing required property'' e"
    by (auto simp: enumErrors_def Let_def path_or_root_def)
  have e0: "\<not> truthy (get_prop (JObj sch) ''enum'') \<Longrightarrow> enumErrors E JNull sch [] = []"
    by (simp add: enumErrors_def)
  show ?thesis
    using e e0
    by (auto simp: validate_def validateObject_null[OF assms] Let_def path_or_root_def
        split: prod.splits option.splits if_splits)
qed

theorem validate_null_object_witness:
  "\<forall>E. get_prop (JObj [(''type'', JStr ''object''), (''required'', JArr [JStr ''speakerUri''])]) ''type''
          = JStr ''object''
       \<and> validate E JNull (JObj [(''type'', JStr ''object''), (''required'', JArr [JStr ''speakerUri''])])
          = \<lparr> valid = True, errors = [] \<rparr>"
proof
  fix E
  have t: "get_prop (JObj [(''type'', JStr ''object''), (''required'', JArr [JStr ''speakerUri''])]) ''type''
          = JStr ''object''"
    by (simp add: get_prop_def)
  from validate_null_object[OF t, of E] t show "get_prop (JObj [(''type'', JStr ''object''), (''required'', JArr [JStr ''speakerUri''])]) ''type''
          = JStr ''object''
       \<and> validate E JNull (JObj [(''type'', JStr ''object''), (''required'', JArr [JStr ''speakerUri''])])
          = \<lparr> valid = True, errors = [] \<rparr>"
    by (simp add: get_prop_def truthy_def)
qed

section \<open>Properties of the events\<close>

lemma ebind_Inr_iff: "(ebind m f = Inr y) = (\<exists>x. m = Inr x \<and> f x = Inr y)"
  by (cases m) (simp_all add: ebind_def)

lemma ebind_Inl: "ebind (Inl e) f = Inl e"
  by (simp add: ebind_def)

lemma ebind_Inr: "ebind (Inr x) f = f x"
  by (simp add: ebind_def)

lemma Event_ctor_eventType:
  assumes "Event_ctor options = Inr e"
  shows "BaseEventOptions.eventType options = Some (Event.eventType e)
         \<and> Event.eventType e \<in> set allowedEventTypes"
  using assms
  by (auto simp: Event_ctor_def ebind_Inr_iff split: option.splits if_splits)

lemma To_ctor_succeeds:
  "(\<exists>t. To_ctor opts = Inr t)
   = (truthy_string (ToOptions.speakerUri opts) \<or> truthy_string (ToOptions.serviceUrl opts))"
  by (simp add: To_ctor_def)

lemma Event_ctor_succeeds:
  "(\<exists>e. Event_ctor options = Inr e)
   = ((\<exists>et \<in> set allowedEventTypes. BaseEventOptions.eventType options = Some et)
      \<and> (case BaseEventOptions.to options of
            None \<Rightarrow> True
          | Some t \<Rightarrow> truthy_string (ToOptions.speakerUri t) \<or> truthy_string (ToOptions.serviceUrl t)))"
proof (cases "BaseEventOptions.eventType options")
  case None
  then show ?thesis by (simp add: Event_ctor_def)
next
  case (Some et)
  show ?thesis
  proof (cases "et \<in> set allowedEventTypes")
    case False
    with Some show ?thesis by (simp add: Event_ctor_def)
  next
    case True
    then have ne: "et \<noteq> []" by (auto simp: allowedEventTypes_def)
    show ?thesis
    proof (cases "BaseEventOptions.to options")
      case None
      with Some True ne show ?thesis by (simp add: Event_ctor_def opt_ctor_def ebind_def)
    next
      case (Some t)
      with \<open>BaseEventOptions.eventType options = Some et\<close> True ne To_ctor_succeeds[of t]
      show ?thesis
        by (cases "To_ctor t") (auto simp: Event_ctor_def opt_ctor_def ebind_def)
    qed
  qed
qed

lemma Event_ctor_invalid:
  "(\<exists>m. Event_ctor options = Inl (Error (''Invalid eventType: '' @ m)))
   = (\<not> (\<exists>et \<in> set allowedEventTypes. BaseEventOptions.eventType options = Some et))"
proof (cases "BaseEventOptions.eventType options")
  case None
  then show ?thesis by (simp add: Event_ctor_def)
next
  case (Some et)
  show ?thesis
  proof (cases "et \<in> set allowedEventTypes")
    case False
    with Some show ?thesis by (simp add: Event_ctor_def)
  next
    case True
    then have ne: "et \<noteq> []" by (auto simp: allowedEventTypes_def)
    have "Event_ctor options \<noteq> Inl (Error (''Invalid eventType: '' @ m))" for m
    proof (cases "BaseEventOptions.to options")
      case None
      with Some True ne show ?thesis by (simp add: Event_ctor_def opt_ctor_def ebind_def)
    next
      case (Some t)
      with \<open>BaseEventOptions.eventType options = Some et\<close> True ne
      show ?thesis
        by (auto simp: Event_ctor_def opt_ctor_def ebind_def To_ctor_def)
    qed
    with Some True show ?thesis by simp
  qed
qed

lemma bareEvent_fromObject_eventType:
  "bareEvent_fromObject et E data = Inr e \<Longrightarrow> Event.eventType e = et"
  by (auto simp: bareEvent_fromObject_def bareEvent_ctor_def ebind_Inr_iff
           dest!: Event_ctor_eventType split: if_splits)

lemma upcast_Inr: "(upcast r = Inr e) = (\<exists>x. r = Inr x \<and> e = Event.truncate x)"
  by (cases r) (auto simp: upcast_def)

lemma truncate_extend: "Event.eventType (Event.truncate (Event.extend b x)) = Event.eventType b"
  by (simp add: Event.truncate_def Event.extend_def)

lemma UtteranceEvent_ctor_eventType:
  "UtteranceEvent_ctor E opts = Inr u \<Longrightarrow> Event.eventType u = ''utterance''"
  by (auto simp: UtteranceEvent_ctor_def ebind_Inr_iff Event.extend_def
           dest!: Event_ctor_eventType split: option.splits)

lemma UtteranceEvent_fromObject_eventType:
  "UtteranceEvent_fromObject E data = Inr u \<Longrightarrow> Event.eventType u = ''utterance''"
  by (auto simp: UtteranceEvent_fromObject_def ebind_Inr_iff
           dest!: UtteranceEvent_ctor_eventType split: if_splits)

lemma ContextEvent_ctor_eventType:
  "ContextEvent_ctor E opts = Inr u \<Longrightarrow> Event.eventType u = ''context''"
  by (auto simp: ContextEvent_ctor_def ebind_Inr_iff Event.extend_def
           dest!: Event_ctor_eventType split: option.splits)

lemma ContextEvent_fromObject_eventType:
  "ContextEvent_fromObject E data = Inr u \<Longrightarrow> Event.eventType u = ''context''"
  by (auto simp: ContextEvent_fromObject_def ebind_Inr_iff Let_def
           dest!: ContextEvent_ctor_eventType split: if_splits json.splits)

lemma GetManifestsEvent_ctor_eventType:
  "GetManifestsEvent_ctor opts = Inr u \<Longrightarrow> Event.eventType u = ''getManifests''"
  by (auto simp: GetManifestsEvent_ctor_def ebind_Inr_iff Event.extend_def Let_def
           dest!: Event_ctor_eventType split: option.splits)

lemma GetManifestsEvent_fromObject_eventType:
  "GetManifestsEvent_fromObject E data = Inr u \<Longrightarrow> Event.eventType u = ''getManifests''"
  by (auto simp: GetManifestsEvent_fromObject_def ebind_Inr_iff Let_def
           dest!: GetManifestsEvent_ctor_eventType split: if_splits)

lemma PublishManifestsEvent_ctor_eventType:
  "PublishManifestsEvent_ctor opts = Inr u \<Longrightarrow> Event.eventType u = ''publishManifests''"
  by (auto simp: PublishManifestsEvent_ctor_def ebind_Inr_iff Event.extend_def
           dest!: Event_ctor_eventType split: option.splits)

lemma PublishManifestsEvent_fromObject_eventType:
  "PublishManifestsEvent_fromObject E data = Inr u \<Longrightarrow> Event.eventType u = ''publishManifests''"
  by (auto simp: PublishManifestsEvent_fromObject_def ebind_Inr_iff Let_def
           dest!: PublishManifestsEvent_ctor_eventType split: if_splits)

lemma truncate_eventType: "Event.eventType (Event.truncate x) = Event.eventType x"
  by (simp add: Event.truncate_def)

lemma createEvent_eventType:
  assumes "createEvent E data = Inr e"
  shows "get_prop data ''eventType'' = JStr (Event.eventType e)
         \<and> Event.eventType e \<in> set allowedEventTypes"
  using assms
  by (auto simp: createEvent_def Let_def upcast_Inr truncate_eventType allowedEventTypes_def
           dest: bareEvent_fromObject_eventType UtteranceEvent_fromObject_eventType
                 ContextEvent_fromObject_eventType GetManifestsEvent_fromObject_eventType
                 PublishManifestsEvent_fromObject_eventType
           split: if_splits)

lemma createEvent_unknown:
  assumes "data \<noteq> JNull" "data \<noteq> JUndefined"
    and "get_prop data ''eventType'' \<notin> JStr ` set allowedEventTypes"
  shows "createEvent E data = Inl (Error (''Unknown event type: '' @ js_toString E (get_prop data ''eventType'')))"
  using assms by (simp add: createEvent_def Let_def allowedEventTypes_def)

lemma example_bye_created:
  "createEvent example_engine (JObj [(''eventType'', JStr ''bye'')]) = Inr (example_event ''bye'' None)"
  by code_simp

text \<open>
  Claim C9, as amended. The constructor of \<open>Event\<close> succeeds exactly when the event type
  is one of the twelve strings of \<open>allowedEventTypes\<close> and the addressee, if there is
  one, has a non-empty speaker URI or service URL; it fails with \<^verbatim>\<open>Invalid eventType: ...\<close>
  exactly when the event type is not one of the twelve. An event that \<open>createEvent\<close>
  returns has the event type of the data, one of the twelve, and \<open>createEvent\<close> fails with
  \<^verbatim>\<open>Unknown event type: ...\<close> on any other event type. The singular \<^verbatim>\<open>publishManifest\<close> is
  rejected by both.
\<close>

theorem event_type_checked:
  "((\<exists>e. Event_ctor options = Inr e)
      = ((\<exists>et \<in> set allowedEventTypes. BaseEventOptions.eventType options = Some et)
         \<and> (case BaseEventOptions.to options of
               None \<Rightarrow> True
             | Some t \<Rightarrow> truthy_string (ToOptions.speakerUri t) \<or> truthy_string (ToOptions.serviceUrl t))))
   \<and> ((\<exists>m. Event_ctor options = Inl (Error (''Invalid eventType: '' @ m)))
        = (\<not> (\<exists>et \<in> set allowedEventTypes. BaseEventOptions.eventType options = Some et)))
   \<and> (\<forall>e. createEvent E data = Inr e \<longrightarrow>
          get_prop data ''eventType'' = JStr (Event.eventType e)
          \<and> Event.eventType e \<in> set allowedEventTypes)
   \<and> (other \<noteq> JNull \<and> other \<noteq> JUndefined
        \<and> get_prop other ''eventType'' \<notin> JStr ` set allowedEventTypes \<longrightarrow>
          createEvent E other
          = Inl (Error (''Unknown event type: '' @ js_toString E (get_prop other ''eventType''))))"
  using Event_ctor_succeeds[of options] Event_ctor_invalid[of options]
    createEvent_eventType[of E data] createEvent_unknown[of other E]
  by blast

theorem event_type_checked_witness:
  "(\<exists>m. Event_ctor \<lparr> BaseEventOptions.eventType = Some ''publishManifest'',
                       BaseEventOptions.to = None, BaseEventOptions.reason = None,
                       BaseEventOptions.parameters = None \<rparr>
         = Inl (Error (''Invalid eventType: '' @ m)))
   \<and> (\<exists>e. Event_ctor \<lparr> BaseEventOptions.eventType = Some ''publishManifests'',
                       BaseEventOptions.to = None, BaseEventOptions.reason = None,
                       BaseEventOptions.parameters = None \<rparr> = Inr e)
   \<and> (\<exists>e. createEvent example_engine (JObj [(''eventType'', JStr ''bye'')]) = Inr e
          \<and> Event.eventType e \<in> set allowedEventTypes)
   \<and> createEvent example_engine (JObj [(''eventType'', JStr ''publishManifest'')])
       = Inl (Error ''Unknown event type: publishManifest'')"
  using event_type_checked[of "\<lparr> BaseEventOptions.eventType = Some ''publishManifest'',
                       BaseEventOptions.to = None, BaseEventOptions.reason = None,
                       BaseEventOptions.parameters = None \<rparr>" example_engine
          "JObj [(''eventType'', JStr ''bye'')]"
          "JObj [(''eventType'', JStr ''publishManifest'')]"]
    event_type_checked[of "\<lparr> BaseEventOptions.eventType = Some ''publishManifests'',
                       BaseEventOptions.to = None, BaseEventOptions.reason = None,
                       BaseEventOptions.parameters = None \<rparr>" example_engine
          "JObj [(''eventType'', JStr ''bye'')]"
          "JObj [(''eventType'', JStr ''publishManifest'')]"]
    example_bye_created
  by (simp add: allowedEventTypes_def get_prop_def)

text \<open>
  Claim C9 as stated fails from right to left: an event type among the twelve does not
  suffice. \<^verbatim>\<open>new Event({eventType: 'bye', to: {}})\<close> raises the error of \<^verbatim>\<open>To\<close>, and
  \<^verbatim>\<open>createEvent({eventType: 'utterance'})\<close> raises for the missing parameters.
\<close>

theorem event_construction_counterexample:
  "''bye'' \<in> set allowedEventTypes
   \<and> Event_ctor \<lparr> BaseEventOptions.eventType = Some ''bye'',
                  BaseEventOptions.to =
                    Some \<lparr> ToOptions.speakerUri = None, ToOptions.serviceUrl = None,
                           ToOptions.isPrivate = None \<rparr>,
                  BaseEventOptions.reason = None, BaseEventOptions.parameters = None \<rparr>
     = Inl (Error ''To requires at least speakerUri or serviceUrl'')
   \<and> ''utterance'' \<in> set allowedEventTypes
   \<and> createEvent example_engine (JObj [(''eventType'', JStr ''utterance'')])
     = Inl (Error ''UtteranceEvent requires parameters with dialogEvent'')"
  by code_simp

section \<open>Properties of the agents\<close>

lemma newOutEnvelope_events:
  assumes "newOutEnvelope this inEnvelope = Inr out"
  shows "Envelope.events out = [] \<and> underscore_events out = None"
  using assms
  by (auto simp: newOutEnvelope_def Envelope_ctor_def ebind_Inr_iff Envelope.extend_def)

lemma processEnvelope_Inr:
  assumes "processEnvelope h this inEnvelope = Inr r"
  obtains out where "newOutEnvelope this inEnvelope = Inr out"
    and "returned r = outEnvelope (snd (h this inEnvelope out))"
    and "after r = agent (snd (h this inEnvelope out))"
    and "unhandled r = fst (h this inEnvelope out)"
proof -
  from assms obtain out where o: "newOutEnvelope this inEnvelope = Inr out"
    and c: "(case h this inEnvelope out of
               (err, w) \<Rightarrow> Inr \<lparr> returned = outEnvelope w, after = agent w, unhandled = err \<rparr>)
            = (Inr r :: error + _)"
    by (auto simp: processEnvelope_def ebind_Inr_iff)
  obtain err w where h: "h this inEnvelope out = (err, w)"
    by (cases "h this inEnvelope out")
  with c have "r = \<lparr> returned = outEnvelope w, after = agent w, unhandled = err \<rparr>" by simp
  with h o that[of out] show thesis by simp
qed

lemma set_underscore_events_events [simp]:
  "Envelope.events (outEnvelope (set_underscore_events v w)) = Envelope.events (outEnvelope w)"
  by (simp add: set_underscore_events_def)

lemma set_underscore_events_agent [simp]:
  "agent (set_underscore_events v w) = agent w"
  by (simp add: set_underscore_events_def)

lemma set_underscore_events_value [simp]:
  "underscore_events (outEnvelope (set_underscore_events v w)) = Some v"
  by (simp add: set_underscore_events_def)

lemma handleEvent_events:
  "Envelope.events (outEnvelope (snd (handleEvent E pme e inEnvelope w))) = Envelope.events (outEnvelope w)"
  by (auto simp: handleEvent_def handleInvite_def handleGrantFloor_def handleRevokeFloor_def
        handleUtterance_def handleContext_def handleUninvite_def handleGetManifests_def Let_def
        split: sum.splits option.splits)

lemma handleEvents_events:
  "Envelope.events (outEnvelope (snd (handleEvents E pme inEnvelope es w))) = Envelope.events (outEnvelope w)"
proof (induction es arbitrary: w)
  case Nil
  show ?case by simp
next
  case (Cons e es)
  obtain err w' where h: "handleEvent E pme e inEnvelope w = (err, w')"
    by (cases "handleEvent E pme e inEnvelope w")
  from handleEvent_events[of E pme e inEnvelope w] h
  have ev: "Envelope.events (outEnvelope w') = Envelope.events (outEnvelope w)" by simp
  show ?case
  proof (cases err)
    case None
    with h Cons.IH[of w'] ev show ?thesis by simp
  next
    case (Some x)
    with h ev show ?thesis by simp
  qed
qed

lemma canned_response_fails:
  "UtteranceEvent_ctor E (cannedResponse su) = Inl (Error ''DialogEvent.id is required'')"
  by (simp add: UtteranceEvent_ctor_def cannedResponse_def DialogEvent_ctor_def ebind_def)

lemma handleUtterance_raises:
  "handleUtterance E w = (Some (Error ''DialogEvent.id is required''), w)"
  by (simp add: handleUtterance_def canned_response_fails)

lemma handleEvents_utterance:
  assumes "\<exists>e \<in> set es. isUtteranceEvent e"
  shows "fst (handleEvents E pme inEnvelope es w) \<noteq> None"
  using assms
proof (induction es arbitrary: w)
  case Nil
  then show ?case by simp
next
  case (Cons e es)
  obtain err w' where h: "handleEvent E pme e inEnvelope w = (err, w')"
    by (cases "handleEvent E pme e inEnvelope w")
  show ?case
  proof (cases err)
    case (Some x)
    with h show ?thesis by simp
  next
    case None
    have "\<not> isUtteranceEvent e"
    proof
      assume u: "isUtteranceEvent e"
      then have "\<not> isInviteEvent e" by (simp add: isUtteranceEvent_def isInviteEvent_def)
      with u have "handleEvent E pme e inEnvelope w = handleUtterance E w"
        by (simp add: handleEvent_def)
      with h None show False by (simp add: handleUtterance_raises)
    qed
    with Cons.prems have "\<exists>e \<in> set es. isUtteranceEvent e" by simp
    from Cons.IH[OF this, of w'] h None show ?thesis by simp
  qed
qed

lemma handleEvents_getManifests:
  assumes "\<exists>e \<in> set es. isGetManifestsEvent e"
  shows "fst (handleEvents E None inEnvelope es w) \<noteq> None"
  using assms
proof (induction es arbitrary: w)
  case Nil
  then show ?case by simp
next
  case (Cons e es)
  obtain err w' where h: "handleEvent E None e inEnvelope w = (err, w')"
    by (cases "handleEvent E None e inEnvelope w")
  show ?case
  proof (cases err)
    case (Some x)
    with h show ?thesis by simp
  next
    case None
    have "\<not> isGetManifestsEvent e"
    proof
      assume u: "isGetManifestsEvent e"
      then have "handleEvent E None e inEnvelope w = handleGetManifests E None w"
        by (simp add: handleEvent_def isGetManifestsEvent_def isInviteEvent_def
              isUtteranceEvent_def isContextEvent_def isUninviteEvent_def isGrantFloorEvent_def
              isRevokeFloorEvent_def)
      with h None show False by (simp add: handleGetManifests_def)
    qed
    with Cons.prems have "\<exists>e \<in> set es. isGetManifestsEvent e" by simp
    from Cons.IH[OF this, of w'] h None show ?thesis by simp
  qed
qed

lemma myEvents_filter:
  "myEvents this inEnvelope = filter (spec_addressedToMe this) (Envelope.events inEnvelope)"
proof -
  have "map fst (filter (\<lambda>(event, metadata). addressedToMe metadata) (addMetadata this es))
        = filter (spec_addressedToMe this) es" for es
    by (induction es) (auto simp: addMetadata_def spec_addressedToMe_def split: option.splits)
  then show ?thesis by (simp add: myEvents_def)
qed

lemma speakerUri_currentContext [simp]:
  "speakerUri (this \<lparr> currentContext := c \<rparr>) = speakerUri this"
  by (simp add: Spec2Isabelle.speakerUri_def)

lemma serviceUrl_currentContext [simp]:
  "serviceUrl (this \<lparr> currentContext := c \<rparr>) = serviceUrl this"
  by (simp add: Spec2Isabelle.serviceUrl_def)

lemma spec_addressedToMe_currentContext [simp]:
  "spec_addressedToMe (this \<lparr> currentContext := c \<rparr>) = spec_addressedToMe this"
  by (rule ext) (simp add: spec_addressedToMe_def)




lemma example_bot_constructed: "BotAgent_ctor (Some example_manifestOptions) = Inr example_bot"
  by code_simp

lemma example_bound_bot_reached:
  "BotAgent_processEnvelope example_engine None example_bot
     (example_envelope ''conv-1'' [example_event ''invite'' None, example_event ''context'' None])
   = Inr \<lparr> returned = example_out, after = example_bound_bot, unhandled = None \<rparr>"
  by code_simp











lemma BotAgent_handleEnvelope_events:
  "Envelope.events (outEnvelope (snd (BotAgent_handleEnvelope E pme this inEnvelope out)))
   = Envelope.events out"
  by (simp add: BotAgent_handleEnvelope_def Let_def handleEvents_events)

lemma BotAgent_handleEnvelope_utterance:
  assumes "event \<in> set (Envelope.events inEnvelope)" "isUtteranceEvent event"
    and "spec_addressedToMe this event"
  shows "fst (BotAgent_handleEnvelope E pme this inEnvelope out) \<noteq> None"
proof -
  from assms have "\<exists>e \<in> set (myEvents (this \<lparr> currentContext := [] \<rparr>) inEnvelope). isUtteranceEvent e"
    by (auto simp: myEvents_filter)
  from handleEvents_utterance[OF this] show ?thesis
    by (simp add: BotAgent_handleEnvelope_def Let_def)
qed

lemma BotAgent_handleEnvelope_getManifests:
  assumes "event \<in> set (Envelope.events inEnvelope)" "isGetManifestsEvent event"
    and "spec_addressedToMe this event"
  shows "fst (BotAgent_handleEnvelope E None this inEnvelope out) \<noteq> None"
proof -
  from assms have "\<exists>e \<in> set (myEvents (this \<lparr> currentContext := [] \<rparr>) inEnvelope). isGetManifestsEvent e"
    by (auto simp: myEvents_filter)
  from handleEvents_getManifests[OF this] show ?thesis
    by (simp add: BotAgent_handleEnvelope_def Let_def)
qed

lemma example_utterance_run:
  "BotAgent_processEnvelope example_engine None example_bot
     (example_envelope ''conv-1'' [example_event ''utterance'' None])
   = Inr \<lparr> returned = example_out, after = example_bot,
           unhandled = Some (Error ''DialogEvent.id is required'') \<rparr>"
  by code_simp

lemma example_getManifests_run:
  "BotAgent_processEnvelope example_engine None example_bot
     (example_envelope ''conv-1'' [example_event ''getManifests'' None])
   = Inr \<lparr> returned = example_out, after = example_bot,
           unhandled = Some (TypeError ''PublishManifestEvent is not a function'') \<rparr>"
  by code_simp

text \<open>
  Claim C2. The envelope that \<^verbatim>\<open>processEnvelope\<close> returns has no event when the inbound
  envelope has an utterance event for the agent, and the handler has raised an error. The
  constructor of the canned response raises \<^verbatim>\<open>DialogEvent.id is required\<close> (its dialog event
  has neither \<^verbatim>\<open>id\<close> nor \<^verbatim>\<open>span\<close>); the assignment that follows is to \<^verbatim>\<open>_events\<close>, which is not
  the list \<^verbatim>\<open>events\<close> of the envelope.
\<close>

theorem utterance_not_answered:
  assumes "event \<in> set (Envelope.events inEnvelope)" "isUtteranceEvent event"
    and "spec_addressedToMe this event"
    and "BotAgent_processEnvelope E pme this inEnvelope = Inr r"
  shows "Envelope.events (returned r) = [] \<and> unhandled r \<noteq> None"
proof -
  from assms(4) obtain out where o: "newOutEnvelope this inEnvelope = Inr out"
    and r: "returned r = outEnvelope (snd (BotAgent_handleEnvelope E pme this inEnvelope out))"
    and u: "unhandled r = fst (BotAgent_handleEnvelope E pme this inEnvelope out)"
    unfolding BotAgent_processEnvelope_def by (rule processEnvelope_Inr)
  from r o have "Envelope.events (returned r) = []"
    by (simp add: BotAgent_handleEnvelope_events newOutEnvelope_events)
  moreover from u BotAgent_handleEnvelope_utterance[OF assms(1-3)] have "unhandled r \<noteq> None"
    by simp
  ultimately show ?thesis by simp
qed

theorem utterance_not_answered_witness:
  "\<exists>r. BotAgent_processEnvelope example_engine None example_bot
          (example_envelope ''conv-1'' [example_event ''utterance'' None]) = Inr r
       \<and> Envelope.events (returned r) = []
       \<and> unhandled r = Some (Error ''DialogEvent.id is required'')"
  using utterance_not_answered[of "example_event ''utterance'' None"
          "example_envelope ''conv-1'' [example_event ''utterance'' None]" example_bot
          example_engine None, OF _ _ _ example_utterance_run]
    example_utterance_run
  by (simp add: example_envelope_def isUtteranceEvent_def example_event_def spec_addressedToMe_def)

text \<open>
  Claim C4. Whatever the name \<^verbatim>\<open>PublishManifestEvent\<close> is bound to, the envelope that
  \<^verbatim>\<open>processEnvelope\<close> returns has no event when the inbound envelope has a \<^verbatim>\<open>getManifests\<close>
  event for the agent; when the name is bound to nothing, as in the source, the handler has
  raised an error.
\<close>

theorem getManifests_not_answered:
  assumes "event \<in> set (Envelope.events inEnvelope)" "isGetManifestsEvent event"
    and "spec_addressedToMe this event"
    and "BotAgent_processEnvelope E PublishManifestEvent this inEnvelope = Inr r"
  shows "Envelope.events (returned r) = []
         \<and> (PublishManifestEvent = None \<longrightarrow> unhandled r \<noteq> None)"
proof -
  from assms(4) obtain out where o: "newOutEnvelope this inEnvelope = Inr out"
    and r: "returned r = outEnvelope (snd (BotAgent_handleEnvelope E PublishManifestEvent this inEnvelope out))"
    and u: "unhandled r = fst (BotAgent_handleEnvelope E PublishManifestEvent this inEnvelope out)"
    unfolding BotAgent_processEnvelope_def by (rule processEnvelope_Inr)
  from r o have "Envelope.events (returned r) = []"
    by (simp add: BotAgent_handleEnvelope_events newOutEnvelope_events)
  moreover from u BotAgent_handleEnvelope_getManifests[OF assms(1-3)]
  have "PublishManifestEvent = None \<longrightarrow> unhandled r \<noteq> None"
    by simp
  ultimately show ?thesis by simp
qed

theorem getManifests_not_answered_witness:
  "\<exists>r. BotAgent_processEnvelope example_engine None example_bot
          (example_envelope ''conv-1'' [example_event ''getManifests'' None]) = Inr r
       \<and> Envelope.events (returned r) = []
       \<and> unhandled r = Some (TypeError ''PublishManifestEvent is not a function'')"
  using getManifests_not_answered[of "example_event ''getManifests'' None"
          "example_envelope ''conv-1'' [example_event ''getManifests'' None]" example_bot
          example_engine None, OF _ _ _ example_getManifests_run]
    example_getManifests_run
  by (simp add: example_envelope_def isGetManifestsEvent_def example_event_def spec_addressedToMe_def)

lemma forwardEvent_step:
  assumes "forwardEvent event inEnvelope w = (err, w')"
  shows "Envelope.events (outEnvelope w') = Envelope.events (outEnvelope w)"
    and "err = None \<Longrightarrow>
           underscore_events (outEnvelope w') = Some (Envelope.events (outEnvelope w) @ [event])"
    and "err = None \<Longrightarrow> isRequestFloorEvent event \<Longrightarrow>
           currentSpeaker (agent w') = Some (Sender.speakerUri (Envelope.sender inEnvelope))"
  using assms
  by (auto simp: forwardEvent_def Let_def isByeEvent_def isRequestFloorEvent_def
           split: if_splits sum.splits)

lemma forwardEvents_events:
  "Envelope.events (outEnvelope (snd (forwardEvents inEnvelope es w))) = Envelope.events (outEnvelope w)"
proof (induction es arbitrary: w)
  case Nil
  show ?case by simp
next
  case (Cons e es)
  obtain err w' where h: "forwardEvent e inEnvelope w = (err, w')"
    by (cases "forwardEvent e inEnvelope w")
  from forwardEvent_step(1)[OF h] Cons.IH[of w'] h show ?case
    by (cases err) simp_all
qed

lemma forwardEvents_last:
  assumes "forwardEvents inEnvelope es w = (None, w')" "es \<noteq> []"
  shows "underscore_events (outEnvelope w') = Some (Envelope.events (outEnvelope w) @ [last es])
         \<and> (isRequestFloorEvent (last es) \<longrightarrow>
              currentSpeaker (agent w') = Some (Sender.speakerUri (Envelope.sender inEnvelope)))"
  using assms
proof (induction es arbitrary: w)
  case Nil
  then show ?case by simp
next
  case (Cons e es)
  obtain err w1 where h: "forwardEvent e inEnvelope w = (err, w1)"
    by (cases "forwardEvent e inEnvelope w")
  from Cons.prems(1) h have n: "err = None" by (cases err) simp_all
  with Cons.prems(1) h have rest: "forwardEvents inEnvelope es w1 = (None, w')" by simp
  show ?case
  proof (cases "es = []")
    case True
    with rest have "w' = w1" by simp
    with True forwardEvent_step(2,3)[OF h n] show ?thesis by simp
  next
    case False
    from Cons.IH[OF rest False] forwardEvent_step(1)[OF h] False show ?thesis by simp
  qed
qed

lemma example_requestFloor_run:
  "FloorManager_processEnvelope example_floorManager
     (example_envelope ''conv-1'' [example_event ''requestFloor'' None])
   = Inr \<lparr> returned = example_out \<lparr> underscore_events := Some [example_event ''requestFloor'' None] \<rparr>,
           after = example_floorManager \<lparr> currentSpeaker := Some ''tag:example.com,2025:user1'' \<rparr>,
           unhandled = None \<rparr>"
  by code_simp

text \<open>
  Claim C5. The envelope that \<^verbatim>\<open>processEnvelope\<close> of a floor manager returns has no event.
  When no error was raised and the inbound envelope has events, the property \<^verbatim>\<open>_events\<close>
  holds the last inbound event alone: every assignment starts again from the empty list
  \<^verbatim>\<open>events\<close>, so that a granted floor is overwritten by the request that follows it. The
  current speaker is the sender when the last event is a request of the floor.
\<close>

theorem floor_manager_events:
  assumes "FloorManager_processEnvelope this inEnvelope = Inr r"
  shows "Envelope.events (returned r) = []
         \<and> (unhandled r = None \<and> Envelope.events inEnvelope \<noteq> [] \<longrightarrow>
              underscore_events (returned r) = Some [last (Envelope.events inEnvelope)]
              \<and> (isRequestFloorEvent (last (Envelope.events inEnvelope)) \<longrightarrow>
                   currentSpeaker (after r) = Some (Sender.speakerUri (Envelope.sender inEnvelope))))"
proof -
  from assms obtain out where o: "newOutEnvelope this inEnvelope = Inr out"
    and r: "returned r = outEnvelope (snd (FloorManager_handleEnvelope this inEnvelope out))"
    and a: "after r = agent (snd (FloorManager_handleEnvelope this inEnvelope out))"
    and u: "unhandled r = fst (FloorManager_handleEnvelope this inEnvelope out)"
    unfolding FloorManager_processEnvelope_def by (rule processEnvelope_Inr)
  let ?w = "\<lparr> agent = this, outEnvelope = out \<rparr>"
  obtain err w' where f: "forwardEvents inEnvelope (Envelope.events inEnvelope) ?w = (err, w')"
    by (cases "forwardEvents inEnvelope (Envelope.events inEnvelope) ?w")
  from o have e0: "Envelope.events out = []" by (simp add: newOutEnvelope_events)
  from forwardEvents_events[of inEnvelope "Envelope.events inEnvelope" ?w] f r e0
  have 1: "Envelope.events (returned r) = []"
    by (simp add: FloorManager_handleEnvelope_def)
  have 2: "underscore_events (returned r) = Some [last (Envelope.events inEnvelope)]
           \<and> (isRequestFloorEvent (last (Envelope.events inEnvelope)) \<longrightarrow>
                currentSpeaker (after r) = Some (Sender.speakerUri (Envelope.sender inEnvelope)))"
    if "unhandled r = None" "Envelope.events inEnvelope \<noteq> []"
  proof -
    from that(1) u f have "err = None" by (simp add: FloorManager_handleEnvelope_def)
    with f have "forwardEvents inEnvelope (Envelope.events inEnvelope) ?w = (None, w')" by simp
    from forwardEvents_last[OF this that(2)] r a f e0 show ?thesis
      by (simp add: FloorManager_handleEnvelope_def)
  qed
  from 1 2 show ?thesis by blast
qed

theorem floor_manager_events_witness:
  "\<exists>r. FloorManager_processEnvelope example_floorManager
          (example_envelope ''conv-1'' [example_event ''requestFloor'' None]) = Inr r
       \<and> Envelope.events (returned r) = []
       \<and> underscore_events (returned r) = Some [example_event ''requestFloor'' None]
       \<and> currentSpeaker (after r) = Some ''tag:example.com,2025:user1''"
  using floor_manager_events[OF example_requestFloor_run] example_requestFloor_run
  by (simp add: example_envelope_def isRequestFloorEvent_def example_event_def)

section \<open>Properties of the reconstruction\<close>

lemma get_prop_Nil [simp]: "get_prop (JObj []) k = JUndefined"
  by (simp add: get_prop_def)

lemma get_prop_Cons [simp]:
  "get_prop (JObj ((k, v) # ps)) k' = (if k' = k then v else get_prop (JObj ps) k')"
  by (simp add: get_prop_def)

lemma get_prop_string_entry [simp]:
  "get_prop (JObj (string_entry k s @ ps)) k' =
     (if k' = k \<and> truthy_string s then JStr (the s) else get_prop (JObj ps) k')"
  by (cases s) (simp_all add: string_entry_def truthy_string_def)

lemma get_prop_string_entry_last [simp]:
  "get_prop (JObj (string_entry k s)) k' =
     (if k' = k \<and> truthy_string s then JStr (the s) else JUndefined)"
  using get_prop_string_entry[of k s "[]" k'] by simp

lemma hasRequiredProperties_JObj:
  "hasRequiredProperties (JObj ps) ks = list_all (\<lambda>k. get_prop (JObj ps) k \<noteq> JUndefined) ks"
proof -
  have "get_prop (JObj ps) k \<noteq> JUndefined \<Longrightarrow> has_prop k (JObj ps)" for k
    by (cases "map_of ps k") (simp_all add: get_prop_def has_prop_def)
  then show ?thesis
    by (auto simp: hasRequiredProperties_def truthy_def typeof_def list_all_iff)
qed

lemma as_string_opt_simps [simp]:
  "as_string_opt w JUndefined = Inr None"
  "as_string_opt w (JStr s) = Inr (Some s)"
  by (simp_all add: as_string_opt_def)

lemma as_string_JStr [simp]: "as_string w (JStr s) = Inr s"
  by (simp add: as_string_def)

lemma ebind_simps [simp]:
  "ebind (Inr x) f = f x"
  "ebind (Inl e) f = Inl e"
  by (simp_all add: ebind_def)

lemma emap_as_string [simp]: "emap (as_string w) (map JStr xs) = Inr xs"
  by (induction xs) simp_all

lemma as_strings_opt_simps [simp]:
  "as_strings_opt w JUndefined = Inr None"
  "as_strings_opt w (JArr (map JStr xs)) = Inr (Some xs)"
  by (simp_all add: as_strings_opt_def)

lemma truthy_simps [simp]:
  "truthy (JObj ps)" "truthy (JArr xs)" "\<not> truthy JUndefined" "\<not> truthy JNull"
  "truthy (JStr s) = (s \<noteq> [])"
  by (simp_all add: truthy_def)

lemma typeof_simps [simp]:
  "typeof (JObj ps) = ''object''" "typeof (JArr xs) = ''object''"
  "typeof (JStr s) = ''string''" "typeof JUndefined = ''undefined''"
  by (simp_all add: typeof_def)

lemma truthy_only_idem [simp]: "truthy_only (truthy_only s) = truthy_only s"
  by (simp add: truthy_only_def)

lemma truthy_string_truthy_only [simp]: "truthy_string (truthy_only s) = truthy_string s"
  by (simp add: truthy_only_def truthy_string_def)

lemma string_entry_truthy_only [simp]: "string_entry k (truthy_only s) = string_entry k s"
  by (cases s) (simp_all add: truthy_only_def truthy_string_def string_entry_def)



subsection \<open>To\<close>


lemma To_toObject_norm [simp]: "To_toObject (To_norm t) = To_toObject t"
  by (simp add: To_toObject_def To_norm_def)

lemma To_ok_norm [simp]: "To_ok (To_norm t) = To_ok t"
  by (simp add: To_ok_def To_norm_def)

lemma To_norm_idem [simp]: "To_norm (To_norm t) = To_norm t"
  by (simp add: To_norm_def)







lemma as_record_opt_JObj [simp]: "as_record_opt (JObj ps) = Some ps"
  by (simp add: as_record_opt_def entries_def)

lemma as_record_opt_undefined [simp]: "as_record_opt JUndefined = None"
  by (simp add: as_record_opt_def)

subsection \<open>Event\<close>


lemma Event_ok_norm [simp]: "Event_ok (Event_norm e) = Event_ok e"
  by (cases "Event.to e") (simp_all add: Event_ok_def Event_norm_def)

lemma Event_norm_idem [simp]: "Event_norm (Event_norm e) = Event_norm e"
  by (cases "Event.to e") (simp_all add: Event_norm_def)





subsection \<open>Schema\<close>

lemma Schema_toObject_norm [simp]: "Schema_toObject (Schema_norm s) = Schema_toObject s"
  by (simp add: Schema_toObject_def Schema_norm_def)


lemma schemaOptions_of_norm [simp]: "Schema_ctor (schemaOptions_of (Schema_norm s)) = Schema_norm s"
  by (simp add: Schema_ctor_def schemaOptions_of_def Schema_norm_def)

subsection \<open>Sender\<close>


lemma Sender_toObject_norm [simp]: "Sender_toObject (Sender_norm s) = Sender_toObject s"
  by (simp add: Sender_toObject_def Sender_norm_def)



subsection \<open>Identification\<close>


lemma Identification_ctor_norm:
  "Identification_ctor opts = Inr i \<Longrightarrow> Identification_norm i = i"
  by (auto simp: Identification_ctor_def Identification_norm_def ebind_Inr_iff)

lemma Identification_toObject_norm [simp]:
  "Identification_toObject (Identification_norm i) = Identification_toObject i"
  by (simp add: Identification_toObject_def Identification_norm_def)

lemma Identification_ok_norm [simp]: "Identification_ok (Identification_norm i) = Identification_ok i"
  by (simp add: Identification_ok_def Identification_norm_def)

lemma Identification_required:
  assumes "Identification_ok i"
  shows "hasRequiredProperties (Identification_toObject i) identification_fields"
  using assms
  by (simp add: Identification_toObject_def hasRequiredProperties_JObj identification_fields_def
        Identification_ok_def truthy_string_def)

lemma Identification_reconstructed:
  assumes "Identification_ok i"
  shows "ebind (as_IdentificationOptions (Identification_toObject i)) Identification_ctor
         = Inr (Identification_norm i)"
  using assms
  by (auto simp: as_IdentificationOptions_def Identification_toObject_def Identification_ok_def
        truthy_string_def Identification_ctor_def required_string_def Identification_norm_def
        truthy_only_def split: option.splits)

lemma Identification_round_trip:
  assumes "Identification_ok i"
  shows "Identification_fromObject (Identification_toObject i) = Inr (Identification_norm i)"
  using Identification_required[OF assms] Identification_reconstructed[OF assms]
  by (simp add: Identification_fromObject_def)

subsection \<open>Conversant\<close>


lemma Conversant_toObject_norm [simp]: "Conversant_toObject (Conversant_norm c) = Conversant_toObject c"
  by (simp add: Conversant_toObject_def Conversant_norm_def)

lemma Conversant_ok_norm [simp]: "Conversant_ok (Conversant_norm c) = Conversant_ok c"
  by (simp add: Conversant_ok_def Conversant_norm_def)

lemma Conversant_norm_idem [simp]: "Conversant_norm (Conversant_norm c) = Conversant_norm c"
  by (simp add: Conversant_norm_def Identification_norm_def)





subsection \<open>Conversation\<close>



lemma Conversation_toObject_norm [simp]:
  "Conversation_toObject (Conversation_norm c) = Conversation_toObject c"
  by (simp add: Conversation_toObject_def Conversation_norm_def comp_def)

lemma Conversation_ok_norm [simp]: "Conversation_ok (Conversation_norm c) = Conversation_ok c"
  by (simp add: Conversation_ok_def Conversation_norm_def list_all_iff)

lemma Conversation_norm_idem [simp]: "Conversation_norm (Conversation_norm c) = Conversation_norm c"
  by (simp add: Conversation_norm_def comp_def)



subsection \<open>Envelope\<close>




subsection \<open>Manifest\<close>






lemma Manifest_ctor_norm: "Manifest_ctor opts = Inr m \<Longrightarrow> Manifest_norm m = m"
  by (auto simp: Manifest_ctor_def Manifest_norm_def ebind_Inr_iff
           dest: Identification_ctor_norm split: option.splits)



subsection \<open>Span\<close>








lemma offset_norm_None [simp]: "(offset_norm ov = None) = (ov = None)"
  by (auto simp: offset_norm_def split: option.splits offsetval.splits)






lemma get_prop_append_miss:
  assumes "k \<notin> fst ` set xs"
  shows "get_prop (JObj (xs @ ys)) k = get_prop (JObj ys) k"
proof -
  from assms have "map_of xs k = None" by (simp add: map_of_eq_None_iff)
  then show ?thesis by (simp add: get_prop_def map_add_def)
qed

lemma get_prop_time_json [simp]:
  "get_prop (JObj (time_json E k tv @ ps)) k' =
     (case tv of
        Some (ADate (ValidDate t)) \<Rightarrow> if k' = k then JStr (dateToISOString E t) else get_prop (JObj ps) k'
      | _ \<Rightarrow> get_prop (JObj ps) k')"
  by (auto simp: time_json_def split: option.splits timeval.splits jsdate.splits)

lemma get_prop_offset_entry [simp]:
  "get_prop (JObj (offset_entry E k ov @ ps)) k' =
     (if k' = k \<and> ov \<noteq> None then snd (hd (offset_entry E k ov)) else get_prop (JObj ps) k')"
  by (auto simp: offset_entry_def split: option.splits offsetval.splits)

lemma get_prop_offset_entry_last [simp]:
  "get_prop (JObj (offset_entry E k ov)) k' =
     (if k' = k \<and> ov \<noteq> None then snd (hd (offset_entry E k ov)) else JUndefined)"
  by (auto simp: offset_entry_def split: option.splits offsetval.splits)




subsection \<open>Token\<close>

lemma get_prop_if [simp]:
  "get_prop (JObj ((if b then [(k, v)] else []) @ ps)) k' =
     (if b \<and> k' = k then v else get_prop (JObj ps) k')"
  by simp

lemma get_prop_if_last [simp]:
  "get_prop (JObj (if b then [(k, v)] else [])) k' = (if b \<and> k' = k then v else JUndefined)"
  by simp

lemma as_number_opt_simps [simp]:
  "as_number_opt w JUndefined = Inr None"
  "as_number_opt w (JNum n) = Inr (Some n)"
  by (simp_all add: as_number_opt_def)

lemma get_prop_confidence_json [simp]:
  "get_prop (JObj (confidence_json c @ ps)) k =
     (case c of None \<Rightarrow> get_prop (JObj ps) k
      | Some x \<Rightarrow> if k = ''confidence'' then JNum x else get_prop (JObj ps) k)"
  by (simp add: confidence_json_def split: option.splits)


lemma Token_ok_norm [simp]: "Token_ok (Token_norm tok) = Token_ok tok"
  by (simp add: Token_ok_def Token_norm_def)

lemma Token_json_norm [simp]: "Token_json (Token_norm tok) = Token_json tok"
  by (simp add: Token_json_def Token_norm_def)

lemma Token_norm_idem [simp]: "Token_norm (Token_norm tok) = Token_norm tok"
  by (simp add: Token_norm_def)







subsection \<open>Feature\<close>



lemma isArray_JArr [simp]: "isArray (JArr xs)"
  by (simp add: isArray_def)

lemma elements_JArr [simp]: "elements (JArr xs) = xs"
  by (simp add: elements_def)



lemma Feature_ok_norm [simp]: "Feature_ok (Feature_norm f) = Feature_ok f"
  by (cases "Feature.encoding f")
     (auto simp: Feature_ok_def Feature_norm_def list_all_iff truthy_only_def truthy_string_def)

lemma Feature_json_norm [simp]: "Feature_json (Feature_norm f) = Feature_json f"
  by (simp add: Feature_json_def Feature_norm_def comp_def)






subsection \<open>DialogEvent\<close>









lemma is_feature_data_json [simp]: "is_feature_data (Feature_json f)"
  by (simp add: is_feature_data_def Feature_json_def)











end
